theory Spec2Isabelle
  imports Complex_Main
begin

text \<open>
  The server actions of the ad copy assistant (\<open>src/actions/index.ts\<close>) over the three
  tables of \<open>db/config.ts\<close>: campaigns, the ad copies stored under them, and the
  performance records logged for ad copies. Each action is an input schema and a handler;
  a handler resolves the signed-in user, checks ownership, and issues statements against
  the store. The handlers are embedded as functions from the input, the request context,
  the environment (generated id, current time) and the store to a result and the store
  afterwards; a thrown \<open>ActionError\<close> is the result \<open>Inl\<close>.
\<close>

section \<open>Rows of the three tables\<close>

text \<open>
  The schema declares three tables. A column declared \<open>optional: true\<close> holds a value or
  NULL, and a row read from the store has the property value \<open>null\<close> for a column that is
  NULL: the property is present, it is not \<open>undefined\<close>. A \<open>Date\<close> is modelled by its time
  value (milliseconds since the epoch), a \<open>number\<close> by a real: the handlers only store and
  return such values.
\<close>

type_synonym date = int
type_synonym number = real

datatype 'a nullable = Null | Value 'a

record campaign =
  c_id :: string
  c_userId :: string
  c_name :: string
  c_objective :: "string nullable"
  c_productName :: "string nullable"
  c_targetAudience :: "string nullable"
  c_notes :: "string nullable"
  c_createdAt :: date
  c_updatedAt :: date

record adCopy =
  a_id :: string
  a_campaignId :: string
  a_userId :: string
  a_platform :: "string nullable"
  a_headline :: "string nullable"
  a_primaryText :: string
  a_description :: "string nullable"
  a_callToAction :: "string nullable"
  a_tone :: "string nullable"
  a_variantLabel :: "string nullable"
  a_url :: "string nullable"
  a_createdAt :: date
  a_updatedAt :: date

record performance =
  p_id :: string
  p_adCopyId :: string
  p_date :: "date nullable"
  p_impressions :: "number nullable"
  p_clicks :: "number nullable"
  p_conversions :: "number nullable"
  p_spend :: "number nullable"
  p_currency :: "string nullable"
  p_notes :: "string nullable"

section \<open>The store\<close>

text \<open>
  The store is the three tables, each a list of rows in storage order, together with the
  list of statements issued so far (oldest first). The statement list records every
  access to the store, so that "no store access" and the order of the ownership lookups
  can be stated.
\<close>

datatype table = T_AdCampaigns | T_AdCopies | T_AdPerformance

datatype stmt = SELECT table | INSERT table | UPDATE table | DELETE table

record db =
  AdCampaigns :: "campaign list"
  AdCopies :: "adCopy list"
  AdPerformance :: "performance list"
  statements :: "stmt list"

definition run_stmt :: "stmt \<Rightarrow> db \<Rightarrow> db" where
  "run_stmt st s = s\<lparr>statements := statements s @ [st]\<rparr>"

text \<open>
  A statement the store refuses throws; the handlers do not catch it. The schema makes
  \<open>id\<close> the primary key of each table, \<open>AdCopies.campaignId\<close> a reference to
  \<open>AdCampaigns.id\<close> and \<open>AdPerformance.adCopyId\<close> a reference to \<open>AdCopies.id\<close>. A refused
  statement changes no row. Reading back an integer outside the safe range of a
  \<open>number\<close> throws too, after the statement has taken effect.
\<close>

datatype failure = UNIQUE_constraint_failed | FOREIGN_KEY_constraint_failed | Unsafe_integer

text \<open>
  A property that is \<open>undefined\<close> in the object given to \<open>values\<close> is written as NULL.
\<close>

primrec written :: "'a option \<Rightarrow> 'a nullable" where
  "written None = Null"
| "written (Some v) = Value v"

text \<open>
  A text value written to a column is read back only up to its first NUL character; the
  tables of the model hold each row as the store reads it back. The key columns (\<open>id\<close>,
  \<open>userId\<close>, \<open>campaignId\<close>, \<open>adCopyId\<close>) hold generated ids, the id of the signed-in user
  and ids that a guard has matched against a stored id; they are kept as given.
\<close>

definition stored_text :: "string \<Rightarrow> string" where
  "stored_text v = takeWhile (\<lambda>c. c \<noteq> CHR 0x00) v"

definition stored_campaign :: "campaign \<Rightarrow> campaign" where
  "stored_campaign r =
     r\<lparr>c_name := stored_text (c_name r),
       c_objective := map_nullable stored_text (c_objective r),
       c_productName := map_nullable stored_text (c_productName r),
       c_targetAudience := map_nullable stored_text (c_targetAudience r),
       c_notes := map_nullable stored_text (c_notes r)\<rparr>"

definition stored_adCopy :: "adCopy \<Rightarrow> adCopy" where
  "stored_adCopy r =
     r\<lparr>a_platform := map_nullable stored_text (a_platform r),
       a_headline := map_nullable stored_text (a_headline r),
       a_primaryText := stored_text (a_primaryText r),
       a_description := map_nullable stored_text (a_description r),
       a_callToAction := map_nullable stored_text (a_callToAction r),
       a_tone := map_nullable stored_text (a_tone r),
       a_variantLabel := map_nullable stored_text (a_variantLabel r),
       a_url := map_nullable stored_text (a_url r)\<rparr>"

definition stored_performance :: "performance \<Rightarrow> performance" where
  "stored_performance r =
     r\<lparr>p_currency := map_nullable stored_text (p_currency r),
       p_notes := map_nullable stored_text (p_notes r)\<rparr>"

text \<open>
  A \<open>number\<close> column keeps an integral value of magnitude below \<open>2^63\<close> as an integer, and
  an integer of magnitude \<open>2^53\<close> or more cannot be read back as a \<open>number\<close>.
\<close>

definition unsafe_integer :: "number \<Rightarrow> bool" where
  "unsafe_integer v \<longleftrightarrow> of_int \<lfloor>v\<rfloor> = v \<and> 2 ^ 53 \<le> \<bar>v\<bar> \<and> \<bar>v\<bar> < 2 ^ 63"

definition unsafe_column :: "number nullable \<Rightarrow> bool" where
  "unsafe_column c = (case c of Null \<Rightarrow> False | Value v \<Rightarrow> unsafe_integer v)"

definition unreadable :: "performance \<Rightarrow> bool" where
  "unreadable r \<longleftrightarrow>
     unsafe_column (p_impressions r) \<or> unsafe_column (p_clicks r)
     \<or> unsafe_column (p_conversions r) \<or> unsafe_column (p_spend r)"

text \<open>\<open>db.select().from(T).where(P)\<close>: the rows of \<open>T\<close> that satisfy \<open>P\<close>.\<close>

definition select_AdCampaigns :: "(campaign \<Rightarrow> bool) \<Rightarrow> db \<Rightarrow> campaign list \<times> db" where
  "select_AdCampaigns P s = (filter P (AdCampaigns s), run_stmt (SELECT T_AdCampaigns) s)"

definition select_AdCopies :: "(adCopy \<Rightarrow> bool) \<Rightarrow> db \<Rightarrow> adCopy list \<times> db" where
  "select_AdCopies P s = (filter P (AdCopies s), run_stmt (SELECT T_AdCopies) s)"

definition select_AdPerformance ::
  "(performance \<Rightarrow> bool) \<Rightarrow> db \<Rightarrow> (failure + performance list) \<times> db" where
  "select_AdPerformance P s =
     (if list_ex unreadable (filter P (AdPerformance s)) then Inl Unsafe_integer
      else Inr (filter P (AdPerformance s)),
      run_stmt (SELECT T_AdPerformance) s)"

text \<open>
  \<open>db.insert(T).values(r).returning()\<close>: appends the row as the store keeps it and returns
  the inserted rows, unless the id is already a key of the table or a reference has no
  target.
\<close>

definition insert_AdCampaigns :: "campaign \<Rightarrow> db \<Rightarrow> (failure + campaign list) \<times> db" where
  "insert_AdCampaigns r s =
     (if c_id r \<in> c_id ` set (AdCampaigns s)
      then (Inl UNIQUE_constraint_failed, run_stmt (INSERT T_AdCampaigns) s)
      else (Inr [stored_campaign r],
            run_stmt (INSERT T_AdCampaigns)
              (s\<lparr>AdCampaigns := AdCampaigns s @ [stored_campaign r]\<rparr>)))"

definition insert_AdCopies :: "adCopy \<Rightarrow> db \<Rightarrow> (failure + adCopy list) \<times> db" where
  "insert_AdCopies r s =
     (if a_id r \<in> a_id ` set (AdCopies s)
      then (Inl UNIQUE_constraint_failed, run_stmt (INSERT T_AdCopies) s)
      else if a_campaignId r \<notin> c_id ` set (AdCampaigns s)
      then (Inl FOREIGN_KEY_constraint_failed, run_stmt (INSERT T_AdCopies) s)
      else (Inr [stored_adCopy r],
            run_stmt (INSERT T_AdCopies) (s\<lparr>AdCopies := AdCopies s @ [stored_adCopy r]\<rparr>)))"

definition insert_AdPerformance ::
  "performance \<Rightarrow> db \<Rightarrow> (failure + performance list) \<times> db" where
  "insert_AdPerformance r s =
     (if p_id r \<in> p_id ` set (AdPerformance s)
      then (Inl UNIQUE_constraint_failed, run_stmt (INSERT T_AdPerformance) s)
      else if p_adCopyId r \<notin> a_id ` set (AdCopies s)
      then (Inl FOREIGN_KEY_constraint_failed, run_stmt (INSERT T_AdPerformance) s)
      else (if unreadable r then Inl Unsafe_integer else Inr [stored_performance r],
            run_stmt (INSERT T_AdPerformance)
              (s\<lparr>AdPerformance := AdPerformance s @ [stored_performance r]\<rparr>)))"

text \<open>
  The object given to \<open>set\<close>: a key for each column to assign (\<open>None\<close>: no key), and
  \<open>updatedAt\<close>. No handler assigns a key column.
\<close>

record campaignSet =
  cs_name :: "string option"
  cs_objective :: "string option"
  cs_productName :: "string option"
  cs_targetAudience :: "string option"
  cs_notes :: "string option"
  cs_updatedAt :: date

record adCopySet =
  as_platform :: "string option"
  as_headline :: "string option"
  as_primaryText :: "string option"
  as_description :: "string option"
  as_callToAction :: "string option"
  as_tone :: "string option"
  as_variantLabel :: "string option"
  as_url :: "string option"
  as_updatedAt :: date

definition assign_campaign :: "campaignSet \<Rightarrow> campaign \<Rightarrow> campaign" where
  "assign_campaign v r =
     r\<lparr>c_name := (case cs_name v of None \<Rightarrow> c_name r | Some x \<Rightarrow> stored_text x),
       c_objective :=
         (case cs_objective v of None \<Rightarrow> c_objective r | Some x \<Rightarrow> Value (stored_text x)),
       c_productName :=
         (case cs_productName v of None \<Rightarrow> c_productName r | Some x \<Rightarrow> Value (stored_text x)),
       c_targetAudience :=
         (case cs_targetAudience v of None \<Rightarrow> c_targetAudience r
          | Some x \<Rightarrow> Value (stored_text x)),
       c_notes := (case cs_notes v of None \<Rightarrow> c_notes r | Some x \<Rightarrow> Value (stored_text x)),
       c_updatedAt := cs_updatedAt v\<rparr>"

definition assign_adCopy :: "adCopySet \<Rightarrow> adCopy \<Rightarrow> adCopy" where
  "assign_adCopy v r =
     r\<lparr>a_platform :=
         (case as_platform v of None \<Rightarrow> a_platform r | Some x \<Rightarrow> Value (stored_text x)),
       a_headline :=
         (case as_headline v of None \<Rightarrow> a_headline r | Some x \<Rightarrow> Value (stored_text x)),
       a_primaryText :=
         (case as_primaryText v of None \<Rightarrow> a_primaryText r | Some x \<Rightarrow> stored_text x),
       a_description :=
         (case as_description v of None \<Rightarrow> a_description r | Some x \<Rightarrow> Value (stored_text x)),
       a_callToAction :=
         (case as_callToAction v of None \<Rightarrow> a_callToAction r
          | Some x \<Rightarrow> Value (stored_text x)),
       a_tone := (case as_tone v of None \<Rightarrow> a_tone r | Some x \<Rightarrow> Value (stored_text x)),
       a_variantLabel :=
         (case as_variantLabel v of None \<Rightarrow> a_variantLabel r
          | Some x \<Rightarrow> Value (stored_text x)),
       a_url := (case as_url v of None \<Rightarrow> a_url r | Some x \<Rightarrow> Value (stored_text x)),
       a_updatedAt := as_updatedAt v\<rparr>"

text \<open>
  \<open>db.update(T).set(v).where(P).returning()\<close>: assigns the columns of \<open>v\<close> in every row
  that satisfies \<open>P\<close> and returns the rows as updated.
\<close>

definition update_AdCampaigns ::
  "campaignSet \<Rightarrow> (campaign \<Rightarrow> bool) \<Rightarrow> db \<Rightarrow> campaign list \<times> db" where
  "update_AdCampaigns v P s =
     (map (assign_campaign v) (filter P (AdCampaigns s)),
      run_stmt (UPDATE T_AdCampaigns)
        (s\<lparr>AdCampaigns := map (\<lambda>r. if P r then assign_campaign v r else r) (AdCampaigns s)\<rparr>))"

definition update_AdCopies ::
  "adCopySet \<Rightarrow> (adCopy \<Rightarrow> bool) \<Rightarrow> db \<Rightarrow> adCopy list \<times> db" where
  "update_AdCopies v P s =
     (map (assign_adCopy v) (filter P (AdCopies s)),
      run_stmt (UPDATE T_AdCopies)
        (s\<lparr>AdCopies := map (\<lambda>r. if P r then assign_adCopy v r else r) (AdCopies s)\<rparr>))"

text \<open>
  \<open>db.delete(T).where(P)\<close>: removes the rows that satisfy \<open>P\<close>; the result is
  \<open>rowsAffected\<close>. The store refuses the statement when a performance record references a
  row it would remove.
\<close>

definition delete_AdCopies :: "(adCopy \<Rightarrow> bool) \<Rightarrow> db \<Rightarrow> (failure + nat) \<times> db" where
  "delete_AdCopies P s =
     (if list_ex (\<lambda>p. p_adCopyId p \<in> a_id ` set (filter P (AdCopies s))) (AdPerformance s)
      then (Inl FOREIGN_KEY_constraint_failed, run_stmt (DELETE T_AdCopies) s)
      else (Inr (length (filter P (AdCopies s))),
            run_stmt (DELETE T_AdCopies)
              (s\<lparr>AdCopies := filter (\<lambda>r. \<not> P r) (AdCopies s)\<rparr>)))"

text \<open>The array destructuring \<open>const [x] = rows\<close>: the first row, or undefined.\<close>

definition first :: "'a list \<Rightarrow> 'a option" where
  "first xs = (case xs of [] \<Rightarrow> None | x # _ \<Rightarrow> Some x)"

text \<open>
  The ids of a table are distinct: the store keeps this, since an insert with an id that
  is already a key is refused.
\<close>

definition wf :: "db \<Rightarrow> bool" where
  "wf s \<longleftrightarrow> distinct (map c_id (AdCampaigns s)) \<and> distinct (map a_id (AdCopies s))
     \<and> distinct (map p_id (AdPerformance s))"

section \<open>Errors, request context, environment\<close>

datatype code = UNAUTHORIZED | NOT_FOUND

text \<open>
  An issue of the input schema: a string shorter than its \<open>min(1)\<close> (with the field's
  name), or a failed \<open>refine\<close> (with its message).
\<close>

datatype issue = too_small string | custom string

text \<open>
  What an action throws: an \<open>ActionError\<close> of a handler, the input error of the schema,
  or the failure of a statement, which no handler catches.
\<close>

datatype error = ActionError code string | ActionInputError "issue list" | StoreError failure

record user =
  uid :: string

record locals =
  l_user :: "user option"

record actionContext =
  ctx_locals :: "locals option"

text \<open>
  What a handler takes from its environment: the value of \<open>crypto.randomUUID()\<close> and of
  \<open>new Date()\<close>. No handler calls either more than once.
\<close>

record env =
  randomUUID :: string
  newDate :: date

type_synonym 'a result = "(error + 'a) \<times> db"

text \<open>The value of \<open>locals?.user\<close>.\<close>

definition locals_user :: "actionContext \<Rightarrow> user option" where
  "locals_user ctx = (case ctx_locals ctx of None \<Rightarrow> None | Some l \<Rightarrow> l_user l)"

definition requireUser :: "actionContext \<Rightarrow> error + user" where
  "requireUser ctx =
     (case locals_user ctx of
        None \<Rightarrow> Inl (ActionError UNAUTHORIZED ''You must be signed in to perform this action.'')
      | Some user \<Rightarrow> Inr user)"

definition getOwnedCampaign :: "string \<Rightarrow> string \<Rightarrow> db \<Rightarrow> campaign result" where
  "getOwnedCampaign campaignId userId s =
     (case select_AdCampaigns (\<lambda>r. c_id r = campaignId \<and> c_userId r = userId) s of
        (found, s1) \<Rightarrow>
          (case first found of
             None \<Rightarrow> (Inl (ActionError NOT_FOUND ''Campaign not found.''), s1)
           | Some campaign \<Rightarrow> (Inr campaign, s1)))"

definition getOwnedAdCopy :: "string \<Rightarrow> string \<Rightarrow> db \<Rightarrow> adCopy result" where
  "getOwnedAdCopy adCopyId userId s =
     (case select_AdCopies (\<lambda>r. a_id r = adCopyId \<and> a_userId r = userId) s of
        (found, s1) \<Rightarrow>
          (case first found of
             None \<Rightarrow> (Inl (ActionError NOT_FOUND ''Ad copy not found.''), s1)
           | Some adCopy \<Rightarrow> (Inr adCopy, s1)))"

text \<open>
  \<open>defineAction({input, handler})\<close>: the input is checked against the schema first; the
  handler runs only on an input without issues.
\<close>

definition defineAction ::
  "('i \<Rightarrow> issue list) \<Rightarrow> ('i \<Rightarrow> actionContext \<Rightarrow> env \<Rightarrow> db \<Rightarrow> 'r result)
     \<Rightarrow> 'i \<Rightarrow> actionContext \<Rightarrow> env \<Rightarrow> db \<Rightarrow> 'r result" where
  "defineAction schema handler input ctx e s =
     (case schema input of
        [] \<Rightarrow> handler input ctx e s
      | i # is \<Rightarrow> (Inl (ActionInputError (i # is)), s))"

text \<open>\<open>z.string().min(1)\<close> on the field named \<open>f\<close>.\<close>

definition min1 :: "string \<Rightarrow> string \<Rightarrow> issue list" where
  "min1 f v = (if length v < 1 then [too_small f] else [])"

section \<open>Inputs of the nine actions\<close>

text \<open>An optional field of an input is \<open>None\<close> when the caller left it undefined.\<close>

record createCampaignInput =
  cc_name :: string
  cc_objective :: "string option"
  cc_productName :: "string option"
  cc_targetAudience :: "string option"
  cc_notes :: "string option"

record updateCampaignInput =
  uc_id :: string
  uc_name :: "string option"
  uc_objective :: "string option"
  uc_productName :: "string option"
  uc_targetAudience :: "string option"
  uc_notes :: "string option"

record createAdCopyInput =
  ca_campaignId :: string
  ca_platform :: "string option"
  ca_headline :: "string option"
  ca_primaryText :: string
  ca_description :: "string option"
  ca_callToAction :: "string option"
  ca_tone :: "string option"
  ca_variantLabel :: "string option"
  ca_url :: "string option"

record updateAdCopyInput =
  ua_id :: string
  ua_campaignId :: string
  ua_platform :: "string option"
  ua_headline :: "string option"
  ua_primaryText :: "string option"
  ua_description :: "string option"
  ua_callToAction :: "string option"
  ua_tone :: "string option"
  ua_variantLabel :: "string option"
  ua_url :: "string option"

record deleteAdCopyInput =
  da_id :: string
  da_campaignId :: string

record listAdCopiesInput =
  la_campaignId :: string

record logAdPerformanceInput =
  lp_adCopyId :: string
  lp_date :: "date option"
  lp_impressions :: "number option"
  lp_clicks :: "number option"
  lp_conversions :: "number option"
  lp_spend :: "number option"
  lp_currency :: "string option"
  lp_notes :: "string option"

record listAdPerformanceInput =
  lf_adCopyId :: string

text \<open>The result of a list action: \<open>{ items, total }\<close>.\<close>

record 'a listing =
  items :: "'a list"
  total :: nat

section \<open>Input schemas\<close>

definition createCampaign_input :: "createCampaignInput \<Rightarrow> issue list" where
  "createCampaign_input i = min1 ''name'' (cc_name i)"

definition updateCampaign_refine :: "updateCampaignInput \<Rightarrow> bool" where
  "updateCampaign_refine i \<longleftrightarrow>
     uc_name i \<noteq> None \<or> uc_objective i \<noteq> None \<or> uc_productName i \<noteq> None
     \<or> uc_targetAudience i \<noteq> None \<or> uc_notes i \<noteq> None"

definition updateCampaign_input :: "updateCampaignInput \<Rightarrow> issue list" where
  "updateCampaign_input i =
     min1 ''id'' (uc_id i)
     @ (case uc_name i of None \<Rightarrow> [] | Some v \<Rightarrow> min1 ''name'' v)
     @ (if updateCampaign_refine i then []
        else [custom ''At least one field must be provided to update.''])"

definition listCampaigns_input :: "unit \<Rightarrow> issue list" where
  "listCampaigns_input i = []"

definition createAdCopy_input :: "createAdCopyInput \<Rightarrow> issue list" where
  "createAdCopy_input i = min1 ''campaignId'' (ca_campaignId i) @ min1 ''primaryText'' (ca_primaryText i)"

definition updateAdCopy_refine :: "updateAdCopyInput \<Rightarrow> bool" where
  "updateAdCopy_refine i \<longleftrightarrow>
     ua_platform i \<noteq> None \<or> ua_headline i \<noteq> None \<or> ua_primaryText i \<noteq> None
     \<or> ua_description i \<noteq> None \<or> ua_callToAction i \<noteq> None \<or> ua_tone i \<noteq> None
     \<or> ua_variantLabel i \<noteq> None \<or> ua_url i \<noteq> None"

definition updateAdCopy_input :: "updateAdCopyInput \<Rightarrow> issue list" where
  "updateAdCopy_input i =
     min1 ''id'' (ua_id i) @ min1 ''campaignId'' (ua_campaignId i)
     @ (if updateAdCopy_refine i then []
        else [custom ''At least one field must be provided to update.''])"

definition deleteAdCopy_input :: "deleteAdCopyInput \<Rightarrow> issue list" where
  "deleteAdCopy_input i = min1 ''id'' (da_id i) @ min1 ''campaignId'' (da_campaignId i)"

definition listAdCopies_input :: "listAdCopiesInput \<Rightarrow> issue list" where
  "listAdCopies_input i = min1 ''campaignId'' (la_campaignId i)"

definition logAdPerformance_input :: "logAdPerformanceInput \<Rightarrow> issue list" where
  "logAdPerformance_input i = min1 ''adCopyId'' (lp_adCopyId i)"

definition listAdPerformance_input :: "listAdPerformanceInput \<Rightarrow> issue list" where
  "listAdPerformance_input i = min1 ''adCopyId'' (lf_adCopyId i)"

section \<open>Handlers\<close>

text \<open>
  The row that \<open>values\<close> is given: the generated id, the caller, the time of the call and
  the properties of the input.
\<close>

definition createCampaign_values ::
  "createCampaignInput \<Rightarrow> user \<Rightarrow> string \<Rightarrow> date \<Rightarrow> campaign" where
  "createCampaign_values input user uuid now =
     \<lparr>c_id = uuid, c_userId = uid user, c_name = cc_name input,
      c_objective = written (cc_objective input),
      c_productName = written (cc_productName input),
      c_targetAudience = written (cc_targetAudience input),
      c_notes = written (cc_notes input),
      c_createdAt = now, c_updatedAt = now\<rparr>"

definition createCampaign_handler ::
  "createCampaignInput \<Rightarrow> actionContext \<Rightarrow> env \<Rightarrow> db \<Rightarrow> campaign option result" where
  "createCampaign_handler input ctx e s =
     (case requireUser ctx of
        Inl err \<Rightarrow> (Inl err, s)
      | Inr user \<Rightarrow>
          (let now = newDate e in
           (case insert_AdCampaigns (createCampaign_values input user (randomUUID e) now) s of
              (Inl f, s1) \<Rightarrow> (Inl (StoreError f), s1)
            | (Inr returned, s1) \<Rightarrow> (Inr (first returned), s1))))"

text \<open>
  The object given to \<open>set\<close> holds a key for each supplied field, and \<open>updatedAt\<close>.
\<close>

definition updateCampaign_set :: "updateCampaignInput \<Rightarrow> date \<Rightarrow> campaignSet" where
  "updateCampaign_set input now =
     \<lparr>cs_name = uc_name input, cs_objective = uc_objective input,
      cs_productName = uc_productName input, cs_targetAudience = uc_targetAudience input,
      cs_notes = uc_notes input, cs_updatedAt = now\<rparr>"

definition updateCampaign_handler ::
  "updateCampaignInput \<Rightarrow> actionContext \<Rightarrow> env \<Rightarrow> db \<Rightarrow> campaign option result" where
  "updateCampaign_handler input ctx e s =
     (case requireUser ctx of
        Inl err \<Rightarrow> (Inl err, s)
      | Inr user \<Rightarrow>
          (case getOwnedCampaign (uc_id input) (uid user) s of
             (Inl err, s1) \<Rightarrow> (Inl err, s1)
           | (Inr owned, s1) \<Rightarrow>
               (case update_AdCampaigns (updateCampaign_set input (newDate e))
                       (\<lambda>r. c_id r = uc_id input) s1 of
                  (returned, s2) \<Rightarrow> (Inr (first returned), s2))))"

definition listCampaigns_handler ::
  "unit \<Rightarrow> actionContext \<Rightarrow> env \<Rightarrow> db \<Rightarrow> campaign listing result" where
  "listCampaigns_handler input ctx e s =
     (case requireUser ctx of
        Inl err \<Rightarrow> (Inl err, s)
      | Inr user \<Rightarrow>
          (case select_AdCampaigns (\<lambda>r. c_userId r = uid user) s of
             (campaigns, s1) \<Rightarrow> (Inr \<lparr>items = campaigns, total = length campaigns\<rparr>, s1)))"

definition createAdCopy_values ::
  "createAdCopyInput \<Rightarrow> user \<Rightarrow> string \<Rightarrow> date \<Rightarrow> adCopy" where
  "createAdCopy_values input user uuid now =
     \<lparr>a_id = uuid, a_campaignId = ca_campaignId input, a_userId = uid user,
      a_platform = written (ca_platform input), a_headline = written (ca_headline input),
      a_primaryText = ca_primaryText input,
      a_description = written (ca_description input),
      a_callToAction = written (ca_callToAction input), a_tone = written (ca_tone input),
      a_variantLabel = written (ca_variantLabel input), a_url = written (ca_url input),
      a_createdAt = now, a_updatedAt = now\<rparr>"

definition createAdCopy_handler ::
  "createAdCopyInput \<Rightarrow> actionContext \<Rightarrow> env \<Rightarrow> db \<Rightarrow> adCopy option result" where
  "createAdCopy_handler input ctx e s =
     (case requireUser ctx of
        Inl err \<Rightarrow> (Inl err, s)
      | Inr user \<Rightarrow>
          (case getOwnedCampaign (ca_campaignId input) (uid user) s of
             (Inl err, s1) \<Rightarrow> (Inl err, s1)
           | (Inr owned, s1) \<Rightarrow>
               (let now = newDate e in
                (case insert_AdCopies (createAdCopy_values input user (randomUUID e) now) s1 of
                   (Inl f, s2) \<Rightarrow> (Inl (StoreError f), s2)
                 | (Inr returned, s2) \<Rightarrow> (Inr (first returned), s2)))))"

definition updateAdCopy_set :: "updateAdCopyInput \<Rightarrow> date \<Rightarrow> adCopySet" where
  "updateAdCopy_set input now =
     \<lparr>as_platform = ua_platform input, as_headline = ua_headline input,
      as_primaryText = ua_primaryText input, as_description = ua_description input,
      as_callToAction = ua_callToAction input, as_tone = ua_tone input,
      as_variantLabel = ua_variantLabel input, as_url = ua_url input, as_updatedAt = now\<rparr>"

definition updateAdCopy_handler ::
  "updateAdCopyInput \<Rightarrow> actionContext \<Rightarrow> env \<Rightarrow> db \<Rightarrow> adCopy option result" where
  "updateAdCopy_handler input ctx e s =
     (case requireUser ctx of
        Inl err \<Rightarrow> (Inl err, s)
      | Inr user \<Rightarrow>
          (case getOwnedCampaign (ua_campaignId input) (uid user) s of
             (Inl err, s1) \<Rightarrow> (Inl err, s1)
           | (Inr owned, s1) \<Rightarrow>
               (case select_AdCopies
                       (\<lambda>r. a_id r = ua_id input \<and> a_campaignId r = ua_campaignId input
                            \<and> a_userId r = uid user) s1 of
                  (found, s2) \<Rightarrow>
                    (case first found of
                       None \<Rightarrow> (Inl (ActionError NOT_FOUND ''Ad copy not found.''), s2)
                     | Some existing \<Rightarrow>
                         (case update_AdCopies (updateAdCopy_set input (newDate e))
                                 (\<lambda>r. a_id r = ua_id input) s2 of
                            (returned, s3) \<Rightarrow> (Inr (first returned), s3))))))"

definition deleteAdCopy_handler ::
  "deleteAdCopyInput \<Rightarrow> actionContext \<Rightarrow> env \<Rightarrow> db \<Rightarrow> unit result" where
  "deleteAdCopy_handler input ctx e s =
     (case requireUser ctx of
        Inl err \<Rightarrow> (Inl err, s)
      | Inr user \<Rightarrow>
          (case getOwnedCampaign (da_campaignId input) (uid user) s of
             (Inl err, s1) \<Rightarrow> (Inl err, s1)
           | (Inr owned, s1) \<Rightarrow>
               (case delete_AdCopies
                       (\<lambda>r. a_id r = da_id input \<and> a_campaignId r = da_campaignId input
                            \<and> a_userId r = uid user) s1 of
                  (Inl f, s2) \<Rightarrow> (Inl (StoreError f), s2)
                | (Inr rowsAffected, s2) \<Rightarrow>
                    (if rowsAffected = 0
                     then (Inl (ActionError NOT_FOUND ''Ad copy not found.''), s2)
                     else (Inr (), s2)))))"

definition listAdCopies_handler ::
  "listAdCopiesInput \<Rightarrow> actionContext \<Rightarrow> env \<Rightarrow> db \<Rightarrow> adCopy listing result" where
  "listAdCopies_handler input ctx e s =
     (case requireUser ctx of
        Inl err \<Rightarrow> (Inl err, s)
      | Inr user \<Rightarrow>
          (case getOwnedCampaign (la_campaignId input) (uid user) s of
             (Inl err, s1) \<Rightarrow> (Inl err, s1)
           | (Inr owned, s1) \<Rightarrow>
               (case select_AdCopies
                       (\<lambda>r. a_campaignId r = la_campaignId input \<and> a_userId r = uid user) s1 of
                  (copies, s2) \<Rightarrow> (Inr \<lparr>items = copies, total = length copies\<rparr>, s2))))"

text \<open>
  The object given to \<open>values\<close>; its date is \<open>input.date ?? new Date()\<close>, and \<open>now\<close> is
  the value \<open>new Date()\<close> gives when the input has no date.
\<close>

definition logAdPerformance_values ::
  "logAdPerformanceInput \<Rightarrow> string \<Rightarrow> date \<Rightarrow> performance" where
  "logAdPerformance_values input uuid now =
     \<lparr>p_id = uuid, p_adCopyId = lp_adCopyId input,
      p_date = Value (case lp_date input of None \<Rightarrow> now | Some d \<Rightarrow> d),
      p_impressions = written (lp_impressions input), p_clicks = written (lp_clicks input),
      p_conversions = written (lp_conversions input), p_spend = written (lp_spend input),
      p_currency = written (lp_currency input), p_notes = written (lp_notes input)\<rparr>"

definition logAdPerformance_handler ::
  "logAdPerformanceInput \<Rightarrow> actionContext \<Rightarrow> env \<Rightarrow> db \<Rightarrow> performance option result" where
  "logAdPerformance_handler input ctx e s =
     (case requireUser ctx of
        Inl err \<Rightarrow> (Inl err, s)
      | Inr user \<Rightarrow>
          (case getOwnedAdCopy (lp_adCopyId input) (uid user) s of
             (Inl err, s1) \<Rightarrow> (Inl err, s1)
           | (Inr adCopy, s1) \<Rightarrow>
               (case getOwnedCampaign (a_campaignId adCopy) (uid user) s1 of
                  (Inl err, s2) \<Rightarrow> (Inl err, s2)
                | (Inr owned, s2) \<Rightarrow>
                    (case insert_AdPerformance
                            (logAdPerformance_values input (randomUUID e) (newDate e)) s2 of
                       (Inl f, s3) \<Rightarrow> (Inl (StoreError f), s3)
                     | (Inr returned, s3) \<Rightarrow> (Inr (first returned), s3)))))"

definition listAdPerformance_handler ::
  "listAdPerformanceInput \<Rightarrow> actionContext \<Rightarrow> env \<Rightarrow> db \<Rightarrow> performance listing result" where
  "listAdPerformance_handler input ctx e s =
     (case requireUser ctx of
        Inl err \<Rightarrow> (Inl err, s)
      | Inr user \<Rightarrow>
          (case getOwnedAdCopy (lf_adCopyId input) (uid user) s of
             (Inl err, s1) \<Rightarrow> (Inl err, s1)
           | (Inr adCopy, s1) \<Rightarrow>
               (case getOwnedCampaign (a_campaignId adCopy) (uid user) s1 of
                  (Inl err, s2) \<Rightarrow> (Inl err, s2)
                | (Inr owned, s2) \<Rightarrow>
                    (case select_AdPerformance (\<lambda>r. p_adCopyId r = lf_adCopyId input) s2 of
                       (Inl f, s3) \<Rightarrow> (Inl (StoreError f), s3)
                     | (Inr performances, s3) \<Rightarrow>
                         (Inr \<lparr>items = performances, total = length performances\<rparr>, s3)))))"

section \<open>The actions of \<open>server\<close>\<close>

definition createCampaign where
  "createCampaign = defineAction createCampaign_input createCampaign_handler"

definition updateCampaign where
  "updateCampaign = defineAction updateCampaign_input updateCampaign_handler"

definition listCampaigns where
  "listCampaigns = defineAction listCampaigns_input listCampaigns_handler"

definition createAdCopy where
  "createAdCopy = defineAction createAdCopy_input createAdCopy_handler"

definition updateAdCopy where
  "updateAdCopy = defineAction updateAdCopy_input updateAdCopy_handler"

definition deleteAdCopy where
  "deleteAdCopy = defineAction deleteAdCopy_input deleteAdCopy_handler"

definition listAdCopies where
  "listAdCopies = defineAction listAdCopies_input listAdCopies_handler"

definition logAdPerformance where
  "logAdPerformance = defineAction logAdPerformance_input logAdPerformance_handler"

definition listAdPerformance where
  "listAdPerformance = defineAction listAdPerformance_input listAdPerformance_handler"

section \<open>Ownership\<close>

abbreviation unauthorized :: error where
  "unauthorized \<equiv> ActionError UNAUTHORIZED ''You must be signed in to perform this action.''"

abbreviation campaign_not_found :: error where
  "campaign_not_found \<equiv> ActionError NOT_FOUND ''Campaign not found.''"

abbreviation ad_copy_not_found :: error where
  "ad_copy_not_found \<equiv> ActionError NOT_FOUND ''Ad copy not found.''"

text \<open>User \<open>u\<close> owns a campaign with id \<open>cid\<close>.\<close>

definition owns_campaign :: "db \<Rightarrow> string \<Rightarrow> string \<Rightarrow> bool" where
  "owns_campaign s u cid \<longleftrightarrow> (\<exists>r\<in>set (AdCampaigns s). c_id r = cid \<and> c_userId r = u)"

text \<open>User \<open>u\<close> owns an ad copy with id \<open>aid\<close>.\<close>

definition owns_adCopy :: "db \<Rightarrow> string \<Rightarrow> string \<Rightarrow> bool" where
  "owns_adCopy s u aid \<longleftrightarrow> (\<exists>r\<in>set (AdCopies s). a_id r = aid \<and> a_userId r = u)"

text \<open>User \<open>u\<close> owns an ad copy with id \<open>aid\<close> that is stored under the campaign \<open>cid\<close>.\<close>

definition owns_adCopy_in :: "db \<Rightarrow> string \<Rightarrow> string \<Rightarrow> string \<Rightarrow> bool" where
  "owns_adCopy_in s u cid aid \<longleftrightarrow>
     (\<exists>r\<in>set (AdCopies s). a_id r = aid \<and> a_campaignId r = cid \<and> a_userId r = u)"

text \<open>
  User \<open>u\<close> owns an ad copy with id \<open>aid\<close> and also owns the campaign that ad copy is
  stored under.
\<close>

definition owns_chain :: "db \<Rightarrow> string \<Rightarrow> string \<Rightarrow> bool" where
  "owns_chain s u aid \<longleftrightarrow>
     (\<exists>a\<in>set (AdCopies s). a_id a = aid \<and> a_userId a = u \<and> owns_campaign s u (a_campaignId a))"

section \<open>Sample data\<close>

definition alice :: user where
  "alice = \<lparr>uid = ''u1''\<rparr>"

definition bob :: user where
  "bob = \<lparr>uid = ''u2''\<rparr>"

definition signed_in :: "user \<Rightarrow> actionContext" where
  "signed_in u = \<lparr>ctx_locals = Some \<lparr>l_user = Some u\<rparr>\<rparr>"

definition anonymous :: actionContext where
  "anonymous = \<lparr>ctx_locals = Some \<lparr>l_user = None\<rparr>\<rparr>"

definition env0 :: env where
  "env0 = \<lparr>randomUUID = ''id9'', newDate = 2000\<rparr>"

definition spring :: campaign where
  "spring = \<lparr>c_id = ''c1'', c_userId = ''u1'', c_name = ''Spring Sale'',
     c_objective = Value ''sales'', c_productName = Null, c_targetAudience = Null,
     c_notes = Null, c_createdAt = 1000, c_updatedAt = 1000\<rparr>"

definition summer :: campaign where
  "summer = \<lparr>c_id = ''c2'', c_userId = ''u1'', c_name = ''Summer Sale'',
     c_objective = Null, c_productName = Null, c_targetAudience = Null,
     c_notes = Null, c_createdAt = 1100, c_updatedAt = 1100\<rparr>"

definition winter :: campaign where
  "winter = \<lparr>c_id = ''c3'', c_userId = ''u2'', c_name = ''Winter Sale'',
     c_objective = Null, c_productName = Null, c_targetAudience = Null,
     c_notes = Null, c_createdAt = 1200, c_updatedAt = 1200\<rparr>"

definition save_big :: adCopy where
  "save_big = \<lparr>a_id = ''a1'', a_campaignId = ''c1'', a_userId = ''u1'',
     a_platform = Value ''google'', a_headline = Null, a_primaryText = ''Save big'',
     a_description = Null, a_callToAction = Null, a_tone = Null, a_variantLabel = Null,
     a_url = Null, a_createdAt = 1300, a_updatedAt = 1300\<rparr>"

definition stay_warm :: adCopy where
  "stay_warm = \<lparr>a_id = ''a2'', a_campaignId = ''c3'', a_userId = ''u2'',
     a_platform = Null, a_headline = Null, a_primaryText = ''Stay warm'',
     a_description = Null, a_callToAction = Null, a_tone = Null, a_variantLabel = Null,
     a_url = Null, a_createdAt = 1400, a_updatedAt = 1400\<rparr>"

definition store0 :: db where
  "store0 = \<lparr>AdCampaigns = [spring, summer, winter], AdCopies = [save_big, stay_warm],
     AdPerformance = [], statements = []\<rparr>"

definition sample_createCampaign :: createCampaignInput where
  "sample_createCampaign = \<lparr>cc_name = ''Autumn Sale'', cc_objective = None,
     cc_productName = Some ''Boots'', cc_targetAudience = None, cc_notes = None\<rparr>"

definition sample_updateCampaign :: "string \<Rightarrow> updateCampaignInput" where
  "sample_updateCampaign cid = \<lparr>uc_id = cid, uc_name = None, uc_objective = None,
     uc_productName = None, uc_targetAudience = None, uc_notes = Some ''urgent''\<rparr>"

definition sample_createAdCopy :: "string \<Rightarrow> createAdCopyInput" where
  "sample_createAdCopy cid = \<lparr>ca_campaignId = cid, ca_platform = None, ca_headline = None,
     ca_primaryText = ''Buy now'', ca_description = None, ca_callToAction = None,
     ca_tone = None, ca_variantLabel = Some ''B'', ca_url = None\<rparr>"

definition sample_updateAdCopy :: "string \<Rightarrow> string \<Rightarrow> updateAdCopyInput" where
  "sample_updateAdCopy aid cid = \<lparr>ua_id = aid, ua_campaignId = cid, ua_platform = None,
     ua_headline = Some ''Hello'', ua_primaryText = None, ua_description = None,
     ua_callToAction = None, ua_tone = None, ua_variantLabel = None, ua_url = None\<rparr>"

definition sample_logAdPerformance :: "string \<Rightarrow> logAdPerformanceInput" where
  "sample_logAdPerformance aid = \<lparr>lp_adCopyId = aid, lp_date = None,
     lp_impressions = Some 100, lp_clicks = None, lp_conversions = None, lp_spend = None,
     lp_currency = None, lp_notes = None\<rparr>"

definition no_fields_uc :: updateCampaignInput where
  "no_fields_uc = \<lparr>uc_id = ''c1'', uc_name = None, uc_objective = None,
     uc_productName = None, uc_targetAudience = None, uc_notes = None\<rparr>"

definition no_fields_ua :: updateAdCopyInput where
  "no_fields_ua = \<lparr>ua_id = ''a1'', ua_campaignId = ''c1'', ua_platform = None,
     ua_headline = None, ua_primaryText = None, ua_description = None,
     ua_callToAction = None, ua_tone = None, ua_variantLabel = None, ua_url = None\<rparr>"

definition misfiled :: adCopy where
  "misfiled = \<lparr>a_id = ''a3'', a_campaignId = ''c1'', a_userId = ''u2'',
     a_platform = Null, a_headline = Null, a_primaryText = ''Misfiled'',
     a_description = Null, a_callToAction = Null, a_tone = Null, a_variantLabel = Null,
     a_url = Null, a_createdAt = 1500, a_updatedAt = 1500\<rparr>"

definition store1 :: db where
  "store1 = \<lparr>AdCampaigns = [spring, summer, winter], AdCopies = [save_big, stay_warm, misfiled],
     AdPerformance = [], statements = []\<rparr>"

definition logged :: performance where
  "logged = \<lparr>p_id = ''id9'', p_adCopyId = ''a1'', p_date = Value 2000,
     p_impressions = Value 100, p_clicks = Null, p_conversions = Null, p_spend = Null,
     p_currency = Null, p_notes = Null\<rparr>"

definition no_fields_ua_other :: updateAdCopyInput where
  "no_fields_ua_other = \<lparr>ua_id = ''a1'', ua_campaignId = ''c2'', ua_platform = None,
     ua_headline = None, ua_primaryText = None, ua_description = None,
     ua_callToAction = None, ua_tone = None, ua_variantLabel = None, ua_url = None\<rparr>"

definition env_past :: env where
  "env_past = \<lparr>randomUUID = ''id8'', newDate = 500\<rparr>"

definition store_logged :: db where
  "store_logged = store0\<lparr>AdPerformance := [logged],
     statements := [SELECT T_AdCopies, SELECT T_AdCampaigns, INSERT T_AdPerformance]\<rparr>"


definition nul_name_uc :: updateCampaignInput where
  "nul_name_uc = \<lparr>uc_id = ''c1'', uc_name = Some (''Spring'' @ CHR 0x00 # ''Sale''),
     uc_objective = None, uc_productName = None, uc_targetAudience = None, uc_notes = None\<rparr>"


text \<open>Every number the input of \<open>logAdPerformance\<close> supplies can be read back.\<close>

definition readable_numbers :: "logAdPerformanceInput \<Rightarrow> bool" where
  "readable_numbers i \<longleftrightarrow>
     \<not> unsafe_column (written (lp_impressions i))
     \<and> \<not> unsafe_column (written (lp_clicks i))
     \<and> \<not> unsafe_column (written (lp_conversions i))
     \<and> \<not> unsafe_column (written (lp_spend i))"

text \<open>A performance record references an ad copy with id \<open>aid\<close>.\<close>

definition referenced :: "db \<Rightarrow> string \<Rightarrow> bool" where
  "referenced s aid \<longleftrightarrow> list_ex (\<lambda>p. p_adCopyId p = aid) (AdPerformance s)"

section \<open>Lemmas on lists and the store\<close>

lemma first_filter_None: "first (filter P xs) = None \<longleftrightarrow> (\<forall>x\<in>set xs. \<not> P x)"
  by (induction xs) (auto simp: first_def)

lemma first_filter_Some: "first (filter P xs) = Some y \<Longrightarrow> y \<in> set xs \<and> P y"
  by (induction xs) (auto simp: first_def split: if_splits)

lemma filter_key_unique:
  "distinct (map f xs) \<Longrightarrow> x \<in> set xs \<Longrightarrow> filter (\<lambda>r. f r = f x) xs = [x]"
  by (induction xs) (auto simp: filter_empty_conv image_iff)

lemma key_unique:
  "distinct (map f xs) \<Longrightarrow> x \<in> set xs \<Longrightarrow> y \<in> set xs \<Longrightarrow> f x = f y \<Longrightarrow> x = y"
  by (auto simp: distinct_map dest: inj_onD)

lemma filter_key_and:
  assumes "distinct (map f xs)" "x \<in> set xs" "Q x"
  shows "filter (\<lambda>r. f r = f x \<and> Q r) xs = [x]"
proof -
  have "filter (\<lambda>r. f r = f x \<and> Q r) xs = filter Q (filter (\<lambda>r. f r = f x) xs)"
    by (simp add: conj_commute)
  also have "\<dots> = [x]"
    using assms by (simp add: filter_key_unique)
  finally show ?thesis .
qed

lemma filter_not_key_and:
  "distinct (map f xs) \<Longrightarrow> x \<in> set xs \<Longrightarrow> Q x \<Longrightarrow>
   filter (\<lambda>r. \<not> (f r = f x \<and> Q r)) xs = remove1 x xs"
proof (induction xs)
  case Nil
  then show ?case by simp
next
  case (Cons y ys)
  show ?case
  proof (cases "y = x")
    case True
    with Cons.prems have "\<forall>r\<in>set ys. f r \<noteq> f x" by (auto simp: image_iff)
    then have "filter (\<lambda>r. \<not> (f r = f x \<and> Q r)) ys = ys"
      by (simp add: filter_id_conv)
    with True Cons.prems show ?thesis by simp
  next
    case False
    with Cons.prems have "x \<in> set ys" "distinct (map f ys)" "f y \<noteq> f x"
      by (auto simp: image_iff)
    with Cons.IH Cons.prems False show ?thesis by simp
  qed
qed

lemma map_if_key:
  assumes "distinct (map f xs)" "r \<in> set xs"
  shows "map (\<lambda>x. if f x = f r then g x else x) xs = map (\<lambda>x. if x = r then g r else x) xs"
proof (rule map_cong [OF refl])
  fix x assume "x \<in> set xs"
  with assms have "f x = f r \<longleftrightarrow> x = r"
    by (auto dest: key_unique)
  then show "(if f x = f r then g x else x) = (if x = r then g r else x)"
    by auto
qed

lemma run_stmt_fields [simp]:
  "AdCampaigns (run_stmt st s) = AdCampaigns s"
  "AdCopies (run_stmt st s) = AdCopies s"
  "AdPerformance (run_stmt st s) = AdPerformance s"
  "statements (run_stmt st s) = statements s @ [st]"
  by (simp_all add: run_stmt_def)

lemma run_stmt_twice:
  "run_stmt b (run_stmt a s) = s\<lparr>statements := statements s @ [a, b]\<rparr>"
  by (simp add: run_stmt_def)

lemma run_stmt_thrice:
  "run_stmt c (run_stmt b (run_stmt a s)) = s\<lparr>statements := statements s @ [a, b, c]\<rparr>"
  by (simp add: run_stmt_def)

lemma stored_text_clean: "CHR 0x00 \<notin> set v \<Longrightarrow> stored_text v = v"
  by (simp add: stored_text_def takeWhile_eq_all_conv) metis

lemma delete_AdCopies_none:
  assumes "filter P (AdCopies s) = []"
  shows "delete_AdCopies P s = (Inr 0, run_stmt (DELETE T_AdCopies) s)"
proof -
  have k: "filter (\<lambda>r. \<not> P r) (AdCopies s) = AdCopies s"
    using assms by (simp add: filter_empty_conv filter_id_conv)
  show ?thesis
    unfolding delete_AdCopies_def assms k by (simp add: list_ex_iff)
qed

lemma delete_AdCopies_one:
  assumes "filter P (AdCopies s) = [a]" "\<not> referenced s (a_id a)"
  shows "delete_AdCopies P s =
     (Inr 1, run_stmt (DELETE T_AdCopies) (s\<lparr>AdCopies := filter (\<lambda>r. \<not> P r) (AdCopies s)\<rparr>))"
  using assms(2) unfolding delete_AdCopies_def assms(1) referenced_def
  by (simp add: list_ex_iff)

lemma delete_AdCopies_referenced:
  assumes "filter P (AdCopies s) = [a]" "referenced s (a_id a)"
  shows "delete_AdCopies P s = (Inl FOREIGN_KEY_constraint_failed, run_stmt (DELETE T_AdCopies) s)"
  using assms(2) unfolding delete_AdCopies_def assms(1) referenced_def
  by (simp add: list_ex_iff)

section \<open>Lemmas on identity, the input schema and the ownership guards\<close>

lemma requireUser_None: "locals_user ctx = None \<Longrightarrow> requireUser ctx = Inl unauthorized"
  by (simp add: requireUser_def)

lemma requireUser_Some: "locals_user ctx = Some u \<Longrightarrow> requireUser ctx = Inr u"
  by (simp add: requireUser_def)

lemma requireUser_Inr: "requireUser ctx = Inr u \<Longrightarrow> locals_user ctx = Some u"
  by (simp add: requireUser_def split: option.splits)

lemma locals_user_signed_in: "locals_user (signed_in u) = Some u"
  by (simp add: locals_user_def signed_in_def)

lemma locals_user_anonymous: "locals_user anonymous = None"
  by (simp add: locals_user_def anonymous_def)

lemma defineAction_accepted:
  "schema input = [] \<Longrightarrow> defineAction schema handler input ctx e s = handler input ctx e s"
  by (simp add: defineAction_def)

lemma defineAction_rejected:
  "schema input \<noteq> [] \<Longrightarrow>
   defineAction schema handler input ctx e s = (Inl (ActionInputError (schema input)), s)"
  by (simp add: defineAction_def split: list.splits)

lemma defineAction_Inr:
  "defineAction schema handler input ctx e s = (Inr x, s') \<Longrightarrow>
   schema input = [] \<and> handler input ctx e s = (Inr x, s')"
  by (simp add: defineAction_def split: list.splits)

lemma defineAction_unauthorized:
  "handler input ctx e s = (Inl unauthorized, s) \<Longrightarrow>
   defineAction schema handler input ctx e s =
     (Inl (if schema input = [] then unauthorized else ActionInputError (schema input)), s)"
  by (simp add: defineAction_def split: list.splits)

lemma defineAction_cases:
  "defineAction schema handler input ctx e s =
     (if schema input = [] then handler input ctx e s
      else (Inl (ActionInputError (schema input)), s))"
  by (simp add: defineAction_def split: list.splits)

lemma getOwnedCampaign_miss:
  assumes "\<forall>r\<in>set (AdCampaigns s). c_id r = cid \<longrightarrow> c_userId r \<noteq> u"
  shows "getOwnedCampaign cid u s =
     (Inl campaign_not_found, run_stmt (SELECT T_AdCampaigns) s)"
proof -
  from assms have "\<forall>r\<in>set (AdCampaigns s). \<not> (c_id r = cid \<and> c_userId r = u)"
    by blast
  then have "first (filter (\<lambda>r. c_id r = cid \<and> c_userId r = u) (AdCampaigns s)) = None"
    by (simp only: first_filter_None)
  then show ?thesis
    by (simp add: getOwnedCampaign_def select_AdCampaigns_def)
qed

lemma getOwnedCampaign_hit:
  assumes "r \<in> set (AdCampaigns s)" "c_id r = cid" "c_userId r = u"
  shows "\<exists>r'. getOwnedCampaign cid u s = (Inr r', run_stmt (SELECT T_AdCampaigns) s)"
proof (cases "first (filter (\<lambda>r. c_id r = cid \<and> c_userId r = u) (AdCampaigns s))")
  case None
  with assms show ?thesis by (auto simp: first_filter_None)
next
  case (Some r')
  then show ?thesis by (simp add: getOwnedCampaign_def select_AdCampaigns_def)
qed

lemma getOwnedCampaign_Inr:
  "getOwnedCampaign cid u s = (Inr r, s1) \<Longrightarrow>
   r \<in> set (AdCampaigns s) \<and> c_id r = cid \<and> c_userId r = u
   \<and> s1 = run_stmt (SELECT T_AdCampaigns) s"
  by (auto simp: getOwnedCampaign_def select_AdCampaigns_def split: option.splits
      dest: first_filter_Some)

lemma getOwnedCampaign_not_owned:
  "\<not> owns_campaign s u cid \<Longrightarrow>
   getOwnedCampaign cid u s = (Inl campaign_not_found, run_stmt (SELECT T_AdCampaigns) s)"
  by (rule getOwnedCampaign_miss) (auto simp: owns_campaign_def)

lemma getOwnedCampaign_owned:
  "owns_campaign s u cid \<Longrightarrow>
   \<exists>r. getOwnedCampaign cid u s = (Inr r, run_stmt (SELECT T_AdCampaigns) s)"
  unfolding owns_campaign_def by (blast dest: getOwnedCampaign_hit)

lemma getOwnedAdCopy_miss:
  assumes "\<forall>r\<in>set (AdCopies s). a_id r = aid \<longrightarrow> a_userId r \<noteq> u"
  shows "getOwnedAdCopy aid u s = (Inl ad_copy_not_found, run_stmt (SELECT T_AdCopies) s)"
proof -
  from assms have "\<forall>r\<in>set (AdCopies s). \<not> (a_id r = aid \<and> a_userId r = u)"
    by blast
  then have "first (filter (\<lambda>r. a_id r = aid \<and> a_userId r = u) (AdCopies s)) = None"
    by (simp only: first_filter_None)
  then show ?thesis
    by (simp add: getOwnedAdCopy_def select_AdCopies_def)
qed

lemma getOwnedAdCopy_result:
  "getOwnedAdCopy aid u s = (Inr r, s1) \<Longrightarrow>
   r \<in> set (AdCopies s) \<and> a_id r = aid \<and> a_userId r = u \<and> s1 = run_stmt (SELECT T_AdCopies) s"
  by (auto simp: getOwnedAdCopy_def select_AdCopies_def split: option.splits
      dest: first_filter_Some)

lemma getOwnedAdCopy_unique:
  assumes "distinct (map a_id (AdCopies s))" "r \<in> set (AdCopies s)" "a_userId r = u"
  shows "getOwnedAdCopy (a_id r) u s = (Inr r, run_stmt (SELECT T_AdCopies) s)"
proof -
  have "filter (\<lambda>x. a_id x = a_id r \<and> a_userId x = u) (AdCopies s) = [r]"
    using filter_key_and [OF assms(1,2), of "\<lambda>x. a_userId x = u"] assms(3) by simp
  then show ?thesis
    by (simp add: getOwnedAdCopy_def select_AdCopies_def first_def)
qed

lemma getOwnedAdCopy_not_owned:
  "\<not> owns_adCopy s u aid \<Longrightarrow>
   getOwnedAdCopy aid u s = (Inl ad_copy_not_found, run_stmt (SELECT T_AdCopies) s)"
  by (rule getOwnedAdCopy_miss) (auto simp: owns_adCopy_def)

lemma getOwnedAdCopy_owned:
  "owns_adCopy s u aid \<Longrightarrow>
   \<exists>a. getOwnedAdCopy aid u s = (Inr a, run_stmt (SELECT T_AdCopies) s)
       \<and> a \<in> set (AdCopies s) \<and> a_id a = aid \<and> a_userId a = u"
proof -
  assume "owns_adCopy s u aid"
  then have "first (filter (\<lambda>r. a_id r = aid \<and> a_userId r = u) (AdCopies s)) \<noteq> None"
    by (simp only: first_filter_None owns_adCopy_def) blast
  then obtain a where
    a: "first (filter (\<lambda>r. a_id r = aid \<and> a_userId r = u) (AdCopies s)) = Some a"
    by blast
  then have "getOwnedAdCopy aid u s = (Inr a, run_stmt (SELECT T_AdCopies) s)"
    by (simp add: getOwnedAdCopy_def select_AdCopies_def)
  with first_filter_Some [OF a] show ?thesis by blast
qed

lemma owns_adCopy_in_imp: "owns_adCopy_in s u cid aid \<Longrightarrow> owns_adCopy s u aid"
  by (auto simp: owns_adCopy_in_def owns_adCopy_def)

lemma not_owns_adCopy_in:
  "\<not> owns_adCopy s u aid \<Longrightarrow> \<not> owns_adCopy_in s u cid aid"
  by (auto simp: owns_adCopy_in_def owns_adCopy_def)

lemma owns_campaign_cong:
  "AdCampaigns s' = AdCampaigns s \<Longrightarrow> owns_campaign s' u cid = owns_campaign s u cid"
  by (simp add: owns_campaign_def)


lemma owns_campaign_key: "owns_campaign s u cid \<Longrightarrow> cid \<in> c_id ` set (AdCampaigns s)"
  by (auto simp: owns_campaign_def)

lemma owns_chain_key: "owns_chain s u aid \<Longrightarrow> aid \<in> a_id ` set (AdCopies s)"
  by (auto simp: owns_chain_def)

lemma select_copies_none:
  "\<not> owns_adCopy_in s u cid aid \<Longrightarrow>
   filter (\<lambda>r. a_id r = aid \<and> a_campaignId r = cid \<and> a_userId r = u) (AdCopies s) = []"
  by (auto simp: owns_adCopy_in_def filter_empty_conv)

lemma wf_not_owns_adCopy_in:
  assumes "wf s" "a \<in> set (AdCopies s)" "a_campaignId a \<noteq> cid"
  shows "\<not> owns_adCopy_in s u cid (a_id a)"
proof
  assume "owns_adCopy_in s u cid (a_id a)"
  then obtain r where r: "r \<in> set (AdCopies s)" "a_id r = a_id a" "a_campaignId r = cid"
    by (auto simp: owns_adCopy_in_def)
  from assms(1) have "distinct (map a_id (AdCopies s))" by (simp add: wf_def)
  from key_unique [OF this r(1) assms(2) r(2)] r(3) assms(3) show False by simp
qed

lemma owns_chain_guards:
  assumes "distinct (map a_id (AdCopies s))" "owns_chain s u aid"
  shows "\<exists>a r. getOwnedAdCopy aid u s = (Inr a, run_stmt (SELECT T_AdCopies) s)
      \<and> getOwnedCampaign (a_campaignId a) u (run_stmt (SELECT T_AdCopies) s)
          = (Inr r, run_stmt (SELECT T_AdCampaigns) (run_stmt (SELECT T_AdCopies) s))"
proof -
  from assms(2) obtain a where a: "a \<in> set (AdCopies s)" "a_id a = aid" "a_userId a = u"
      "owns_campaign s u (a_campaignId a)"
    by (auto simp: owns_chain_def)
  have g: "getOwnedAdCopy aid u s = (Inr a, run_stmt (SELECT T_AdCopies) s)"
    using getOwnedAdCopy_unique [OF assms(1) a(1,3)] a(2) by simp
  have "owns_campaign (run_stmt (SELECT T_AdCopies) s) u (a_campaignId a)"
    using a(4) by (simp add: owns_campaign_def)
  from getOwnedCampaign_owned [OF this] g show ?thesis by blast
qed

section \<open>Lemmas on the handlers\<close>

lemma handlers_unauthorized:
  assumes "locals_user ctx = None"
  shows "createCampaign_handler cc ctx e s = (Inl unauthorized, s)"
    "updateCampaign_handler uc ctx e s = (Inl unauthorized, s)"
    "listCampaigns_handler lc ctx e s = (Inl unauthorized, s)"
    "createAdCopy_handler ca ctx e s = (Inl unauthorized, s)"
    "updateAdCopy_handler ua ctx e s = (Inl unauthorized, s)"
    "deleteAdCopy_handler da ctx e s = (Inl unauthorized, s)"
    "listAdCopies_handler la ctx e s = (Inl unauthorized, s)"
    "logAdPerformance_handler lp ctx e s = (Inl unauthorized, s)"
    "listAdPerformance_handler lf ctx e s = (Inl unauthorized, s)"
  using requireUser_None [OF assms]
  by (simp_all add: createCampaign_handler_def updateCampaign_handler_def
      listCampaigns_handler_def createAdCopy_handler_def updateAdCopy_handler_def
      deleteAdCopy_handler_def listAdCopies_handler_def logAdPerformance_handler_def
      listAdPerformance_handler_def)

lemma updateCampaign_handler_not_owned:
  assumes "locals_user ctx = Some u" "\<not> owns_campaign s (uid u) (uc_id uc)"
  shows "updateCampaign_handler uc ctx e s =
     (Inl campaign_not_found, s\<lparr>statements := statements s @ [SELECT T_AdCampaigns]\<rparr>)"
  using assms
  by (simp add: updateCampaign_handler_def requireUser_Some getOwnedCampaign_not_owned
      run_stmt_def)

lemma createAdCopy_handler_not_owned:
  assumes "locals_user ctx = Some u" "\<not> owns_campaign s (uid u) (ca_campaignId ca)"
  shows "createAdCopy_handler ca ctx e s =
     (Inl campaign_not_found, s\<lparr>statements := statements s @ [SELECT T_AdCampaigns]\<rparr>)"
  using assms
  by (simp add: createAdCopy_handler_def requireUser_Some getOwnedCampaign_not_owned
      run_stmt_def)

lemma updateAdCopy_handler_campaign_not_owned:
  assumes "locals_user ctx = Some u" "\<not> owns_campaign s (uid u) (ua_campaignId ua)"
  shows "updateAdCopy_handler ua ctx e s =
     (Inl campaign_not_found, s\<lparr>statements := statements s @ [SELECT T_AdCampaigns]\<rparr>)"
  using assms
  by (simp add: updateAdCopy_handler_def requireUser_Some getOwnedCampaign_not_owned
      run_stmt_def)

lemma updateAdCopy_handler_copy_not_owned:
  assumes "locals_user ctx = Some u" "owns_campaign s (uid u) (ua_campaignId ua)"
    "\<not> owns_adCopy_in s (uid u) (ua_campaignId ua) (ua_id ua)"
  shows "updateAdCopy_handler ua ctx e s =
     (Inl ad_copy_not_found,
      s\<lparr>statements := statements s @ [SELECT T_AdCampaigns, SELECT T_AdCopies]\<rparr>)"
proof -
  obtain r where g: "getOwnedCampaign (ua_campaignId ua) (uid u) s
      = (Inr r, run_stmt (SELECT T_AdCampaigns) s)"
    using getOwnedCampaign_owned [OF assms(2)] by blast
  show ?thesis
    using assms(1) select_copies_none [OF assms(3)]
    by (simp add: updateAdCopy_handler_def requireUser_Some g select_AdCopies_def first_def
        run_stmt_twice)
qed

lemma deleteAdCopy_handler_campaign_not_owned:
  assumes "locals_user ctx = Some u" "\<not> owns_campaign s (uid u) (da_campaignId da)"
  shows "deleteAdCopy_handler da ctx e s =
     (Inl campaign_not_found, s\<lparr>statements := statements s @ [SELECT T_AdCampaigns]\<rparr>)"
  using assms
  by (simp add: deleteAdCopy_handler_def requireUser_Some getOwnedCampaign_not_owned
      run_stmt_def)

lemma deleteAdCopy_handler_copy_not_owned:
  assumes "locals_user ctx = Some u" "owns_campaign s (uid u) (da_campaignId da)"
    "\<not> owns_adCopy_in s (uid u) (da_campaignId da) (da_id da)"
  shows "deleteAdCopy_handler da ctx e s =
     (Inl ad_copy_not_found,
      s\<lparr>statements := statements s @ [SELECT T_AdCampaigns, DELETE T_AdCopies]\<rparr>)"
proof -
  let ?s1 = "run_stmt (SELECT T_AdCampaigns) s"
  obtain r where g: "getOwnedCampaign (da_campaignId da) (uid u) s = (Inr r, ?s1)"
    using getOwnedCampaign_owned [OF assms(2)] by blast
  have "filter (\<lambda>r. a_id r = da_id da \<and> a_campaignId r = da_campaignId da
        \<and> a_userId r = uid u) (AdCopies ?s1) = []"
    using select_copies_none [OF assms(3)] by simp
  from delete_AdCopies_none [OF this] show ?thesis
    using assms(1)
    by (simp add: deleteAdCopy_handler_def requireUser_Some g run_stmt_twice)
qed

lemma logAdPerformance_handler_copy_not_owned:
  assumes "locals_user ctx = Some u" "\<not> owns_adCopy s (uid u) (lp_adCopyId lp)"
  shows "logAdPerformance_handler lp ctx e s =
     (Inl ad_copy_not_found, s\<lparr>statements := statements s @ [SELECT T_AdCopies]\<rparr>)"
  using assms
  by (simp add: logAdPerformance_handler_def requireUser_Some getOwnedAdCopy_not_owned
      run_stmt_def)

lemma logAdPerformance_handler_campaign_not_owned:
  assumes "locals_user ctx = Some u"
    "getOwnedAdCopy (lp_adCopyId lp) (uid u) s = (Inr a, s1)"
    "\<not> owns_campaign s (uid u) (a_campaignId a)"
  shows "logAdPerformance_handler lp ctx e s =
     (Inl campaign_not_found,
      s\<lparr>statements := statements s @ [SELECT T_AdCopies, SELECT T_AdCampaigns]\<rparr>)"
proof -
  have s1: "s1 = run_stmt (SELECT T_AdCopies) s"
    using getOwnedAdCopy_result [OF assms(2)] by simp
  have "\<not> owns_campaign s1 (uid u) (a_campaignId a)"
    using assms(3) by (simp add: s1 owns_campaign_def)
  then show ?thesis
    using assms(1,2)
    by (simp add: logAdPerformance_handler_def requireUser_Some getOwnedCampaign_not_owned s1
        run_stmt_twice)
qed

lemma listAdPerformance_handler_copy_not_owned:
  assumes "locals_user ctx = Some u" "\<not> owns_adCopy s (uid u) (lf_adCopyId lf)"
  shows "listAdPerformance_handler lf ctx e s =
     (Inl ad_copy_not_found, s\<lparr>statements := statements s @ [SELECT T_AdCopies]\<rparr>)"
  using assms
  by (simp add: listAdPerformance_handler_def requireUser_Some getOwnedAdCopy_not_owned
      run_stmt_def)

lemma listAdPerformance_handler_campaign_not_owned:
  assumes "locals_user ctx = Some u"
    "getOwnedAdCopy (lf_adCopyId lf) (uid u) s = (Inr a, s1)"
    "\<not> owns_campaign s (uid u) (a_campaignId a)"
  shows "listAdPerformance_handler lf ctx e s =
     (Inl campaign_not_found,
      s\<lparr>statements := statements s @ [SELECT T_AdCopies, SELECT T_AdCampaigns]\<rparr>)"
proof -
  have s1: "s1 = run_stmt (SELECT T_AdCopies) s"
    using getOwnedAdCopy_result [OF assms(2)] by simp
  have "\<not> owns_campaign s1 (uid u) (a_campaignId a)"
    using assms(3) by (simp add: s1 owns_campaign_def)
  then show ?thesis
    using assms(1,2)
    by (simp add: listAdPerformance_handler_def requireUser_Some getOwnedCampaign_not_owned s1
        run_stmt_twice)
qed

lemma logAdPerformance_handler_chain_not_owned:
  assumes "locals_user ctx = Some u" "owns_adCopy s (uid u) (lp_adCopyId lp)"
    "\<not> owns_chain s (uid u) (lp_adCopyId lp)"
  shows "logAdPerformance_handler lp ctx e s =
     (Inl campaign_not_found,
      s\<lparr>statements := statements s @ [SELECT T_AdCopies, SELECT T_AdCampaigns]\<rparr>)"
proof -
  from assms(2) obtain a where a: "getOwnedAdCopy (lp_adCopyId lp) (uid u) s
        = (Inr a, run_stmt (SELECT T_AdCopies) s)"
      "a \<in> set (AdCopies s)" "a_id a = lp_adCopyId lp" "a_userId a = uid u"
    using getOwnedAdCopy_owned by blast
  with assms(3) have "\<not> owns_campaign s (uid u) (a_campaignId a)"
    by (auto simp: owns_chain_def)
  with assms(1) a(1) show ?thesis
    by (rule logAdPerformance_handler_campaign_not_owned)
qed

lemma listAdPerformance_handler_chain_not_owned:
  assumes "locals_user ctx = Some u" "owns_adCopy s (uid u) (lf_adCopyId lf)"
    "\<not> owns_chain s (uid u) (lf_adCopyId lf)"
  shows "listAdPerformance_handler lf ctx e s =
     (Inl campaign_not_found,
      s\<lparr>statements := statements s @ [SELECT T_AdCopies, SELECT T_AdCampaigns]\<rparr>)"
proof -
  from assms(2) obtain a where a: "getOwnedAdCopy (lf_adCopyId lf) (uid u) s
        = (Inr a, run_stmt (SELECT T_AdCopies) s)"
      "a \<in> set (AdCopies s)" "a_id a = lf_adCopyId lf" "a_userId a = uid u"
    using getOwnedAdCopy_owned by blast
  with assms(3) have "\<not> owns_campaign s (uid u) (a_campaignId a)"
    by (auto simp: owns_chain_def)
  with assms(1) a(1) show ?thesis
    by (rule listAdPerformance_handler_campaign_not_owned)
qed


lemma listAdCopies_handler_owned:
  assumes "locals_user ctx = Some u" "owns_campaign s (uid u) (la_campaignId la)"
  shows "listAdCopies_handler la ctx e s =
     (Inr \<lparr>items = filter (\<lambda>r. a_campaignId r = la_campaignId la \<and> a_userId r = uid u)
                      (AdCopies s),
           total = length (filter (\<lambda>r. a_campaignId r = la_campaignId la \<and> a_userId r = uid u)
                      (AdCopies s))\<rparr>,
      s\<lparr>statements := statements s @ [SELECT T_AdCampaigns, SELECT T_AdCopies]\<rparr>)"
proof -
  obtain r where g: "getOwnedCampaign (la_campaignId la) (uid u) s
      = (Inr r, run_stmt (SELECT T_AdCampaigns) s)"
    using getOwnedCampaign_owned [OF assms(2)] by blast
  show ?thesis
    using assms(1)
    by (simp add: listAdCopies_handler_def requireUser_Some g select_AdCopies_def run_stmt_def)
qed

lemma createCampaign_handler_result:
  assumes "locals_user ctx = Some u" "randomUUID e \<notin> c_id ` set (AdCampaigns s)"
  shows "createCampaign_handler cc ctx e s =
     (Inr (Some (stored_campaign (createCampaign_values cc u (randomUUID e) (newDate e)))),
      s\<lparr>AdCampaigns := AdCampaigns s
            @ [stored_campaign (createCampaign_values cc u (randomUUID e) (newDate e))],
        statements := statements s @ [INSERT T_AdCampaigns]\<rparr>)"
proof -
  have k: "c_id (createCampaign_values cc u (randomUUID e) (newDate e)) = randomUUID e"
    by (simp add: createCampaign_values_def)
  show ?thesis
    using assms
    by (simp add: createCampaign_handler_def requireUser_Some insert_AdCampaigns_def k
        first_def Let_def run_stmt_def)
qed

lemma createCampaign_handler_Inr:
  assumes "createCampaign_handler cc ctx e s = (Inr x, s')"
  shows "\<exists>u. locals_user ctx = Some u \<and> randomUUID e \<notin> c_id ` set (AdCampaigns s)"
proof -
  have k: "c_id (createCampaign_values cc u (randomUUID e) (newDate e)) = randomUUID e" for u
    by (simp add: createCampaign_values_def)
  from assms show ?thesis
    by (auto simp: createCampaign_handler_def requireUser_def insert_AdCampaigns_def k Let_def
        split: option.splits if_splits)
qed

lemma createAdCopy_handler_result:
  assumes "locals_user ctx = Some u" "owns_campaign s (uid u) (ca_campaignId ca)"
    "randomUUID e \<notin> a_id ` set (AdCopies s)"
  shows "createAdCopy_handler ca ctx e s =
     (Inr (Some (stored_adCopy (createAdCopy_values ca u (randomUUID e) (newDate e)))),
      s\<lparr>AdCopies := AdCopies s
            @ [stored_adCopy (createAdCopy_values ca u (randomUUID e) (newDate e))],
        statements := statements s @ [SELECT T_AdCampaigns, INSERT T_AdCopies]\<rparr>)"
proof -
  obtain r where g: "getOwnedCampaign (ca_campaignId ca) (uid u) s
      = (Inr r, run_stmt (SELECT T_AdCampaigns) s)"
    using getOwnedCampaign_owned [OF assms(2)] by blast
  have k: "a_id (createAdCopy_values ca u (randomUUID e) (newDate e)) = randomUUID e"
    "a_campaignId (createAdCopy_values ca u (randomUUID e) (newDate e)) = ca_campaignId ca"
    by (simp_all add: createAdCopy_values_def)
  show ?thesis
    using assms(1,3) owns_campaign_key [OF assms(2)]
    by (simp add: createAdCopy_handler_def requireUser_Some g insert_AdCopies_def k
        first_def Let_def run_stmt_def)
qed

lemma createAdCopy_handler_Inr:
  assumes "createAdCopy_handler ca ctx e s = (Inr x, s')"
  shows "\<exists>u. locals_user ctx = Some u \<and> owns_campaign s (uid u) (ca_campaignId ca)
      \<and> randomUUID e \<notin> a_id ` set (AdCopies s)"
proof -
  from assms obtain u where u: "requireUser ctx = Inr u"
    by (auto simp: createAdCopy_handler_def split: sum.splits)
  then have lu: "locals_user ctx = Some u" by (rule requireUser_Inr)
  have o: "owns_campaign s (uid u) (ca_campaignId ca)"
  proof (rule ccontr)
    assume "\<not> owns_campaign s (uid u) (ca_campaignId ca)"
    from createAdCopy_handler_not_owned [OF lu this] assms show False by simp
  qed
  then obtain r where g: "getOwnedCampaign (ca_campaignId ca) (uid u) s
      = (Inr r, run_stmt (SELECT T_AdCampaigns) s)"
    using getOwnedCampaign_owned by blast
  have k: "a_id (createAdCopy_values ca u (randomUUID e) (newDate e)) = randomUUID e"
    by (simp add: createAdCopy_values_def)
  have "randomUUID e \<notin> a_id ` set (AdCopies s)"
    using assms
    by (auto simp: createAdCopy_handler_def u g insert_AdCopies_def k Let_def
        split: if_splits)
  with lu o show ?thesis by blast
qed

lemma updateCampaign_handler_owned:
  assumes "locals_user ctx = Some u" "distinct (map c_id (AdCampaigns s))"
    "r \<in> set (AdCampaigns s)" "c_id r = uc_id uc" "c_userId r = uid u"
  shows "updateCampaign_handler uc ctx e s =
     (Inr (Some (assign_campaign (updateCampaign_set uc (newDate e)) r)),
      s\<lparr>AdCampaigns :=
          map (\<lambda>x. if x = r then assign_campaign (updateCampaign_set uc (newDate e)) r else x)
            (AdCampaigns s),
        statements := statements s @ [SELECT T_AdCampaigns, UPDATE T_AdCampaigns]\<rparr>)"
proof -
  obtain r' where g: "getOwnedCampaign (uc_id uc) (uid u) s
      = (Inr r', run_stmt (SELECT T_AdCampaigns) s)"
    using getOwnedCampaign_hit [OF assms(3,4,5)] by blast
  have sel: "filter (\<lambda>x. c_id x = uc_id uc) (AdCampaigns s) = [r]"
    using filter_key_unique [OF assms(2,3)] by (simp add: assms(4))
  have upd: "map (\<lambda>x. if c_id x = uc_id uc
          then assign_campaign (updateCampaign_set uc (newDate e)) x else x) (AdCampaigns s)
      = map (\<lambda>x. if x = r then assign_campaign (updateCampaign_set uc (newDate e)) r else x)
          (AdCampaigns s)"
    using map_if_key [OF assms(2,3), of "assign_campaign (updateCampaign_set uc (newDate e))"]
    by (simp add: assms(4))
  show ?thesis
    using assms(1)
    by (simp add: updateCampaign_handler_def requireUser_Some g update_AdCampaigns_def sel upd
        first_def run_stmt_def)
qed

lemma updateAdCopy_handler_owned:
  assumes "locals_user ctx = Some u" "distinct (map a_id (AdCopies s))"
    "owns_campaign s (uid u) (ua_campaignId ua)"
    "a \<in> set (AdCopies s)" "a_id a = ua_id ua" "a_campaignId a = ua_campaignId ua"
    "a_userId a = uid u"
  shows "updateAdCopy_handler ua ctx e s =
     (Inr (Some (assign_adCopy (updateAdCopy_set ua (newDate e)) a)),
      s\<lparr>AdCopies :=
          map (\<lambda>x. if x = a then assign_adCopy (updateAdCopy_set ua (newDate e)) a else x)
            (AdCopies s),
        statements := statements s
          @ [SELECT T_AdCampaigns, SELECT T_AdCopies, UPDATE T_AdCopies]\<rparr>)"
proof -
  obtain r' where g: "getOwnedCampaign (ua_campaignId ua) (uid u) s
      = (Inr r', run_stmt (SELECT T_AdCampaigns) s)"
    using getOwnedCampaign_owned [OF assms(3)] by blast
  have ex: "filter (\<lambda>r. a_id r = ua_id ua \<and> a_campaignId r = ua_campaignId ua
        \<and> a_userId r = uid u) (AdCopies s) = [a]"
    using filter_key_and [OF assms(2,4),
        of "\<lambda>r. a_campaignId r = ua_campaignId ua \<and> a_userId r = uid u"] assms(5,6,7)
    by simp
  have sel: "filter (\<lambda>x. a_id x = ua_id ua) (AdCopies s) = [a]"
    using filter_key_unique [OF assms(2,4)] by (simp add: assms(5))
  have upd: "map (\<lambda>x. if a_id x = ua_id ua
          then assign_adCopy (updateAdCopy_set ua (newDate e)) x else x) (AdCopies s)
      = map (\<lambda>x. if x = a then assign_adCopy (updateAdCopy_set ua (newDate e)) a else x)
          (AdCopies s)"
    using map_if_key [OF assms(2,4), of "assign_adCopy (updateAdCopy_set ua (newDate e))"]
    by (simp add: assms(5))
  show ?thesis
    using assms(1)
    by (simp add: updateAdCopy_handler_def requireUser_Some g select_AdCopies_def ex
        update_AdCopies_def sel upd first_def run_stmt_def)
qed

lemma deleteAdCopy_handler_owned:
  assumes "locals_user ctx = Some u" "distinct (map a_id (AdCopies s))"
    "owns_campaign s (uid u) (da_campaignId da)"
    "a \<in> set (AdCopies s)" "a_id a = da_id da" "a_campaignId a = da_campaignId da"
    "a_userId a = uid u"
  shows "deleteAdCopy_handler da ctx e s =
     (if referenced s (a_id a)
      then (Inl (StoreError FOREIGN_KEY_constraint_failed),
            s\<lparr>statements := statements s @ [SELECT T_AdCampaigns, DELETE T_AdCopies]\<rparr>)
      else (Inr (),
            s\<lparr>AdCopies := remove1 a (AdCopies s),
              statements := statements s @ [SELECT T_AdCampaigns, DELETE T_AdCopies]\<rparr>))"
proof -
  let ?s1 = "run_stmt (SELECT T_AdCampaigns) s"
  let ?Q = "\<lambda>r. a_campaignId r = da_campaignId da \<and> a_userId r = uid u"
  obtain r where g: "getOwnedCampaign (da_campaignId da) (uid u) s = (Inr r, ?s1)"
    using getOwnedCampaign_owned [OF assms(3)] by blast
  have q: "?Q a" using assms(6,7) by simp
  have sel: "filter (\<lambda>r. a_id r = da_id da \<and> a_campaignId r = da_campaignId da
        \<and> a_userId r = uid u) (AdCopies ?s1) = [a]"
    using filter_key_and [OF assms(2,4), of ?Q] q by (simp add: assms(5))
  have rm: "filter (\<lambda>r. \<not> (a_id r = da_id da \<and> a_campaignId r = da_campaignId da
        \<and> a_userId r = uid u)) (AdCopies ?s1) = remove1 a (AdCopies s)"
    using filter_not_key_and [OF assms(2,4), of ?Q] q by (simp add: assms(5))
  have ref: "referenced ?s1 (a_id a) = referenced s (a_id a)"
    by (simp add: referenced_def)
  show ?thesis
  proof (cases "referenced s (a_id a)")
    case True
    then have "referenced ?s1 (a_id a)" by (simp add: ref)
    from delete_AdCopies_referenced [OF sel this] True show ?thesis
      using assms(1)
      by (simp add: deleteAdCopy_handler_def requireUser_Some g run_stmt_twice)
  next
    case False
    then have "\<not> referenced ?s1 (a_id a)" by (simp add: ref)
    from delete_AdCopies_one [OF sel this] False show ?thesis
      using assms(1) unfolding rm
      by (simp add: deleteAdCopy_handler_def requireUser_Some g run_stmt_def)
  qed
qed

lemma logAdPerformance_handler_owned:
  assumes "locals_user ctx = Some u" "distinct (map a_id (AdCopies s))"
    "owns_chain s (uid u) (lp_adCopyId lp)"
    "randomUUID e \<notin> p_id ` set (AdPerformance s)"
  shows "logAdPerformance_handler lp ctx e s =
     (if readable_numbers lp
      then Inr (Some (stored_performance (logAdPerformance_values lp (randomUUID e) (newDate e))))
      else Inl (StoreError Unsafe_integer),
      s\<lparr>AdPerformance := AdPerformance s
            @ [stored_performance (logAdPerformance_values lp (randomUUID e) (newDate e))],
        statements := statements s
          @ [SELECT T_AdCopies, SELECT T_AdCampaigns, INSERT T_AdPerformance]\<rparr>)"
proof -
  obtain a r where g: "getOwnedAdCopy (lp_adCopyId lp) (uid u) s
        = (Inr a, run_stmt (SELECT T_AdCopies) s)"
      "getOwnedCampaign (a_campaignId a) (uid u) (run_stmt (SELECT T_AdCopies) s)
        = (Inr r, run_stmt (SELECT T_AdCampaigns) (run_stmt (SELECT T_AdCopies) s))"
    using owns_chain_guards [OF assms(2,3)] by blast
  have k: "p_id (logAdPerformance_values lp (randomUUID e) (newDate e)) = randomUUID e"
    "p_adCopyId (logAdPerformance_values lp (randomUUID e) (newDate e)) = lp_adCopyId lp"
    "unreadable (logAdPerformance_values lp (randomUUID e) (newDate e))
       = (\<not> readable_numbers lp)"
    by (auto simp: logAdPerformance_values_def unreadable_def readable_numbers_def)
  show ?thesis
    using assms(1,4) owns_chain_key [OF assms(3)]
    by (simp add: logAdPerformance_handler_def requireUser_Some g insert_AdPerformance_def k
        first_def)
qed


lemma createCampaign_handler_success:
  assumes "createCampaign_handler cc ctx e s = (Inr x, t)"
  shows "\<exists>u. locals_user ctx = Some u \<and> randomUUID e \<notin> c_id ` set (AdCampaigns s)
      \<and> x = Some (stored_campaign (createCampaign_values cc u (randomUUID e) (newDate e)))
      \<and> t = s\<lparr>AdCampaigns := AdCampaigns s
            @ [stored_campaign (createCampaign_values cc u (randomUUID e) (newDate e))],
          statements := statements s @ [INSERT T_AdCampaigns]\<rparr>"
proof -
  from createCampaign_handler_Inr [OF assms] obtain u where
    u: "locals_user ctx = Some u" "randomUUID e \<notin> c_id ` set (AdCampaigns s)"
    by blast
  from createCampaign_handler_result [OF u, of cc] assms u show ?thesis
    by simp
qed

lemma createAdCopy_handler_success:
  assumes "createAdCopy_handler ca ctx e s = (Inr x, t)"
  shows "\<exists>u. locals_user ctx = Some u \<and> owns_campaign s (uid u) (ca_campaignId ca)
      \<and> randomUUID e \<notin> a_id ` set (AdCopies s)
      \<and> x = Some (stored_adCopy (createAdCopy_values ca u (randomUUID e) (newDate e)))
      \<and> t = s\<lparr>AdCopies := AdCopies s
            @ [stored_adCopy (createAdCopy_values ca u (randomUUID e) (newDate e))],
          statements := statements s @ [SELECT T_AdCampaigns, INSERT T_AdCopies]\<rparr>"
proof -
  from createAdCopy_handler_Inr [OF assms] obtain u where
    u: "locals_user ctx = Some u" "owns_campaign s (uid u) (ca_campaignId ca)"
      "randomUUID e \<notin> a_id ` set (AdCopies s)"
    by blast
  from createAdCopy_handler_result [OF u] assms u show ?thesis
    by simp
qed

lemma map_key_replace:
  "k r' = k r \<Longrightarrow> map k (map (\<lambda>x. if x = r then r' else x) xs) = map k xs"
  by (induction xs) auto

lemma unreadable_stored [simp]: "unreadable (stored_performance r) = unreadable r"
  by (simp add: unreadable_def stored_performance_def)


section \<open>Lemmas on the sample data\<close>

lemma sample_ids [simp]:
  "uid alice = ''u1''" "uid bob = ''u2''"
  by (simp_all add: alice_def bob_def)

lemma store0_fields [simp]:
  "AdCampaigns store0 = [spring, summer, winter]"
  "AdCopies store0 = [save_big, stay_warm]"
  "AdPerformance store0 = []"
  "statements store0 = []"
  by (simp_all add: store0_def)

lemma store1_fields [simp]:
  "AdCampaigns store1 = [spring, summer, winter]"
  "AdCopies store1 = [save_big, stay_warm, misfiled]"
  "AdPerformance store1 = []"
  "statements store1 = []"
  by (simp_all add: store1_def)

lemma store0_wf: "wf store0"
  by (simp add: wf_def spring_def summer_def winter_def save_big_def stay_warm_def)

lemma store0_owns_campaign: "owns_campaign store0 u cid \<longleftrightarrow>
  (cid = ''c1'' \<and> u = ''u1'') \<or> (cid = ''c2'' \<and> u = ''u1'') \<or> (cid = ''c3'' \<and> u = ''u2'')"
  by (auto simp: owns_campaign_def spring_def summer_def winter_def)

lemma store0_owns_adCopy: "owns_adCopy store0 u aid \<longleftrightarrow>
  (aid = ''a1'' \<and> u = ''u1'') \<or> (aid = ''a2'' \<and> u = ''u2'')"
  by (auto simp: owns_adCopy_def save_big_def stay_warm_def)

lemma store0_owns_chain: "owns_chain store0 ''u1'' ''a1''"
  by (simp add: owns_chain_def store0_owns_campaign save_big_def)

lemma store1_owns_campaign: "owns_campaign store1 u cid \<longleftrightarrow>
  (cid = ''c1'' \<and> u = ''u1'') \<or> (cid = ''c2'' \<and> u = ''u1'') \<or> (cid = ''c3'' \<and> u = ''u2'')"
  by (auto simp: owns_campaign_def spring_def summer_def winter_def)

lemma store1_owns_adCopy: "owns_adCopy store1 u aid \<longleftrightarrow>
  (aid = ''a1'' \<and> u = ''u1'') \<or> (aid = ''a2'' \<and> u = ''u2'') \<or> (aid = ''a3'' \<and> u = ''u2'')"
  by (auto simp: owns_adCopy_def save_big_def stay_warm_def misfiled_def)

lemma store1_owns_adCopy_in: "owns_adCopy_in store1 u cid aid \<longleftrightarrow>
  (aid = ''a1'' \<and> cid = ''c1'' \<and> u = ''u1'') \<or> (aid = ''a2'' \<and> cid = ''c3'' \<and> u = ''u2'')
  \<or> (aid = ''a3'' \<and> cid = ''c1'' \<and> u = ''u2'')"
  by (auto simp: owns_adCopy_in_def save_big_def stay_warm_def misfiled_def)

lemma store1_not_owns_chain: "\<not> owns_chain store1 ''u2'' ''a3''"
  by (simp add: owns_chain_def store1_owns_campaign save_big_def stay_warm_def misfiled_def)

lemma no_fields_rejected:
  "updateCampaign_input no_fields_uc
     = [custom ''At least one field must be provided to update.'']"
  "updateAdCopy_input no_fields_ua
     = [custom ''At least one field must be provided to update.'']"
  "updateAdCopy_input no_fields_ua_other
     = [custom ''At least one field must be provided to update.'']"
  by (simp_all add: updateCampaign_input_def updateCampaign_refine_def
      updateAdCopy_input_def updateAdCopy_refine_def min1_def
      no_fields_uc_def no_fields_ua_def no_fields_ua_other_def)

lemma samples_accepted:
  "createCampaign_input sample_createCampaign = []"
  "updateCampaign_input (sample_updateCampaign ''c1'') = []"
  "createAdCopy_input (sample_createAdCopy ''c1'') = []"
  "updateAdCopy_input (sample_updateAdCopy ''a1'' ''c1'') = []"
  "updateAdCopy_input (sample_updateAdCopy ''a1'' ''c2'') = []"
  "updateAdCopy_input (sample_updateAdCopy ''a1'' ''c3'') = []"
  "deleteAdCopy_input \<lparr>da_id = ''a1'', da_campaignId = ''c1''\<rparr> = []"
  "deleteAdCopy_input \<lparr>da_id = ''a1'', da_campaignId = ''c2''\<rparr> = []"
  "deleteAdCopy_input \<lparr>da_id = ''a1'', da_campaignId = ''c3''\<rparr> = []"
  "deleteAdCopy_input \<lparr>da_id = ''a2'', da_campaignId = ''c3''\<rparr> = []"
  "deleteAdCopy_input \<lparr>da_id = ''zz'', da_campaignId = ''c1''\<rparr> = []"
  "listAdCopies_input \<lparr>la_campaignId = ''c1''\<rparr> = []"
  "logAdPerformance_input (sample_logAdPerformance ''a1'') = []"
  "logAdPerformance_input (sample_logAdPerformance ''a3'') = []"
  "listAdPerformance_input \<lparr>lf_adCopyId = ''a1''\<rparr> = []"
  "listCampaigns_input () = []"
  by (simp_all add: createCampaign_input_def updateCampaign_input_def
      updateCampaign_refine_def createAdCopy_input_def updateAdCopy_input_def
      updateAdCopy_refine_def deleteAdCopy_input_def listAdCopies_input_def
      logAdPerformance_input_def listAdPerformance_input_def listCampaigns_input_def min1_def
      sample_createCampaign_def sample_updateCampaign_def sample_createAdCopy_def
      sample_updateAdCopy_def sample_logAdPerformance_def)

section \<open>Identity\<close>

text \<open>
  C8 (as stated, refuted). An action checks its input against the schema before it runs
  the handler, and the handler is what resolves the identity. An unauthenticated call of
  \<open>updateCampaign\<close> that supplies no field to update fails with the input error, not with
  UNAUTHORIZED.
\<close>

theorem unauthenticated_invalid_input_counterexample:
  "locals_user anonymous = None
   \<and> updateCampaign no_fields_uc anonymous env0 store0 =
       (Inl (ActionInputError [custom ''At least one field must be provided to update.'']),
        store0)
   \<and> updateCampaign no_fields_uc anonymous env0 store0 \<noteq> (Inl unauthorized, store0)"
proof -
  have "updateCampaign no_fields_uc anonymous env0 store0 =
      (Inl (ActionInputError [custom ''At least one field must be provided to update.'']),
       store0)"
    unfolding updateCampaign_def by (simp add: defineAction_cases no_fields_rejected)
  then show ?thesis
    by (simp add: locals_user_anonymous)
qed

text \<open>
  C8 (amended). For every one of the nine operations, when the request context carries no
  authenticated user the operation fails before any store access and returns the store
  exactly as it was (no row changed, no statement issued): with the UNAUTHORIZED error
  when the input passes the operation's schema, and with the input error of the schema
  when it does not.
\<close>

theorem unauthenticated_fails_before_store:
  assumes "locals_user ctx = None"
  shows "createCampaign cc ctx e s =
           (Inl (if createCampaign_input cc = [] then unauthorized
                 else ActionInputError (createCampaign_input cc)), s)
       \<and> updateCampaign uc ctx e s =
           (Inl (if updateCampaign_input uc = [] then unauthorized
                 else ActionInputError (updateCampaign_input uc)), s)
       \<and> listCampaigns lc ctx e s =
           (Inl (if listCampaigns_input lc = [] then unauthorized
                 else ActionInputError (listCampaigns_input lc)), s)
       \<and> createAdCopy ca ctx e s =
           (Inl (if createAdCopy_input ca = [] then unauthorized
                 else ActionInputError (createAdCopy_input ca)), s)
       \<and> updateAdCopy ua ctx e s =
           (Inl (if updateAdCopy_input ua = [] then unauthorized
                 else ActionInputError (updateAdCopy_input ua)), s)
       \<and> deleteAdCopy da ctx e s =
           (Inl (if deleteAdCopy_input da = [] then unauthorized
                 else ActionInputError (deleteAdCopy_input da)), s)
       \<and> listAdCopies la ctx e s =
           (Inl (if listAdCopies_input la = [] then unauthorized
                 else ActionInputError (listAdCopies_input la)), s)
       \<and> logAdPerformance lp ctx e s =
           (Inl (if logAdPerformance_input lp = [] then unauthorized
                 else ActionInputError (logAdPerformance_input lp)), s)
       \<and> listAdPerformance lf ctx e s =
           (Inl (if listAdPerformance_input lf = [] then unauthorized
                 else ActionInputError (listAdPerformance_input lf)), s)"
  unfolding createCampaign_def updateCampaign_def listCampaigns_def createAdCopy_def
    updateAdCopy_def deleteAdCopy_def listAdCopies_def logAdPerformance_def
    listAdPerformance_def
  by (intro conjI defineAction_unauthorized handlers_unauthorized [OF assms])

theorem unauthenticated_fails_before_store_witness:
  "locals_user anonymous = None
   \<and> createCampaign sample_createCampaign anonymous env0 store0 = (Inl unauthorized, store0)
   \<and> updateCampaign (sample_updateCampaign ''c1'') anonymous env0 store0
       = (Inl unauthorized, store0)
   \<and> updateCampaign no_fields_uc anonymous env0 store0
       = (Inl (ActionInputError [custom ''At least one field must be provided to update.'']),
          store0)
   \<and> listCampaigns () anonymous env0 store0 = (Inl unauthorized, store0)
   \<and> createAdCopy (sample_createAdCopy ''c1'') anonymous env0 store0
       = (Inl unauthorized, store0)
   \<and> updateAdCopy (sample_updateAdCopy ''a1'' ''c1'') anonymous env0 store0
       = (Inl unauthorized, store0)
   \<and> deleteAdCopy \<lparr>da_id = ''a1'', da_campaignId = ''c1''\<rparr> anonymous env0 store0
       = (Inl unauthorized, store0)
   \<and> listAdCopies \<lparr>la_campaignId = ''c1''\<rparr> anonymous env0 store0 = (Inl unauthorized, store0)
   \<and> logAdPerformance (sample_logAdPerformance ''a1'') anonymous env0 store0
       = (Inl unauthorized, store0)
   \<and> listAdPerformance \<lparr>lf_adCopyId = ''a1''\<rparr> anonymous env0 store0
       = (Inl unauthorized, store0)"
proof -
  note A = unauthenticated_fails_before_store [OF locals_user_anonymous,
      of sample_createCampaign env0 store0 "sample_updateCampaign ''c1''" "()"
      "sample_createAdCopy ''c1''" "sample_updateAdCopy ''a1'' ''c1''"
      "\<lparr>da_id = ''a1'', da_campaignId = ''c1''\<rparr>" "\<lparr>la_campaignId = ''c1''\<rparr>"
      "sample_logAdPerformance ''a1''" "\<lparr>lf_adCopyId = ''a1''\<rparr>"]
  note B = unauthenticated_fails_before_store [OF locals_user_anonymous,
      of sample_createCampaign env0 store0 no_fields_uc "()"
      "sample_createAdCopy ''c1''" "sample_updateAdCopy ''a1'' ''c1''"
      "\<lparr>da_id = ''a1'', da_campaignId = ''c1''\<rparr>" "\<lparr>la_campaignId = ''c1''\<rparr>"
      "sample_logAdPerformance ''a1''" "\<lparr>lf_adCopyId = ''a1''\<rparr>"]
  show ?thesis
    using A B by (simp add: locals_user_anonymous samples_accepted no_fields_rejected)
qed

section \<open>Input validation\<close>

text \<open>
  C3. An \<open>updateCampaign\<close> or \<open>updateAdCopy\<close> call in which every optional field is
  undefined is rejected by the input schema: the action fails with the input error that
  carries the issue "At least one field must be provided to update.", the handler does
  not run, and the store is returned exactly as it was (no statement issued, no row
  changed, so every \<open>updatedAt\<close> is as before). This holds whoever the caller is.
\<close>

theorem update_without_fields_is_rejected:
  "(uc_name uc = None \<and> uc_objective uc = None \<and> uc_productName uc = None
      \<and> uc_targetAudience uc = None \<and> uc_notes uc = None \<longrightarrow>
    custom ''At least one field must be provided to update.'' \<in> set (updateCampaign_input uc)
    \<and> updateCampaign uc ctx e s = (Inl (ActionInputError (updateCampaign_input uc)), s))
   \<and> (ua_platform ua = None \<and> ua_headline ua = None \<and> ua_primaryText ua = None
      \<and> ua_description ua = None \<and> ua_callToAction ua = None \<and> ua_tone ua = None
      \<and> ua_variantLabel ua = None \<and> ua_url ua = None \<longrightarrow>
    custom ''At least one field must be provided to update.'' \<in> set (updateAdCopy_input ua)
    \<and> updateAdCopy ua ctx e s = (Inl (ActionInputError (updateAdCopy_input ua)), s))"
proof (intro conjI impI)
  assume h: "uc_name uc = None \<and> uc_objective uc = None \<and> uc_productName uc = None
      \<and> uc_targetAudience uc = None \<and> uc_notes uc = None"
  then show m: "custom ''At least one field must be provided to update.''
      \<in> set (updateCampaign_input uc)"
    by (simp add: updateCampaign_input_def updateCampaign_refine_def)
  then have "updateCampaign_input uc \<noteq> []" by auto
  then show "updateCampaign uc ctx e s = (Inl (ActionInputError (updateCampaign_input uc)), s)"
    unfolding updateCampaign_def by (rule defineAction_rejected)
next
  assume h: "ua_platform ua = None \<and> ua_headline ua = None \<and> ua_primaryText ua = None
      \<and> ua_description ua = None \<and> ua_callToAction ua = None \<and> ua_tone ua = None
      \<and> ua_variantLabel ua = None \<and> ua_url ua = None"
  then show m: "custom ''At least one field must be provided to update.''
      \<in> set (updateAdCopy_input ua)"
    by (simp add: updateAdCopy_input_def updateAdCopy_refine_def)
  then have "updateAdCopy_input ua \<noteq> []" by auto
  then show "updateAdCopy ua ctx e s = (Inl (ActionInputError (updateAdCopy_input ua)), s)"
    unfolding updateAdCopy_def by (rule defineAction_rejected)
qed

theorem update_without_fields_is_rejected_witness:
  "(uc_name no_fields_uc = None \<and> uc_objective no_fields_uc = None
      \<and> uc_productName no_fields_uc = None \<and> uc_targetAudience no_fields_uc = None
      \<and> uc_notes no_fields_uc = None)
   \<and> updateCampaign no_fields_uc (signed_in alice) env0 store0 =
       (Inl (ActionInputError [custom ''At least one field must be provided to update.'']),
        store0)
   \<and> (ua_platform no_fields_ua = None \<and> ua_headline no_fields_ua = None
      \<and> ua_primaryText no_fields_ua = None \<and> ua_description no_fields_ua = None
      \<and> ua_callToAction no_fields_ua = None \<and> ua_tone no_fields_ua = None
      \<and> ua_variantLabel no_fields_ua = None \<and> ua_url no_fields_ua = None)
   \<and> updateAdCopy no_fields_ua (signed_in alice) env0 store0 =
       (Inl (ActionInputError [custom ''At least one field must be provided to update.'']),
        store0)"
proof -
  have u: "updateCampaign_input no_fields_uc
      = [custom ''At least one field must be provided to update.'']"
    by (simp add: updateCampaign_input_def updateCampaign_refine_def min1_def no_fields_uc_def)
  have a: "updateAdCopy_input no_fields_ua
      = [custom ''At least one field must be provided to update.'']"
    by (simp add: updateAdCopy_input_def updateAdCopy_refine_def min1_def no_fields_ua_def)
  show ?thesis
    using update_without_fields_is_rejected
      [of no_fields_uc "signed_in alice" env0 store0 no_fields_ua] u a
    by (simp add: no_fields_uc_def no_fields_ua_def)
qed

section \<open>Ownership guard\<close>

text \<open>
  C1 (as stated, refuted). The schema is checked before the ownership guard. Bob calls
  \<open>updateCampaign\<close> on the campaign \<open>c1\<close>, which belongs to Alice, and supplies no field
  to update: the operation fails with the input error, not with NOT_FOUND.
\<close>

theorem foreign_target_invalid_input_counterexample:
  "owns_campaign store0 (uid alice) (uc_id no_fields_uc)
   \<and> \<not> owns_campaign store0 (uid bob) (uc_id no_fields_uc)
   \<and> updateCampaign no_fields_uc (signed_in bob) env0 store0 =
       (Inl (ActionInputError [custom ''At least one field must be provided to update.'']),
        store0)
   \<and> updateCampaign no_fields_uc (signed_in bob) env0 store0 \<noteq>
       (Inl campaign_not_found, store0\<lparr>statements := [SELECT T_AdCampaigns]\<rparr>)"
proof -
  have "updateCampaign no_fields_uc (signed_in bob) env0 store0 =
      (Inl (ActionInputError [custom ''At least one field must be provided to update.'']),
       store0)"
    unfolding updateCampaign_def by (simp add: defineAction_cases no_fields_rejected)
  then show ?thesis
    by (simp add: store0_owns_campaign no_fields_uc_def)
qed

text \<open>
  C1 (amended). A mutating operation (\<open>updateCampaign\<close>, \<open>createAdCopy\<close>, \<open>updateAdCopy\<close>,
  \<open>deleteAdCopy\<close>, \<open>logAdPerformance\<close>) called by a signed-in user \<open>u\<close> on a target that
  \<open>u\<close> does not own fails and no row of any table is inserted, updated or deleted. When
  the input passes the operation's schema the failure is a NOT_FOUND error, and the store
  returned differs from the one given in the list of issued statements only; when the
  schema rejects the input the failure is the input error and the store is untouched. "Does
  not own" holds alike when no row has the id and when the row with that id belongs to
  another user, so the error is the same in both cases. For the operations that walk a
  chain each link is covered: the campaign, and the ad copy when the campaign is the
  caller's; the ad copy, and its campaign when the ad copy is the caller's.
\<close>

theorem foreign_target_not_found:
  assumes "locals_user ctx = Some u"
  shows "(\<not> owns_campaign s (uid u) (uc_id uc) \<longrightarrow>
            updateCampaign uc ctx e s =
              (if updateCampaign_input uc = []
               then (Inl campaign_not_found,
                     s\<lparr>statements := statements s @ [SELECT T_AdCampaigns]\<rparr>)
               else (Inl (ActionInputError (updateCampaign_input uc)), s)))
       \<and> (\<not> owns_campaign s (uid u) (ca_campaignId ca) \<longrightarrow>
            createAdCopy ca ctx e s =
              (if createAdCopy_input ca = []
               then (Inl campaign_not_found,
                     s\<lparr>statements := statements s @ [SELECT T_AdCampaigns]\<rparr>)
               else (Inl (ActionInputError (createAdCopy_input ca)), s)))
       \<and> (\<not> owns_campaign s (uid u) (ua_campaignId ua) \<longrightarrow>
            updateAdCopy ua ctx e s =
              (if updateAdCopy_input ua = []
               then (Inl campaign_not_found,
                     s\<lparr>statements := statements s @ [SELECT T_AdCampaigns]\<rparr>)
               else (Inl (ActionInputError (updateAdCopy_input ua)), s)))
       \<and> (owns_campaign s (uid u) (ua_campaignId ua) \<and> \<not> owns_adCopy s (uid u) (ua_id ua) \<longrightarrow>
            updateAdCopy ua ctx e s =
              (if updateAdCopy_input ua = []
               then (Inl ad_copy_not_found,
                     s\<lparr>statements := statements s @ [SELECT T_AdCampaigns, SELECT T_AdCopies]\<rparr>)
               else (Inl (ActionInputError (updateAdCopy_input ua)), s)))
       \<and> (\<not> owns_campaign s (uid u) (da_campaignId da) \<longrightarrow>
            deleteAdCopy da ctx e s =
              (if deleteAdCopy_input da = []
               then (Inl campaign_not_found,
                     s\<lparr>statements := statements s @ [SELECT T_AdCampaigns]\<rparr>)
               else (Inl (ActionInputError (deleteAdCopy_input da)), s)))
       \<and> (owns_campaign s (uid u) (da_campaignId da) \<and> \<not> owns_adCopy s (uid u) (da_id da) \<longrightarrow>
            deleteAdCopy da ctx e s =
              (if deleteAdCopy_input da = []
               then (Inl ad_copy_not_found,
                     s\<lparr>statements := statements s @ [SELECT T_AdCampaigns, DELETE T_AdCopies]\<rparr>)
               else (Inl (ActionInputError (deleteAdCopy_input da)), s)))
       \<and> (\<not> owns_adCopy s (uid u) (lp_adCopyId lp) \<longrightarrow>
            logAdPerformance lp ctx e s =
              (if logAdPerformance_input lp = []
               then (Inl ad_copy_not_found,
                     s\<lparr>statements := statements s @ [SELECT T_AdCopies]\<rparr>)
               else (Inl (ActionInputError (logAdPerformance_input lp)), s)))
       \<and> (owns_adCopy s (uid u) (lp_adCopyId lp)
            \<and> \<not> owns_chain s (uid u) (lp_adCopyId lp) \<longrightarrow>
            logAdPerformance lp ctx e s =
              (if logAdPerformance_input lp = []
               then (Inl campaign_not_found,
                     s\<lparr>statements := statements s @ [SELECT T_AdCopies, SELECT T_AdCampaigns]\<rparr>)
               else (Inl (ActionInputError (logAdPerformance_input lp)), s)))"
proof (intro conjI impI)
  assume "\<not> owns_campaign s (uid u) (uc_id uc)"
  then show "updateCampaign uc ctx e s =
      (if updateCampaign_input uc = []
       then (Inl campaign_not_found, s\<lparr>statements := statements s @ [SELECT T_AdCampaigns]\<rparr>)
       else (Inl (ActionInputError (updateCampaign_input uc)), s))"
    unfolding updateCampaign_def defineAction_cases
    by (simp add: updateCampaign_handler_not_owned [OF assms])
next
  assume "\<not> owns_campaign s (uid u) (ca_campaignId ca)"
  then show "createAdCopy ca ctx e s =
      (if createAdCopy_input ca = []
       then (Inl campaign_not_found, s\<lparr>statements := statements s @ [SELECT T_AdCampaigns]\<rparr>)
       else (Inl (ActionInputError (createAdCopy_input ca)), s))"
    unfolding createAdCopy_def defineAction_cases
    by (simp add: createAdCopy_handler_not_owned [OF assms])
next
  assume "\<not> owns_campaign s (uid u) (ua_campaignId ua)"
  then show "updateAdCopy ua ctx e s =
      (if updateAdCopy_input ua = []
       then (Inl campaign_not_found, s\<lparr>statements := statements s @ [SELECT T_AdCampaigns]\<rparr>)
       else (Inl (ActionInputError (updateAdCopy_input ua)), s))"
    unfolding updateAdCopy_def defineAction_cases
    by (simp add: updateAdCopy_handler_campaign_not_owned [OF assms])
next
  assume h: "owns_campaign s (uid u) (ua_campaignId ua) \<and> \<not> owns_adCopy s (uid u) (ua_id ua)"
  then have "\<not> owns_adCopy_in s (uid u) (ua_campaignId ua) (ua_id ua)"
    by (blast dest: owns_adCopy_in_imp)
  with h show "updateAdCopy ua ctx e s =
      (if updateAdCopy_input ua = []
       then (Inl ad_copy_not_found,
             s\<lparr>statements := statements s @ [SELECT T_AdCampaigns, SELECT T_AdCopies]\<rparr>)
       else (Inl (ActionInputError (updateAdCopy_input ua)), s))"
    unfolding updateAdCopy_def defineAction_cases
    by (simp add: updateAdCopy_handler_copy_not_owned [OF assms])
next
  assume "\<not> owns_campaign s (uid u) (da_campaignId da)"
  then show "deleteAdCopy da ctx e s =
      (if deleteAdCopy_input da = []
       then (Inl campaign_not_found, s\<lparr>statements := statements s @ [SELECT T_AdCampaigns]\<rparr>)
       else (Inl (ActionInputError (deleteAdCopy_input da)), s))"
    unfolding deleteAdCopy_def defineAction_cases
    by (simp add: deleteAdCopy_handler_campaign_not_owned [OF assms])
next
  assume h: "owns_campaign s (uid u) (da_campaignId da) \<and> \<not> owns_adCopy s (uid u) (da_id da)"
  then have "\<not> owns_adCopy_in s (uid u) (da_campaignId da) (da_id da)"
    by (blast dest: owns_adCopy_in_imp)
  with h show "deleteAdCopy da ctx e s =
      (if deleteAdCopy_input da = []
       then (Inl ad_copy_not_found,
             s\<lparr>statements := statements s @ [SELECT T_AdCampaigns, DELETE T_AdCopies]\<rparr>)
       else (Inl (ActionInputError (deleteAdCopy_input da)), s))"
    unfolding deleteAdCopy_def defineAction_cases
    by (simp add: deleteAdCopy_handler_copy_not_owned [OF assms])
next
  assume "\<not> owns_adCopy s (uid u) (lp_adCopyId lp)"
  then show "logAdPerformance lp ctx e s =
      (if logAdPerformance_input lp = []
       then (Inl ad_copy_not_found, s\<lparr>statements := statements s @ [SELECT T_AdCopies]\<rparr>)
       else (Inl (ActionInputError (logAdPerformance_input lp)), s))"
    unfolding logAdPerformance_def defineAction_cases
    by (simp add: logAdPerformance_handler_copy_not_owned [OF assms])
next
  assume "owns_adCopy s (uid u) (lp_adCopyId lp) \<and> \<not> owns_chain s (uid u) (lp_adCopyId lp)"
  then show "logAdPerformance lp ctx e s =
      (if logAdPerformance_input lp = []
       then (Inl campaign_not_found,
             s\<lparr>statements := statements s @ [SELECT T_AdCopies, SELECT T_AdCampaigns]\<rparr>)
       else (Inl (ActionInputError (logAdPerformance_input lp)), s))"
    unfolding logAdPerformance_def defineAction_cases
    by (simp add: logAdPerformance_handler_chain_not_owned [OF assms])
qed

theorem foreign_target_not_found_witness:
  "locals_user (signed_in bob) = Some bob
   \<and> \<not> owns_campaign store1 (uid bob) ''c1''
   \<and> owns_campaign store1 (uid alice) ''c1''
   \<and> owns_campaign store1 (uid bob) ''c3''
   \<and> \<not> owns_adCopy store1 (uid bob) ''a1''
   \<and> owns_adCopy store1 (uid alice) ''a1''
   \<and> owns_adCopy store1 (uid bob) ''a3''
   \<and> \<not> owns_chain store1 (uid bob) ''a3''
   \<and> updateCampaign (sample_updateCampaign ''c1'') (signed_in bob) env0 store1 =
       (Inl campaign_not_found, store1\<lparr>statements := [SELECT T_AdCampaigns]\<rparr>)
   \<and> updateCampaign no_fields_uc (signed_in bob) env0 store1 =
       (Inl (ActionInputError [custom ''At least one field must be provided to update.'']),
        store1)
   \<and> createAdCopy (sample_createAdCopy ''c1'') (signed_in bob) env0 store1 =
       (Inl campaign_not_found, store1\<lparr>statements := [SELECT T_AdCampaigns]\<rparr>)
   \<and> updateAdCopy (sample_updateAdCopy ''a1'' ''c1'') (signed_in bob) env0 store1 =
       (Inl campaign_not_found, store1\<lparr>statements := [SELECT T_AdCampaigns]\<rparr>)
   \<and> updateAdCopy (sample_updateAdCopy ''a1'' ''c3'') (signed_in bob) env0 store1 =
       (Inl ad_copy_not_found, store1\<lparr>statements := [SELECT T_AdCampaigns, SELECT T_AdCopies]\<rparr>)
   \<and> deleteAdCopy \<lparr>da_id = ''a1'', da_campaignId = ''c1''\<rparr> (signed_in bob) env0 store1 =
       (Inl campaign_not_found, store1\<lparr>statements := [SELECT T_AdCampaigns]\<rparr>)
   \<and> deleteAdCopy \<lparr>da_id = ''a1'', da_campaignId = ''c3''\<rparr> (signed_in bob) env0 store1 =
       (Inl ad_copy_not_found, store1\<lparr>statements := [SELECT T_AdCampaigns, DELETE T_AdCopies]\<rparr>)
   \<and> logAdPerformance (sample_logAdPerformance ''a1'') (signed_in bob) env0 store1 =
       (Inl ad_copy_not_found, store1\<lparr>statements := [SELECT T_AdCopies]\<rparr>)
   \<and> logAdPerformance (sample_logAdPerformance ''a3'') (signed_in bob) env0 store1 =
       (Inl campaign_not_found, store1\<lparr>statements := [SELECT T_AdCopies, SELECT T_AdCampaigns]\<rparr>)"
proof -
  have f1: "uc_id (sample_updateCampaign ''c1'') = ''c1''" "uc_id no_fields_uc = ''c1''"
    "ca_campaignId (sample_createAdCopy ''c1'') = ''c1''"
    "ua_campaignId (sample_updateAdCopy ''a1'' ''c1'') = ''c1''"
    "ua_campaignId (sample_updateAdCopy ''a1'' ''c3'') = ''c3''"
    "ua_id (sample_updateAdCopy ''a1'' ''c3'') = ''a1''"
    "lp_adCopyId (sample_logAdPerformance ''a1'') = ''a1''"
    "lp_adCopyId (sample_logAdPerformance ''a3'') = ''a3''"
    by (simp_all add: sample_updateCampaign_def sample_createAdCopy_def sample_updateAdCopy_def
        sample_logAdPerformance_def no_fields_uc_def)
  note A = foreign_target_not_found [OF locals_user_signed_in, of store1 bob
      "sample_updateCampaign ''c1''" env0 "sample_createAdCopy ''c1''"
      "sample_updateAdCopy ''a1'' ''c1''" "\<lparr>da_id = ''a1'', da_campaignId = ''c1''\<rparr>"
      "sample_logAdPerformance ''a1''"]
  note B = foreign_target_not_found [OF locals_user_signed_in, of store1 bob
      no_fields_uc env0 "sample_createAdCopy ''c1''"
      "sample_updateAdCopy ''a1'' ''c3''" "\<lparr>da_id = ''a1'', da_campaignId = ''c3''\<rparr>"
      "sample_logAdPerformance ''a3''"]
  show ?thesis
    using A B
    by (simp add: locals_user_signed_in store1_owns_campaign store1_owns_adCopy
        store1_not_owns_chain f1 samples_accepted no_fields_rejected)
qed

text \<open>
  C10 (as stated, refuted). Alice owns the campaign \<open>c2\<close> and the ad copy \<open>a1\<close>, which is
  stored under her campaign \<open>c1\<close>. She calls \<open>updateAdCopy\<close> for \<open>a1\<close> with campaign id
  \<open>c2\<close> and supplies no field to update: the operation fails with the input error, not with
  NOT_FOUND.
\<close>

theorem other_campaign_invalid_input_counterexample:
  "owns_campaign store0 (uid alice) (ua_campaignId no_fields_ua_other)
   \<and> save_big \<in> set (AdCopies store0) \<and> a_id save_big = ua_id no_fields_ua_other
   \<and> a_userId save_big = uid alice \<and> a_campaignId save_big \<noteq> ua_campaignId no_fields_ua_other
   \<and> updateAdCopy no_fields_ua_other (signed_in alice) env0 store0 =
       (Inl (ActionInputError [custom ''At least one field must be provided to update.'']),
        store0)
   \<and> updateAdCopy no_fields_ua_other (signed_in alice) env0 store0 \<noteq>
       (Inl ad_copy_not_found,
        store0\<lparr>statements := [SELECT T_AdCampaigns, SELECT T_AdCopies]\<rparr>)"
proof -
  have "updateAdCopy no_fields_ua_other (signed_in alice) env0 store0 =
      (Inl (ActionInputError [custom ''At least one field must be provided to update.'']),
       store0)"
    unfolding updateAdCopy_def by (simp add: defineAction_cases no_fields_rejected)
  then show ?thesis
    by (simp add: store0_owns_campaign no_fields_ua_other_def save_big_def)
qed

text \<open>
  C10 (amended). \<open>updateAdCopy\<close> and \<open>deleteAdCopy\<close> match the ad copy on id, campaign id
  and owner together. When the caller owns the supplied campaign and owns the ad copy with
  the supplied id, but that ad copy is stored under another campaign, both operations fail
  and change no row: with the NOT_FOUND error of the ad copy when the input passes the
  operation's schema, and with the input error, before any store access, when it does not.
\<close>

theorem adCopy_under_other_campaign_not_found:
  assumes "locals_user ctx = Some u" "wf s"
    "owns_campaign s (uid u) cid"
    "a \<in> set (AdCopies s)" "a_userId a = uid u" "a_campaignId a \<noteq> cid"
  shows "(ua_id ua = a_id a \<and> ua_campaignId ua = cid \<longrightarrow>
            updateAdCopy ua ctx e s =
              (if updateAdCopy_input ua = []
               then (Inl ad_copy_not_found,
                     s\<lparr>statements := statements s @ [SELECT T_AdCampaigns, SELECT T_AdCopies]\<rparr>)
               else (Inl (ActionInputError (updateAdCopy_input ua)), s)))
       \<and> (da_id da = a_id a \<and> da_campaignId da = cid \<longrightarrow>
            deleteAdCopy da ctx e s =
              (if deleteAdCopy_input da = []
               then (Inl ad_copy_not_found,
                     s\<lparr>statements := statements s @ [SELECT T_AdCampaigns, DELETE T_AdCopies]\<rparr>)
               else (Inl (ActionInputError (deleteAdCopy_input da)), s)))"
proof -
  have n: "\<not> owns_adCopy_in s (uid u) cid (a_id a)"
    using assms(2,4,6) by (rule wf_not_owns_adCopy_in)
  show ?thesis
    unfolding updateAdCopy_def deleteAdCopy_def defineAction_cases
    using assms(1,3) n
    by (auto simp: updateAdCopy_handler_copy_not_owned deleteAdCopy_handler_copy_not_owned)
qed

theorem adCopy_under_other_campaign_not_found_witness:
  "locals_user (signed_in alice) = Some alice \<and> wf store0
   \<and> owns_campaign store0 (uid alice) ''c2''
   \<and> save_big \<in> set (AdCopies store0) \<and> a_userId save_big = uid alice
   \<and> a_campaignId save_big \<noteq> ''c2''
   \<and> updateAdCopy (sample_updateAdCopy ''a1'' ''c2'') (signed_in alice) env0 store0 =
       (Inl ad_copy_not_found, store0\<lparr>statements := [SELECT T_AdCampaigns, SELECT T_AdCopies]\<rparr>)
   \<and> updateAdCopy no_fields_ua_other (signed_in alice) env0 store0 =
       (Inl (ActionInputError [custom ''At least one field must be provided to update.'']),
        store0)
   \<and> deleteAdCopy \<lparr>da_id = ''a1'', da_campaignId = ''c2''\<rparr> (signed_in alice) env0 store0 =
       (Inl ad_copy_not_found, store0\<lparr>statements := [SELECT T_AdCampaigns, DELETE T_AdCopies]\<rparr>)"
proof -
  have o: "owns_campaign store0 (uid alice) ''c2''"
    by (simp add: store0_owns_campaign)
  have m: "save_big \<in> set (AdCopies store0)" by simp
  have f: "a_userId save_big = uid alice" "a_campaignId save_big \<noteq> ''c2''"
    "a_id save_big = ''a1''"
    by (simp_all add: save_big_def)
  have i: "ua_id (sample_updateAdCopy ''a1'' ''c2'') = ''a1''"
    "ua_campaignId (sample_updateAdCopy ''a1'' ''c2'') = ''c2''"
    "ua_id no_fields_ua_other = ''a1''" "ua_campaignId no_fields_ua_other = ''c2''"
    by (simp_all add: sample_updateAdCopy_def no_fields_ua_other_def)
  note A = adCopy_under_other_campaign_not_found [OF locals_user_signed_in store0_wf o m f(1,2),
        of "sample_updateAdCopy ''a1'' ''c2''" env0 "\<lparr>da_id = ''a1'', da_campaignId = ''c2''\<rparr>"]
  note B = adCopy_under_other_campaign_not_found [OF locals_user_signed_in store0_wf o m f(1,2),
        of no_fields_ua_other env0 "\<lparr>da_id = ''a1'', da_campaignId = ''c2''\<rparr>"]
  show ?thesis
    using A B store0_wf o m f
    by (simp add: locals_user_signed_in i samples_accepted no_fields_rejected)
qed

section \<open>Order of the ownership guards\<close>

text \<open>
  C5 (as stated, refuted). \<open>updateAdCopy\<close> and \<open>deleteAdCopy\<close> do not check the ad copy
  before the campaign. Called by a user who owns neither the campaign \<open>c1\<close> nor the ad
  copy \<open>a1\<close>, both fail with "Campaign not found." after a single statement, the select on
  the campaigns table; the ad-copies table is never accessed.
\<close>

theorem guard_order_counterexample:
  "\<not> owns_adCopy store0 (uid bob) ''a1''
   \<and> updateAdCopy_handler (sample_updateAdCopy ''a1'' ''c1'') (signed_in bob) env0 store0 =
       (Inl campaign_not_found, store0\<lparr>statements := [SELECT T_AdCampaigns]\<rparr>)
   \<and> updateAdCopy_handler (sample_updateAdCopy ''a1'' ''c1'') (signed_in bob) env0 store0 \<noteq>
       (Inl ad_copy_not_found, store0\<lparr>statements := [SELECT T_AdCopies]\<rparr>)
   \<and> deleteAdCopy_handler \<lparr>da_id = ''a1'', da_campaignId = ''c1''\<rparr> (signed_in bob) env0 store0 =
       (Inl campaign_not_found, store0\<lparr>statements := [SELECT T_AdCampaigns]\<rparr>)
   \<and> deleteAdCopy_handler \<lparr>da_id = ''a1'', da_campaignId = ''c1''\<rparr> (signed_in bob) env0 store0 \<noteq>
       (Inl ad_copy_not_found, store0\<lparr>statements := [DELETE T_AdCopies]\<rparr>)"
proof -
  have c: "\<not> owns_campaign store0 (uid bob) ''c1''"
    by (simp add: owns_campaign_def store0_def spring_def summer_def winter_def bob_def)
  have a: "\<not> owns_adCopy store0 (uid bob) ''a1''"
    by (simp add: owns_adCopy_def store0_def save_big_def stay_warm_def bob_def)
  have st: "statements store0 = []" by (simp add: store0_def)
  have u: "updateAdCopy_handler (sample_updateAdCopy ''a1'' ''c1'') (signed_in bob) env0 store0 =
       (Inl campaign_not_found, store0\<lparr>statements := [SELECT T_AdCampaigns]\<rparr>)"
    using updateAdCopy_handler_campaign_not_owned [OF locals_user_signed_in,
        of store0 bob "sample_updateAdCopy ''a1'' ''c1''" env0] c
    by (simp add: sample_updateAdCopy_def st)
  have d: "deleteAdCopy_handler \<lparr>da_id = ''a1'', da_campaignId = ''c1''\<rparr> (signed_in bob) env0 store0 =
       (Inl campaign_not_found, store0\<lparr>statements := [SELECT T_AdCampaigns]\<rparr>)"
    using deleteAdCopy_handler_campaign_not_owned [OF locals_user_signed_in,
        of store0 bob "\<lparr>da_id = ''a1'', da_campaignId = ''c1''\<rparr>" env0] c
    by (simp add: st)
  show ?thesis
    using a by (simp add: u d)
qed

text \<open>
  C5 (amended). Each handler that is given ids along an ownership chain runs its guards in
  a fixed order and fails NOT_FOUND at the first one that does not match, without issuing
  a further statement. \<open>logAdPerformance\<close> and \<open>listAdPerformance\<close> check the ad copy
  first and then the campaign the ad copy is stored under. \<open>updateAdCopy\<close> and
  \<open>deleteAdCopy\<close>, which are given both ids, check the campaign id first and then the ad
  copy (on id, campaign id and owner together).
\<close>

theorem guard_order:
  assumes "locals_user ctx = Some u"
  shows "(\<not> owns_adCopy s (uid u) (lp_adCopyId lp) \<longrightarrow>
            logAdPerformance_handler lp ctx e s =
              (Inl ad_copy_not_found, s\<lparr>statements := statements s @ [SELECT T_AdCopies]\<rparr>))
       \<and> (owns_adCopy s (uid u) (lp_adCopyId lp)
            \<and> \<not> owns_chain s (uid u) (lp_adCopyId lp) \<longrightarrow>
            logAdPerformance_handler lp ctx e s =
              (Inl campaign_not_found,
               s\<lparr>statements := statements s @ [SELECT T_AdCopies, SELECT T_AdCampaigns]\<rparr>))
       \<and> (\<not> owns_adCopy s (uid u) (lf_adCopyId lf) \<longrightarrow>
            listAdPerformance_handler lf ctx e s =
              (Inl ad_copy_not_found, s\<lparr>statements := statements s @ [SELECT T_AdCopies]\<rparr>))
       \<and> (owns_adCopy s (uid u) (lf_adCopyId lf)
            \<and> \<not> owns_chain s (uid u) (lf_adCopyId lf) \<longrightarrow>
            listAdPerformance_handler lf ctx e s =
              (Inl campaign_not_found,
               s\<lparr>statements := statements s @ [SELECT T_AdCopies, SELECT T_AdCampaigns]\<rparr>))
       \<and> (\<not> owns_campaign s (uid u) (ua_campaignId ua) \<longrightarrow>
            updateAdCopy_handler ua ctx e s =
              (Inl campaign_not_found, s\<lparr>statements := statements s @ [SELECT T_AdCampaigns]\<rparr>))
       \<and> (owns_campaign s (uid u) (ua_campaignId ua)
            \<and> \<not> owns_adCopy_in s (uid u) (ua_campaignId ua) (ua_id ua) \<longrightarrow>
            updateAdCopy_handler ua ctx e s =
              (Inl ad_copy_not_found,
               s\<lparr>statements := statements s @ [SELECT T_AdCampaigns, SELECT T_AdCopies]\<rparr>))
       \<and> (\<not> owns_campaign s (uid u) (da_campaignId da) \<longrightarrow>
            deleteAdCopy_handler da ctx e s =
              (Inl campaign_not_found, s\<lparr>statements := statements s @ [SELECT T_AdCampaigns]\<rparr>))
       \<and> (owns_campaign s (uid u) (da_campaignId da)
            \<and> \<not> owns_adCopy_in s (uid u) (da_campaignId da) (da_id da) \<longrightarrow>
            deleteAdCopy_handler da ctx e s =
              (Inl ad_copy_not_found,
               s\<lparr>statements := statements s @ [SELECT T_AdCampaigns, DELETE T_AdCopies]\<rparr>))"
proof (intro conjI impI)
  assume "\<not> owns_adCopy s (uid u) (lp_adCopyId lp)"
  with assms show "logAdPerformance_handler lp ctx e s =
      (Inl ad_copy_not_found, s\<lparr>statements := statements s @ [SELECT T_AdCopies]\<rparr>)"
    by (rule logAdPerformance_handler_copy_not_owned)
next
  assume h: "owns_adCopy s (uid u) (lp_adCopyId lp)
      \<and> \<not> owns_chain s (uid u) (lp_adCopyId lp)"
  then obtain a where a: "getOwnedAdCopy (lp_adCopyId lp) (uid u) s
        = (Inr a, run_stmt (SELECT T_AdCopies) s)"
      "a \<in> set (AdCopies s)" "a_id a = lp_adCopyId lp" "a_userId a = uid u"
    using getOwnedAdCopy_owned by blast
  with h have "\<not> owns_campaign s (uid u) (a_campaignId a)"
    by (auto simp: owns_chain_def)
  with assms a(1) show "logAdPerformance_handler lp ctx e s =
      (Inl campaign_not_found,
       s\<lparr>statements := statements s @ [SELECT T_AdCopies, SELECT T_AdCampaigns]\<rparr>)"
    by (rule logAdPerformance_handler_campaign_not_owned)
next
  assume "\<not> owns_adCopy s (uid u) (lf_adCopyId lf)"
  with assms show "listAdPerformance_handler lf ctx e s =
      (Inl ad_copy_not_found, s\<lparr>statements := statements s @ [SELECT T_AdCopies]\<rparr>)"
    by (rule listAdPerformance_handler_copy_not_owned)
next
  assume h: "owns_adCopy s (uid u) (lf_adCopyId lf)
      \<and> \<not> owns_chain s (uid u) (lf_adCopyId lf)"
  then obtain a where a: "getOwnedAdCopy (lf_adCopyId lf) (uid u) s
        = (Inr a, run_stmt (SELECT T_AdCopies) s)"
      "a \<in> set (AdCopies s)" "a_id a = lf_adCopyId lf" "a_userId a = uid u"
    using getOwnedAdCopy_owned by blast
  with h have "\<not> owns_campaign s (uid u) (a_campaignId a)"
    by (auto simp: owns_chain_def)
  with assms a(1) show "listAdPerformance_handler lf ctx e s =
      (Inl campaign_not_found,
       s\<lparr>statements := statements s @ [SELECT T_AdCopies, SELECT T_AdCampaigns]\<rparr>)"
    by (rule listAdPerformance_handler_campaign_not_owned)
next
  assume "\<not> owns_campaign s (uid u) (ua_campaignId ua)"
  with assms show "updateAdCopy_handler ua ctx e s =
      (Inl campaign_not_found, s\<lparr>statements := statements s @ [SELECT T_AdCampaigns]\<rparr>)"
    by (rule updateAdCopy_handler_campaign_not_owned)
next
  assume "owns_campaign s (uid u) (ua_campaignId ua)
      \<and> \<not> owns_adCopy_in s (uid u) (ua_campaignId ua) (ua_id ua)"
  with assms show "updateAdCopy_handler ua ctx e s =
      (Inl ad_copy_not_found,
       s\<lparr>statements := statements s @ [SELECT T_AdCampaigns, SELECT T_AdCopies]\<rparr>)"
    by (simp add: updateAdCopy_handler_copy_not_owned)
next
  assume "\<not> owns_campaign s (uid u) (da_campaignId da)"
  with assms show "deleteAdCopy_handler da ctx e s =
      (Inl campaign_not_found, s\<lparr>statements := statements s @ [SELECT T_AdCampaigns]\<rparr>)"
    by (rule deleteAdCopy_handler_campaign_not_owned)
next
  assume "owns_campaign s (uid u) (da_campaignId da)
      \<and> \<not> owns_adCopy_in s (uid u) (da_campaignId da) (da_id da)"
  with assms show "deleteAdCopy_handler da ctx e s =
      (Inl ad_copy_not_found,
       s\<lparr>statements := statements s @ [SELECT T_AdCampaigns, DELETE T_AdCopies]\<rparr>)"
    by (simp add: deleteAdCopy_handler_copy_not_owned)
qed

theorem guard_order_witness:
  "locals_user (signed_in bob) = Some bob
   \<and> \<not> owns_adCopy store1 (uid bob) ''a1''
   \<and> owns_adCopy store1 (uid bob) ''a3''
   \<and> \<not> owns_chain store1 (uid bob) ''a3''
   \<and> \<not> owns_campaign store1 (uid bob) ''c1''
   \<and> owns_campaign store1 (uid bob) ''c3''
   \<and> \<not> owns_adCopy_in store1 (uid bob) ''c3'' ''a1''
   \<and> logAdPerformance_handler (sample_logAdPerformance ''a1'') (signed_in bob) env0 store1 =
       (Inl ad_copy_not_found, store1\<lparr>statements := [SELECT T_AdCopies]\<rparr>)
   \<and> logAdPerformance_handler (sample_logAdPerformance ''a3'') (signed_in bob) env0 store1 =
       (Inl campaign_not_found, store1\<lparr>statements := [SELECT T_AdCopies, SELECT T_AdCampaigns]\<rparr>)
   \<and> listAdPerformance_handler \<lparr>lf_adCopyId = ''a1''\<rparr> (signed_in bob) env0 store1 =
       (Inl ad_copy_not_found, store1\<lparr>statements := [SELECT T_AdCopies]\<rparr>)
   \<and> listAdPerformance_handler \<lparr>lf_adCopyId = ''a3''\<rparr> (signed_in bob) env0 store1 =
       (Inl campaign_not_found, store1\<lparr>statements := [SELECT T_AdCopies, SELECT T_AdCampaigns]\<rparr>)
   \<and> updateAdCopy_handler (sample_updateAdCopy ''a1'' ''c1'') (signed_in bob) env0 store1 =
       (Inl campaign_not_found, store1\<lparr>statements := [SELECT T_AdCampaigns]\<rparr>)
   \<and> updateAdCopy_handler (sample_updateAdCopy ''a1'' ''c3'') (signed_in bob) env0 store1 =
       (Inl ad_copy_not_found, store1\<lparr>statements := [SELECT T_AdCampaigns, SELECT T_AdCopies]\<rparr>)
   \<and> deleteAdCopy_handler \<lparr>da_id = ''a1'', da_campaignId = ''c1''\<rparr> (signed_in bob) env0 store1 =
       (Inl campaign_not_found, store1\<lparr>statements := [SELECT T_AdCampaigns]\<rparr>)
   \<and> deleteAdCopy_handler \<lparr>da_id = ''a1'', da_campaignId = ''c3''\<rparr> (signed_in bob) env0 store1 =
       (Inl ad_copy_not_found, store1\<lparr>statements := [SELECT T_AdCampaigns, DELETE T_AdCopies]\<rparr>)"
proof -
  have st: "statements store1 = []" by (simp add: store1_def)
  have ids: "uid bob = ''u2''" by (simp add: bob_def)
  have chain: "\<not> owns_chain store1 (uid bob) ''a3''"
    by (simp add: store1_not_owns_chain bob_def)
  have f1: "ua_campaignId (sample_updateAdCopy ''a1'' ''c1'') = ''c1''"
    "ua_campaignId (sample_updateAdCopy ''a1'' ''c3'') = ''c3''"
    "ua_id (sample_updateAdCopy ''a1'' ''c3'') = ''a1''"
    "lp_adCopyId (sample_logAdPerformance ''a1'') = ''a1''"
    "lp_adCopyId (sample_logAdPerformance ''a3'') = ''a3''"
    by (simp_all add: sample_updateAdCopy_def sample_logAdPerformance_def)
  note A = guard_order [OF locals_user_signed_in, of store1 bob
      "sample_logAdPerformance ''a1''" env0 "\<lparr>lf_adCopyId = ''a1''\<rparr>"
      "sample_updateAdCopy ''a1'' ''c1''" "\<lparr>da_id = ''a1'', da_campaignId = ''c1''\<rparr>"]
  note B = guard_order [OF locals_user_signed_in, of store1 bob
      "sample_logAdPerformance ''a3''" env0 "\<lparr>lf_adCopyId = ''a3''\<rparr>"
      "sample_updateAdCopy ''a1'' ''c3''" "\<lparr>da_id = ''a1'', da_campaignId = ''c3''\<rparr>"]
  show ?thesis
    using A B chain
    by (simp add: locals_user_signed_in store1_owns_campaign store1_owns_adCopy
        store1_owns_adCopy_in ids f1 st)
qed

section \<open>Deleting an ad copy\<close>

text \<open>
  C6 (as stated, refuted). Alice owns the campaign \<open>c1\<close> and the ad copy \<open>a1\<close> stored under
  it. After she has logged one performance record for \<open>a1\<close>, her \<open>deleteAdCopy\<close> of \<open>a1\<close>
  under \<open>c1\<close> does not succeed: the store refuses the delete because the performance
  record references the ad copy, the failure is not NOT_FOUND, and the ad copy stays.
  And a \<open>deleteAdCopy\<close> whose id is the empty string, which is the id of no ad copy, fails
  with the input error, not with NOT_FOUND.
\<close>

theorem delete_referenced_adCopy_counterexample:
  "logAdPerformance (sample_logAdPerformance ''a1'') (signed_in alice) env0 store0 =
       (Inr (Some logged), store_logged)
   \<and> owns_campaign store_logged (uid alice) ''c1''
   \<and> save_big \<in> set (AdCopies store_logged) \<and> a_id save_big = ''a1''
   \<and> a_campaignId save_big = ''c1'' \<and> a_userId save_big = uid alice
   \<and> deleteAdCopy \<lparr>da_id = ''a1'', da_campaignId = ''c1''\<rparr> (signed_in alice) env0 store_logged =
       (Inl (StoreError FOREIGN_KEY_constraint_failed),
        store_logged\<lparr>statements := statements store_logged
          @ [SELECT T_AdCampaigns, DELETE T_AdCopies]\<rparr>)
   \<and> '''' \<notin> a_id ` set (AdCopies store0)
   \<and> deleteAdCopy \<lparr>da_id = '''', da_campaignId = ''c1''\<rparr> (signed_in alice) env0 store0 =
       (Inl (ActionInputError [too_small ''id'']), store0)"
proof -
  have oc: "owns_chain store0 (uid alice) (lp_adCopyId (sample_logAdPerformance ''a1''))"
    by (simp add: sample_logAdPerformance_def store0_owns_chain)
  have d0: "distinct (map a_id (AdCopies store0))"
    using store0_wf by (simp add: wf_def)
  have fr: "randomUUID env0 \<notin> p_id ` set (AdPerformance store0)" by simp
  have rd: "readable_numbers (sample_logAdPerformance ''a1'')"
    by (simp add: readable_numbers_def sample_logAdPerformance_def unsafe_column_def
        unsafe_integer_def)
  have lg: "stored_performance (logAdPerformance_values (sample_logAdPerformance ''a1'')
      (randomUUID env0) (newDate env0)) = logged"
    by (simp add: stored_performance_def logAdPerformance_values_def sample_logAdPerformance_def
        env0_def logged_def)
  have a: "logAdPerformance (sample_logAdPerformance ''a1'') (signed_in alice) env0 store0 =
       (Inr (Some logged), store_logged)"
    unfolding logAdPerformance_def defineAction_cases
    using logAdPerformance_handler_owned [OF locals_user_signed_in d0 oc fr]
    by (simp add: samples_accepted rd lg store_logged_def store0_def)
  have f: "AdCampaigns store_logged = AdCampaigns store0"
    "AdCopies store_logged = AdCopies store0" "AdPerformance store_logged = [logged]"
    by (simp_all add: store_logged_def)
  have o: "owns_campaign store_logged (uid alice) ''c1''"
    using store0_owns_campaign [of "uid alice" "''c1''"] by (simp add: owns_campaign_def f)
  have m: "save_big \<in> set (AdCopies store_logged)" "a_id save_big = ''a1''"
    "a_campaignId save_big = ''c1''" "a_userId save_big = uid alice"
    by (simp_all add: f save_big_def)
  have d1: "distinct (map a_id (AdCopies store_logged))"
    using d0 by (simp add: f)
  have r: "referenced store_logged (a_id save_big)"
    by (simp add: referenced_def f logged_def save_big_def)
  have b: "deleteAdCopy \<lparr>da_id = ''a1'', da_campaignId = ''c1''\<rparr> (signed_in alice) env0
      store_logged =
       (Inl (StoreError FOREIGN_KEY_constraint_failed),
        store_logged\<lparr>statements := statements store_logged
          @ [SELECT T_AdCampaigns, DELETE T_AdCopies]\<rparr>)"
    unfolding deleteAdCopy_def defineAction_cases
    using deleteAdCopy_handler_owned [OF locals_user_signed_in d1, of alice
        "\<lparr>da_id = ''a1'', da_campaignId = ''c1''\<rparr>" save_big env0] o m r
    by (simp add: samples_accepted)
  have c: "deleteAdCopy \<lparr>da_id = '''', da_campaignId = ''c1''\<rparr> (signed_in alice) env0 store0 =
       (Inl (ActionInputError [too_small ''id'']), store0)"
    by (simp add: deleteAdCopy_def defineAction_cases deleteAdCopy_input_def min1_def)
  have n: "'''' \<notin> a_id ` set (AdCopies store0)"
    by (simp add: save_big_def stay_warm_def)
  from a o m b n c show ?thesis by blast
qed

text \<open>
  C6 (amended). \<open>deleteAdCopy\<close>, called by a signed-in user. An input that the schema
  rejects (an empty id or campaign id) fails with the input error before any store access.
  For an input the schema accepts: when no ad copy has the supplied id, and also when the
  caller owns no ad copy with that id (it belongs to another user), the operation fails
  with a NOT_FOUND error and no row changes: "Campaign not found." from the guard when the
  caller does not own the supplied campaign, and otherwise "Ad copy not found." after a
  delete statement that affected no row. When the caller owns the supplied campaign and
  the ad copy \<open>a\<close> with the supplied id stored under it, the outcome depends on the
  performance records: if one references \<open>a\<close> the store refuses the delete, the operation
  fails with that store error and no row changes; if none does the operation succeeds, the
  ad-copies table loses exactly the row \<open>a\<close>, the other tables are as before, and
  \<open>listAdCopies\<close> for that campaign returns the earlier items without \<open>a\<close>, its total one
  less than before.
\<close>

theorem deleteAdCopy_outcomes:
  assumes "locals_user ctx = Some u"
  shows "(deleteAdCopy_input da \<noteq> [] \<longrightarrow>
          deleteAdCopy da ctx e s = (Inl (ActionInputError (deleteAdCopy_input da)), s))
       \<and> (deleteAdCopy_input da = []
            \<and> (da_id da \<notin> a_id ` set (AdCopies s) \<or> \<not> owns_adCopy s (uid u) (da_id da)) \<longrightarrow>
          deleteAdCopy da ctx e s =
            (if owns_campaign s (uid u) (da_campaignId da)
             then (Inl ad_copy_not_found,
                   s\<lparr>statements := statements s @ [SELECT T_AdCampaigns, DELETE T_AdCopies]\<rparr>)
             else (Inl campaign_not_found,
                   s\<lparr>statements := statements s @ [SELECT T_AdCampaigns]\<rparr>)))
       \<and> (deleteAdCopy_input da = [] \<and> wf s \<and> owns_campaign s (uid u) (da_campaignId da)
            \<and> a \<in> set (AdCopies s) \<and> a_id a = da_id da \<and> a_campaignId a = da_campaignId da
            \<and> a_userId a = uid u \<and> referenced s (a_id a) \<longrightarrow>
          deleteAdCopy da ctx e s =
            (Inl (StoreError FOREIGN_KEY_constraint_failed),
             s\<lparr>statements := statements s @ [SELECT T_AdCampaigns, DELETE T_AdCopies]\<rparr>))
       \<and> (deleteAdCopy_input da = [] \<and> wf s \<and> owns_campaign s (uid u) (da_campaignId da)
            \<and> a \<in> set (AdCopies s) \<and> a_id a = da_id da \<and> a_campaignId a = da_campaignId da
            \<and> a_userId a = uid u \<and> \<not> referenced s (a_id a) \<longrightarrow>
          (\<exists>s'. deleteAdCopy da ctx e s = (Inr (), s')
             \<and> AdCopies s' = remove1 a (AdCopies s)
             \<and> length (AdCopies s') + 1 = length (AdCopies s)
             \<and> AdCampaigns s' = AdCampaigns s \<and> AdPerformance s' = AdPerformance s
             \<and> (\<exists>before after t t'.
                  listAdCopies \<lparr>la_campaignId = da_campaignId da\<rparr> ctx e s
                    = (Inr before, t)
                  \<and> listAdCopies \<lparr>la_campaignId = da_campaignId da\<rparr> ctx e' s'
                    = (Inr after, t')
                  \<and> items after = remove1 a (items before)
                  \<and> total before = length (items before)
                  \<and> total after = length (items after)
                  \<and> total after + 1 = total before)))"
proof (intro conjI impI)
  assume "deleteAdCopy_input da \<noteq> []"
  then show "deleteAdCopy da ctx e s = (Inl (ActionInputError (deleteAdCopy_input da)), s)"
    by (simp add: deleteAdCopy_def defineAction_cases)
next
  assume h: "deleteAdCopy_input da = []
      \<and> (da_id da \<notin> a_id ` set (AdCopies s) \<or> \<not> owns_adCopy s (uid u) (da_id da))"
  then have "\<not> owns_adCopy_in s (uid u) (da_campaignId da) (da_id da)"
    unfolding owns_adCopy_in_def owns_adCopy_def by (metis imageI)
  with assms h show "deleteAdCopy da ctx e s =
      (if owns_campaign s (uid u) (da_campaignId da)
       then (Inl ad_copy_not_found,
             s\<lparr>statements := statements s @ [SELECT T_AdCampaigns, DELETE T_AdCopies]\<rparr>)
       else (Inl campaign_not_found,
             s\<lparr>statements := statements s @ [SELECT T_AdCampaigns]\<rparr>))"
    by (simp add: deleteAdCopy_def defineAction_cases deleteAdCopy_handler_copy_not_owned
        deleteAdCopy_handler_campaign_not_owned)
next
  assume h: "deleteAdCopy_input da = [] \<and> wf s \<and> owns_campaign s (uid u) (da_campaignId da)
      \<and> a \<in> set (AdCopies s) \<and> a_id a = da_id da \<and> a_campaignId a = da_campaignId da
      \<and> a_userId a = uid u \<and> referenced s (a_id a)"
  then have d: "distinct (map a_id (AdCopies s))" and r: "referenced s (a_id a)"
    and acc: "deleteAdCopy_input da = []"
    and g: "owns_campaign s (uid u) (da_campaignId da)" "a \<in> set (AdCopies s)"
      "a_id a = da_id da" "a_campaignId a = da_campaignId da" "a_userId a = uid u"
    by (auto simp: wf_def)
  from deleteAdCopy_handler_owned [OF assms d g, of e] r acc
  show "deleteAdCopy da ctx e s =
      (Inl (StoreError FOREIGN_KEY_constraint_failed),
       s\<lparr>statements := statements s @ [SELECT T_AdCampaigns, DELETE T_AdCopies]\<rparr>)"
    by (simp add: deleteAdCopy_def defineAction_cases)
next
  let ?cid = "da_campaignId da"
  let ?Q = "\<lambda>r. a_campaignId r = ?cid \<and> a_userId r = uid u"
  assume h: "deleteAdCopy_input da = [] \<and> wf s \<and> owns_campaign s (uid u) ?cid
      \<and> a \<in> set (AdCopies s) \<and> a_id a = da_id da \<and> a_campaignId a = ?cid
      \<and> a_userId a = uid u \<and> \<not> referenced s (a_id a)"
  then have d: "distinct (map a_id (AdCopies s))" and oc: "owns_campaign s (uid u) ?cid"
    and m: "a \<in> set (AdCopies s)" and q: "?Q a" and i: "da_id da = a_id a"
    and acc: "deleteAdCopy_input da = []" and nr: "\<not> referenced s (a_id a)"
    by (auto simp: wf_def)
  have lacc: "listAdCopies_input \<lparr>la_campaignId = ?cid\<rparr> = []"
    using acc by (simp add: deleteAdCopy_input_def listAdCopies_input_def)
  define s' where "s' = s\<lparr>AdCopies := remove1 a (AdCopies s),
      statements := statements s @ [SELECT T_AdCampaigns, DELETE T_AdCopies]\<rparr>"
  have g: "a_id a = da_id da" "a_campaignId a = ?cid" "a_userId a = uid u"
    using h by simp_all
  have del: "deleteAdCopy da ctx e s = (Inr (), s')"
    using deleteAdCopy_handler_owned [OF assms d oc m g, of e] nr acc
    by (simp add: deleteAdCopy_def defineAction_cases s'_def)
  have oc': "owns_campaign s' (uid u) (la_campaignId \<lparr>la_campaignId = ?cid\<rparr>)"
    using oc by (simp add: owns_campaign_def s'_def)
  have oc0: "owns_campaign s (uid u) (la_campaignId \<lparr>la_campaignId = ?cid\<rparr>)"
    using oc by simp
  have in_items: "a \<in> set (filter ?Q (AdCopies s))"
    using m q by simp
  have len: "length (remove1 a (AdCopies s)) + 1 = length (AdCopies s)"
    using m by (simp add: length_remove1) (cases "AdCopies s", auto)
  have len2: "length (remove1 a (filter ?Q (AdCopies s))) + 1 = length (filter ?Q (AdCopies s))"
    using in_items by (simp only: length_remove1 if_True) (cases "filter ?Q (AdCopies s)", auto)
  have fr: "filter ?Q (remove1 a (AdCopies s)) = remove1 a (filter ?Q (AdCopies s))"
    by (simp add: filter_remove1)
  define before where "before = \<lparr>items = filter ?Q (AdCopies s),
      total = length (filter ?Q (AdCopies s))\<rparr>"
  define after where "after = \<lparr>items = filter ?Q (AdCopies s'),
      total = length (filter ?Q (AdCopies s'))\<rparr>"
  have lb: "listAdCopies \<lparr>la_campaignId = ?cid\<rparr> ctx e s =
      (Inr before, s\<lparr>statements := statements s @ [SELECT T_AdCampaigns, SELECT T_AdCopies]\<rparr>)"
    using listAdCopies_handler_owned [OF assms oc0, of e]
    by (simp add: listAdCopies_def defineAction_cases lacc before_def)
  have la: "listAdCopies \<lparr>la_campaignId = ?cid\<rparr> ctx e' s' =
      (Inr after, s'\<lparr>statements := statements s' @ [SELECT T_AdCampaigns, SELECT T_AdCopies]\<rparr>)"
    using listAdCopies_handler_owned [OF assms oc', of e']
    by (simp add: listAdCopies_def defineAction_cases lacc after_def)
  have c1: "AdCopies s' = remove1 a (AdCopies s)" by (simp add: s'_def)
  have c2: "length (AdCopies s') + 1 = length (AdCopies s)" using len by (simp add: s'_def)
  have c3: "AdCampaigns s' = AdCampaigns s" "AdPerformance s' = AdPerformance s"
    by (simp_all add: s'_def)
  have c4: "items after = remove1 a (items before)"
    using fr by (simp add: before_def after_def c1)
  have c5: "total before = length (items before)" "total after = length (items after)"
    by (simp_all add: before_def after_def)
  have c6: "total after + 1 = total before"
    using len2 fr by (simp add: before_def after_def c1)
  from del c1 c2 c3 lb la c4 c5 c6
  show "\<exists>s'. deleteAdCopy da ctx e s = (Inr (), s')
      \<and> AdCopies s' = remove1 a (AdCopies s)
      \<and> length (AdCopies s') + 1 = length (AdCopies s)
      \<and> AdCampaigns s' = AdCampaigns s \<and> AdPerformance s' = AdPerformance s
      \<and> (\<exists>before after t t'.
           listAdCopies \<lparr>la_campaignId = ?cid\<rparr> ctx e s = (Inr before, t)
           \<and> listAdCopies \<lparr>la_campaignId = ?cid\<rparr> ctx e' s' = (Inr after, t')
           \<and> items after = remove1 a (items before)
           \<and> total before = length (items before)
           \<and> total after = length (items after)
           \<and> total after + 1 = total before)"
    by blast
qed

theorem deleteAdCopy_outcomes_witness:
  "locals_user (signed_in alice) = Some alice
   \<and> deleteAdCopy_input \<lparr>da_id = '''', da_campaignId = ''c1''\<rparr> \<noteq> []
   \<and> deleteAdCopy \<lparr>da_id = '''', da_campaignId = ''c1''\<rparr> (signed_in alice) env0 store0 =
       (Inl (ActionInputError [too_small ''id'']), store0)
   \<and> deleteAdCopy_input \<lparr>da_id = ''zz'', da_campaignId = ''c1''\<rparr> = []
   \<and> ''zz'' \<notin> a_id ` set (AdCopies store0)
   \<and> deleteAdCopy \<lparr>da_id = ''zz'', da_campaignId = ''c1''\<rparr> (signed_in alice) env0 store0 =
       (Inl ad_copy_not_found, store0\<lparr>statements := [SELECT T_AdCampaigns, DELETE T_AdCopies]\<rparr>)
   \<and> deleteAdCopy_input \<lparr>da_id = ''a2'', da_campaignId = ''c3''\<rparr> = []
   \<and> \<not> owns_adCopy store0 (uid alice) ''a2''
   \<and> deleteAdCopy \<lparr>da_id = ''a2'', da_campaignId = ''c3''\<rparr> (signed_in alice) env0 store0 =
       (Inl campaign_not_found, store0\<lparr>statements := [SELECT T_AdCampaigns]\<rparr>)
   \<and> deleteAdCopy_input \<lparr>da_id = ''a1'', da_campaignId = ''c1''\<rparr> = []
   \<and> wf store_logged \<and> owns_campaign store_logged (uid alice) ''c1''
   \<and> save_big \<in> set (AdCopies store_logged) \<and> referenced store_logged (a_id save_big)
   \<and> deleteAdCopy \<lparr>da_id = ''a1'', da_campaignId = ''c1''\<rparr> (signed_in alice) env0 store_logged =
       (Inl (StoreError FOREIGN_KEY_constraint_failed),
        store_logged\<lparr>statements := statements store_logged
          @ [SELECT T_AdCampaigns, DELETE T_AdCopies]\<rparr>)
   \<and> wf store0 \<and> owns_campaign store0 (uid alice) ''c1'' \<and> save_big \<in> set (AdCopies store0)
   \<and> a_id save_big = ''a1'' \<and> a_campaignId save_big = ''c1'' \<and> a_userId save_big = uid alice
   \<and> \<not> referenced store0 (a_id save_big)
   \<and> (\<exists>s'. deleteAdCopy \<lparr>da_id = ''a1'', da_campaignId = ''c1''\<rparr> (signed_in alice) env0
              store0 = (Inr (), s')
         \<and> AdCopies s' = [stay_warm]
         \<and> length (AdCopies s') + 1 = length (AdCopies store0)
         \<and> AdCampaigns s' = AdCampaigns store0 \<and> AdPerformance s' = AdPerformance store0
         \<and> (\<exists>before after t t'.
              listAdCopies \<lparr>la_campaignId = ''c1''\<rparr> (signed_in alice) env0 store0
                = (Inr before, t)
              \<and> listAdCopies \<lparr>la_campaignId = ''c1''\<rparr> (signed_in alice) env0 s'
                = (Inr after, t')
              \<and> items after = remove1 save_big (items before)
              \<and> total before = length (items before)
              \<and> total after = length (items after)
              \<and> total after + 1 = total before))"
proof -
  have h0: "deleteAdCopy_input \<lparr>da_id = '''', da_campaignId = ''c1''\<rparr> = [too_small ''id'']"
    by (simp add: deleteAdCopy_input_def min1_def)
  have h1: "''zz'' \<notin> a_id ` set (AdCopies store0)"
    by (simp add: save_big_def stay_warm_def)
  have h2: "\<not> owns_adCopy store0 (uid alice) ''a2''"
    by (simp add: owns_adCopy_def save_big_def stay_warm_def)
  have h3: "save_big \<in> set (AdCopies store0)" "a_id save_big = ''a1''"
    "a_campaignId save_big = ''c1''" "a_userId save_big = uid alice"
    by (simp_all add: save_big_def)
  have f: "AdCampaigns store_logged = AdCampaigns store0"
    "AdCopies store_logged = AdCopies store0" "AdPerformance store_logged = [logged]"
    by (simp_all add: store_logged_def)
  have h4: "wf store_logged"
    using store0_wf by (simp add: wf_def f)
  have h5: "owns_campaign store_logged (uid alice) ''c1''"
    using store0_owns_campaign [of "uid alice" "''c1''"] by (simp add: owns_campaign_def f)
  have h6: "save_big \<in> set (AdCopies store_logged)" by (simp add: f)
  have h7: "referenced store_logged (a_id save_big)"
    by (simp add: referenced_def f logged_def save_big_def)
  have h8: "\<not> referenced store0 (a_id save_big)"
    by (simp add: referenced_def)
  note Z = deleteAdCopy_outcomes [OF locals_user_signed_in,
      of "\<lparr>da_id = '''', da_campaignId = ''c1''\<rparr>" alice env0 store0]
  note A = deleteAdCopy_outcomes [OF locals_user_signed_in,
      of "\<lparr>da_id = ''zz'', da_campaignId = ''c1''\<rparr>" alice env0 store0]
  note B = deleteAdCopy_outcomes [OF locals_user_signed_in,
      of "\<lparr>da_id = ''a2'', da_campaignId = ''c3''\<rparr>" alice env0 store0]
  note C = deleteAdCopy_outcomes [OF locals_user_signed_in,
      of "\<lparr>da_id = ''a1'', da_campaignId = ''c1''\<rparr>" alice env0 store0 save_big env0]
  note D = deleteAdCopy_outcomes [OF locals_user_signed_in,
      of "\<lparr>da_id = ''a1'', da_campaignId = ''c1''\<rparr>" alice env0 store_logged save_big]
  have z: "deleteAdCopy \<lparr>da_id = '''', da_campaignId = ''c1''\<rparr> (signed_in alice) env0 store0 =
       (Inl (ActionInputError [too_small ''id'']), store0)"
    using Z by (simp add: h0)
  have a: "deleteAdCopy \<lparr>da_id = ''zz'', da_campaignId = ''c1''\<rparr> (signed_in alice) env0 store0 =
       (Inl ad_copy_not_found, store0\<lparr>statements := [SELECT T_AdCampaigns, DELETE T_AdCopies]\<rparr>)"
    using A h1 by (simp add: store0_owns_campaign samples_accepted)
  have b: "deleteAdCopy \<lparr>da_id = ''a2'', da_campaignId = ''c3''\<rparr> (signed_in alice) env0 store0 =
       (Inl campaign_not_found, store0\<lparr>statements := [SELECT T_AdCampaigns]\<rparr>)"
    using B h2 by (simp add: store0_owns_campaign samples_accepted)
  have c: "\<exists>s'. deleteAdCopy \<lparr>da_id = ''a1'', da_campaignId = ''c1''\<rparr> (signed_in alice) env0
              store0 = (Inr (), s')
         \<and> AdCopies s' = [stay_warm]
         \<and> length (AdCopies s') + 1 = length (AdCopies store0)
         \<and> AdCampaigns s' = AdCampaigns store0 \<and> AdPerformance s' = AdPerformance store0
         \<and> (\<exists>before after t t'.
              listAdCopies \<lparr>la_campaignId = ''c1''\<rparr> (signed_in alice) env0 store0
                = (Inr before, t)
              \<and> listAdCopies \<lparr>la_campaignId = ''c1''\<rparr> (signed_in alice) env0 s'
                = (Inr after, t')
              \<and> items after = remove1 save_big (items before)
              \<and> total before = length (items before)
              \<and> total after = length (items after)
              \<and> total after + 1 = total before)"
    using C h3 h8 store0_wf by (simp add: store0_owns_campaign samples_accepted)
  have d: "deleteAdCopy \<lparr>da_id = ''a1'', da_campaignId = ''c1''\<rparr> (signed_in alice) env0
      store_logged =
       (Inl (StoreError FOREIGN_KEY_constraint_failed),
        store_logged\<lparr>statements := statements store_logged
          @ [SELECT T_AdCampaigns, DELETE T_AdCopies]\<rparr>)"
    using D h3 h4 h5 h6 h7 by (simp add: samples_accepted)
  show ?thesis
    using z a b c d h0 h1 h2 h3 h4 h5 h6 h7 h8 store0_wf
    by (simp add: locals_user_signed_in store0_owns_campaign samples_accepted)
qed

section \<open>Listing campaigns\<close>



section \<open>Creating rows\<close>

text \<open>
  C9. A successful \<open>createCampaign\<close> or \<open>createAdCopy\<close> returns exactly the row it
  appended to its table, and no other table changes. The row's id is the value
  \<open>crypto.randomUUID()\<close> generated for this call and is the id of no row that was in the
  table (the store refuses an id that is already a key, so the call would not have
  succeeded), hence the ids of the table stay distinct. Its \<open>createdAt\<close> and \<open>updatedAt\<close>
  are both the one \<open>new Date()\<close> of the call, so they are equal. The owner is the caller
  and each text field is the input's value as the store reads it back, which is the value
  itself when it holds no NUL character. Such calls exist: \<open>createCampaign\<close> succeeds for
  a signed-in caller whose input the schema accepts when the generated id is not yet a key;
  \<open>createAdCopy\<close> when, in addition, the caller owns the campaign.
\<close>

theorem create_returns_inserted_row:
  "(createCampaign cc ctx e s = (Inr x, t) \<longrightarrow>
      (\<exists>u c. locals_user ctx = Some u \<and> x = Some c
         \<and> AdCampaigns t = AdCampaigns s @ [c]
         \<and> AdCopies t = AdCopies s \<and> AdPerformance t = AdPerformance s
         \<and> c_id c = randomUUID e \<and> c_id c \<notin> c_id ` set (AdCampaigns s)
         \<and> c_createdAt c = newDate e \<and> c_updatedAt c = newDate e
         \<and> c_createdAt c = c_updatedAt c
         \<and> c_userId c = uid u \<and> c_name c = stored_text (cc_name cc)
         \<and> c_objective c = map_nullable stored_text (written (cc_objective cc))
         \<and> c_productName c = map_nullable stored_text (written (cc_productName cc))
         \<and> c_targetAudience c = map_nullable stored_text (written (cc_targetAudience cc))
         \<and> c_notes c = map_nullable stored_text (written (cc_notes cc))
         \<and> (CHR 0x00 \<notin> set (cc_name cc) \<longrightarrow> c_name c = cc_name cc)
         \<and> (wf s \<longrightarrow> wf t)))
   \<and> (locals_user ctx = Some v \<and> createCampaign_input cc = []
        \<and> randomUUID e \<notin> c_id ` set (AdCampaigns s) \<longrightarrow>
      (\<exists>c t. createCampaign cc ctx e s = (Inr (Some c), t)))
   \<and> (createAdCopy ca ctx e s = (Inr y, t2) \<longrightarrow>
      (\<exists>u a. locals_user ctx = Some u \<and> y = Some a
         \<and> AdCopies t2 = AdCopies s @ [a]
         \<and> AdCampaigns t2 = AdCampaigns s \<and> AdPerformance t2 = AdPerformance s
         \<and> a_id a = randomUUID e \<and> a_id a \<notin> a_id ` set (AdCopies s)
         \<and> a_createdAt a = newDate e \<and> a_updatedAt a = newDate e
         \<and> a_createdAt a = a_updatedAt a
         \<and> a_campaignId a = ca_campaignId ca \<and> a_userId a = uid u
         \<and> owns_campaign s (uid u) (a_campaignId a)
         \<and> a_platform a = map_nullable stored_text (written (ca_platform ca))
         \<and> a_headline a = map_nullable stored_text (written (ca_headline ca))
         \<and> a_primaryText a = stored_text (ca_primaryText ca)
         \<and> a_description a = map_nullable stored_text (written (ca_description ca))
         \<and> a_callToAction a = map_nullable stored_text (written (ca_callToAction ca))
         \<and> a_tone a = map_nullable stored_text (written (ca_tone ca))
         \<and> a_variantLabel a = map_nullable stored_text (written (ca_variantLabel ca))
         \<and> a_url a = map_nullable stored_text (written (ca_url ca))
         \<and> (CHR 0x00 \<notin> set (ca_primaryText ca) \<longrightarrow> a_primaryText a = ca_primaryText ca)
         \<and> (wf s \<longrightarrow> wf t2)))
   \<and> (locals_user ctx = Some v \<and> createAdCopy_input ca = []
        \<and> owns_campaign s (uid v) (ca_campaignId ca)
        \<and> randomUUID e \<notin> a_id ` set (AdCopies s) \<longrightarrow>
      (\<exists>a t. createAdCopy ca ctx e s = (Inr (Some a), t)))"
proof (intro conjI impI)
  assume "createCampaign cc ctx e s = (Inr x, t)"
  then have "createCampaign_handler cc ctx e s = (Inr x, t)"
    unfolding createCampaign_def by (blast dest: defineAction_Inr)
  from createCampaign_handler_success [OF this] obtain u where
    u: "locals_user ctx = Some u" and fr: "randomUUID e \<notin> c_id ` set (AdCampaigns s)"
    and x: "x = Some (stored_campaign (createCampaign_values cc u (randomUUID e) (newDate e)))"
    and t: "t = s\<lparr>AdCampaigns := AdCampaigns s
            @ [stored_campaign (createCampaign_values cc u (randomUUID e) (newDate e))],
          statements := statements s @ [INSERT T_AdCampaigns]\<rparr>"
    by blast
  define c where "c = stored_campaign (createCampaign_values cc u (randomUUID e) (newDate e))"
  have fields: "c_id c = randomUUID e" "c_createdAt c = newDate e" "c_updatedAt c = newDate e"
    "c_userId c = uid u" "c_name c = stored_text (cc_name cc)"
    "c_objective c = map_nullable stored_text (written (cc_objective cc))"
    "c_productName c = map_nullable stored_text (written (cc_productName cc))"
    "c_targetAudience c = map_nullable stored_text (written (cc_targetAudience cc))"
    "c_notes c = map_nullable stored_text (written (cc_notes cc))"
    by (simp_all add: c_def stored_campaign_def createCampaign_values_def)
  have tabs: "AdCampaigns t = AdCampaigns s @ [c]" "AdCopies t = AdCopies s"
    "AdPerformance t = AdPerformance s"
    by (simp_all add: t c_def)
  have wf: "wf s \<longrightarrow> wf t"
    using fr by (simp add: wf_def tabs fields)
  have clean: "CHR 0x00 \<notin> set (cc_name cc) \<longrightarrow> c_name c = cc_name cc"
    by (simp add: fields stored_text_clean)
  from u x fr tabs fields wf clean
  show "\<exists>u c. locals_user ctx = Some u \<and> x = Some c
         \<and> AdCampaigns t = AdCampaigns s @ [c]
         \<and> AdCopies t = AdCopies s \<and> AdPerformance t = AdPerformance s
         \<and> c_id c = randomUUID e \<and> c_id c \<notin> c_id ` set (AdCampaigns s)
         \<and> c_createdAt c = newDate e \<and> c_updatedAt c = newDate e
         \<and> c_createdAt c = c_updatedAt c
         \<and> c_userId c = uid u \<and> c_name c = stored_text (cc_name cc)
         \<and> c_objective c = map_nullable stored_text (written (cc_objective cc))
         \<and> c_productName c = map_nullable stored_text (written (cc_productName cc))
         \<and> c_targetAudience c = map_nullable stored_text (written (cc_targetAudience cc))
         \<and> c_notes c = map_nullable stored_text (written (cc_notes cc))
         \<and> (CHR 0x00 \<notin> set (cc_name cc) \<longrightarrow> c_name c = cc_name cc)
         \<and> (wf s \<longrightarrow> wf t)"
    unfolding c_def [symmetric] by (intro exI [of _ u] exI [of _ c]) simp
next
  assume h: "locals_user ctx = Some v \<and> createCampaign_input cc = []
      \<and> randomUUID e \<notin> c_id ` set (AdCampaigns s)"
  then have lu: "locals_user ctx = Some v"
    and fr: "randomUUID e \<notin> c_id ` set (AdCampaigns s)"
    and acc: "createCampaign_input cc = []"
    by auto
  from createCampaign_handler_result [OF lu fr, of cc] acc
  show "\<exists>c t. createCampaign cc ctx e s = (Inr (Some c), t)"
    by (simp add: createCampaign_def defineAction_cases)
next
  assume "createAdCopy ca ctx e s = (Inr y, t2)"
  then have "createAdCopy_handler ca ctx e s = (Inr y, t2)"
    unfolding createAdCopy_def by (blast dest: defineAction_Inr)
  from createAdCopy_handler_success [OF this] obtain u where
    u: "locals_user ctx = Some u" and oc: "owns_campaign s (uid u) (ca_campaignId ca)"
    and fr: "randomUUID e \<notin> a_id ` set (AdCopies s)"
    and y: "y = Some (stored_adCopy (createAdCopy_values ca u (randomUUID e) (newDate e)))"
    and t: "t2 = s\<lparr>AdCopies := AdCopies s
            @ [stored_adCopy (createAdCopy_values ca u (randomUUID e) (newDate e))],
          statements := statements s @ [SELECT T_AdCampaigns, INSERT T_AdCopies]\<rparr>"
    by blast
  define a where "a = stored_adCopy (createAdCopy_values ca u (randomUUID e) (newDate e))"
  have fields: "a_id a = randomUUID e" "a_createdAt a = newDate e" "a_updatedAt a = newDate e"
    "a_campaignId a = ca_campaignId ca" "a_userId a = uid u"
    "a_platform a = map_nullable stored_text (written (ca_platform ca))"
    "a_headline a = map_nullable stored_text (written (ca_headline ca))"
    "a_primaryText a = stored_text (ca_primaryText ca)"
    "a_description a = map_nullable stored_text (written (ca_description ca))"
    "a_callToAction a = map_nullable stored_text (written (ca_callToAction ca))"
    "a_tone a = map_nullable stored_text (written (ca_tone ca))"
    "a_variantLabel a = map_nullable stored_text (written (ca_variantLabel ca))"
    "a_url a = map_nullable stored_text (written (ca_url ca))"
    by (simp_all add: a_def stored_adCopy_def createAdCopy_values_def)
  have tabs: "AdCopies t2 = AdCopies s @ [a]" "AdCampaigns t2 = AdCampaigns s"
    "AdPerformance t2 = AdPerformance s"
    by (simp_all add: t a_def)
  have wf: "wf s \<longrightarrow> wf t2"
    using fr by (simp add: wf_def tabs fields)
  have clean: "CHR 0x00 \<notin> set (ca_primaryText ca) \<longrightarrow> a_primaryText a = ca_primaryText ca"
    by (simp add: fields stored_text_clean)
  have oc': "owns_campaign s (uid u) (a_campaignId a)"
    using oc by (simp add: fields)
  from u y fr tabs fields wf clean oc'
  show "\<exists>u a. locals_user ctx = Some u \<and> y = Some a
         \<and> AdCopies t2 = AdCopies s @ [a]
         \<and> AdCampaigns t2 = AdCampaigns s \<and> AdPerformance t2 = AdPerformance s
         \<and> a_id a = randomUUID e \<and> a_id a \<notin> a_id ` set (AdCopies s)
         \<and> a_createdAt a = newDate e \<and> a_updatedAt a = newDate e
         \<and> a_createdAt a = a_updatedAt a
         \<and> a_campaignId a = ca_campaignId ca \<and> a_userId a = uid u
         \<and> owns_campaign s (uid u) (a_campaignId a)
         \<and> a_platform a = map_nullable stored_text (written (ca_platform ca))
         \<and> a_headline a = map_nullable stored_text (written (ca_headline ca))
         \<and> a_primaryText a = stored_text (ca_primaryText ca)
         \<and> a_description a = map_nullable stored_text (written (ca_description ca))
         \<and> a_callToAction a = map_nullable stored_text (written (ca_callToAction ca))
         \<and> a_tone a = map_nullable stored_text (written (ca_tone ca))
         \<and> a_variantLabel a = map_nullable stored_text (written (ca_variantLabel ca))
         \<and> a_url a = map_nullable stored_text (written (ca_url ca))
         \<and> (CHR 0x00 \<notin> set (ca_primaryText ca) \<longrightarrow> a_primaryText a = ca_primaryText ca)
         \<and> (wf s \<longrightarrow> wf t2)"
    unfolding a_def [symmetric] by (intro exI [of _ u] exI [of _ a]) simp
next
  assume h: "locals_user ctx = Some v \<and> createAdCopy_input ca = []
      \<and> owns_campaign s (uid v) (ca_campaignId ca)
      \<and> randomUUID e \<notin> a_id ` set (AdCopies s)"
  then have lu: "locals_user ctx = Some v"
    and oc: "owns_campaign s (uid v) (ca_campaignId ca)"
    and fr: "randomUUID e \<notin> a_id ` set (AdCopies s)"
    and acc: "createAdCopy_input ca = []"
    by auto
  from createAdCopy_handler_result [OF lu oc fr] acc
  show "\<exists>a t. createAdCopy ca ctx e s = (Inr (Some a), t)"
    by (simp add: createAdCopy_def defineAction_cases)
qed

theorem create_returns_inserted_row_witness:
  "locals_user (signed_in alice) = Some alice \<and> wf store0
   \<and> createCampaign_input sample_createCampaign = []
   \<and> createAdCopy_input (sample_createAdCopy ''c1'') = []
   \<and> randomUUID env0 \<notin> c_id ` set (AdCampaigns store0)
   \<and> randomUUID env0 \<notin> a_id ` set (AdCopies store0)
   \<and> owns_campaign store0 (uid alice) (ca_campaignId (sample_createAdCopy ''c1''))
   \<and> (\<exists>c t. createCampaign sample_createCampaign (signed_in alice) env0 store0
          = (Inr (Some c), t)
        \<and> AdCampaigns t = AdCampaigns store0 @ [c]
        \<and> c_id c = ''id9'' \<and> c_createdAt c = 2000 \<and> c_updatedAt c = 2000
        \<and> c_userId c = ''u1'' \<and> c_name c = ''Autumn Sale'' \<and> wf t)
   \<and> (\<exists>a t. createAdCopy (sample_createAdCopy ''c1'') (signed_in alice) env0 store0
          = (Inr (Some a), t)
        \<and> AdCopies t = AdCopies store0 @ [a]
        \<and> a_id a = ''id9'' \<and> a_createdAt a = 2000 \<and> a_updatedAt a = 2000
        \<and> a_campaignId a = ''c1'' \<and> a_userId a = ''u1'' \<and> a_primaryText a = ''Buy now''
        \<and> wf t)"
proof -
  have f1: "randomUUID env0 \<notin> c_id ` set (AdCampaigns store0)"
    by (simp add: env0_def spring_def summer_def winter_def)
  have f2: "randomUUID env0 \<notin> a_id ` set (AdCopies store0)"
    by (simp add: env0_def save_big_def stay_warm_def)
  have o: "owns_campaign store0 (uid alice) (ca_campaignId (sample_createAdCopy ''c1''))"
    by (simp add: store0_owns_campaign sample_createAdCopy_def)
  have v: "randomUUID env0 = ''id9''" "newDate env0 = 2000"
    "cc_name sample_createCampaign = ''Autumn Sale''"
    "ca_campaignId (sample_createAdCopy ''c1'') = ''c1''"
    "ca_primaryText (sample_createAdCopy ''c1'') = ''Buy now''"
    by (simp_all add: env0_def sample_createCampaign_def sample_createAdCopy_def)
  have n: "CHR 0x00 \<notin> set ''Autumn Sale''" "CHR 0x00 \<notin> set ''Buy now''"
    by simp_all
  note acc = samples_accepted(1,3)
  note lu = locals_user_signed_in [of alice]
  note E = create_returns_inserted_row [where cc = sample_createCampaign
      and ctx = "signed_in alice" and e = env0 and s = store0 and v = alice
      and ca = "sample_createAdCopy ''c1''"]
  from E lu acc f1 obtain c t where
    c: "createCampaign sample_createCampaign (signed_in alice) env0 store0 = (Inr (Some c), t)"
    by blast
  from E lu acc o f2 obtain a t2 where
    a: "createAdCopy (sample_createAdCopy ''c1'') (signed_in alice) env0 store0
        = (Inr (Some a), t2)"
    by blast
  note P = create_returns_inserted_row [where cc = sample_createCampaign
      and ctx = "signed_in alice" and e = env0 and s = store0 and v = alice
      and ca = "sample_createAdCopy ''c1''" and x = "Some c" and t = t
      and y = "Some a" and ?t2.0 = t2]
  from P c lu store0_wf n have pc:
      "AdCampaigns t = AdCampaigns store0 @ [c]"
      "c_id c = randomUUID env0" "c_createdAt c = newDate env0" "c_updatedAt c = newDate env0"
      "c_userId c = uid alice" "c_name c = cc_name sample_createCampaign" "wf t"
    by (auto simp: v)
  from P a lu store0_wf n have pa:
      "AdCopies t2 = AdCopies store0 @ [a]"
      "a_id a = randomUUID env0" "a_createdAt a = newDate env0" "a_updatedAt a = newDate env0"
      "a_campaignId a = ca_campaignId (sample_createAdCopy ''c1'')" "a_userId a = uid alice"
      "a_primaryText a = ca_primaryText (sample_createAdCopy ''c1'')" "wf t2"
    by (auto simp: v)
  have C: "\<exists>c t. createCampaign sample_createCampaign (signed_in alice) env0 store0
          = (Inr (Some c), t)
        \<and> AdCampaigns t = AdCampaigns store0 @ [c]
        \<and> c_id c = ''id9'' \<and> c_createdAt c = 2000 \<and> c_updatedAt c = 2000
        \<and> c_userId c = ''u1'' \<and> c_name c = ''Autumn Sale'' \<and> wf t"
    using c pc v by (intro exI [of _ c] exI [of _ t]) simp
  have A: "\<exists>a t. createAdCopy (sample_createAdCopy ''c1'') (signed_in alice) env0 store0
          = (Inr (Some a), t)
        \<and> AdCopies t = AdCopies store0 @ [a]
        \<and> a_id a = ''id9'' \<and> a_createdAt a = 2000 \<and> a_updatedAt a = 2000
        \<and> a_campaignId a = ''c1'' \<and> a_userId a = ''u1'' \<and> a_primaryText a = ''Buy now''
        \<and> wf t"
    using a pa v by (intro exI [of _ a] exI [of _ t2]) simp
  show ?thesis
    using C A f1 f2 o store0_wf lu acc by blast
qed

section \<open>Sparse update\<close>

text \<open>
  C2 (as stated, refuted). \<open>updatedAt\<close> is set to the \<open>new Date()\<close> of the call whatever
  the row holds. Alice updates the notes of her campaign \<open>c1\<close>, whose \<open>updatedAt\<close> is 1000,
  at a moment when the clock reads 500: the operation succeeds and the row's \<open>updatedAt\<close>
  is 500, which is less than its value before the update.
\<close>

theorem updatedAt_goes_back_counterexample:
  "spring \<in> set (AdCampaigns store0) \<and> c_updatedAt spring = 1000 \<and> newDate env_past = 500
   \<and> (\<exists>r t. updateCampaign (sample_updateCampaign ''c1'') (signed_in alice) env_past store0
          = (Inr (Some r), t)
        \<and> AdCampaigns t = [r, summer, winter] \<and> c_id r = c_id spring
        \<and> c_notes r = Value ''urgent''
        \<and> c_updatedAt r = 500 \<and> \<not> c_updatedAt spring \<le> c_updatedAt r)"
proof -
  have d: "distinct (map c_id (AdCampaigns store0))"
    using store0_wf by (simp add: wf_def)
  have m: "spring \<in> set (AdCampaigns store0)" "c_id spring = uc_id (sample_updateCampaign ''c1'')"
    "c_userId spring = uid alice"
    by (simp_all add: spring_def sample_updateCampaign_def)
  have ne: "summer \<noteq> spring" "winter \<noteq> spring"
    by (simp_all add: spring_def summer_def winter_def)
  define r where "r = assign_campaign
      (updateCampaign_set (sample_updateCampaign ''c1'') (newDate env_past)) spring"
  define t where "t = store0\<lparr>AdCampaigns := [r, summer, winter],
      statements := [SELECT T_AdCampaigns, UPDATE T_AdCampaigns]\<rparr>"
  have u: "updateCampaign (sample_updateCampaign ''c1'') (signed_in alice) env_past store0 =
      (Inr (Some r), t)"
    using updateCampaign_handler_owned [OF locals_user_signed_in d m, of env_past] ne
    by (simp add: updateCampaign_def defineAction_cases samples_accepted r_def t_def)
  have tt: "AdCampaigns t = [r, summer, winter]"
    by (simp add: t_def)
  have f: "c_id r = c_id spring" "c_notes r = Value ''urgent''" "c_updatedAt r = 500"
    by (simp_all add: r_def assign_campaign_def updateCampaign_set_def sample_updateCampaign_def
        env_past_def stored_text_def)
  have g: "c_updatedAt spring = 1000" "newDate env_past = 500"
    by (simp_all add: spring_def env_past_def)
  have "\<exists>r t. updateCampaign (sample_updateCampaign ''c1'') (signed_in alice) env_past store0
          = (Inr (Some r), t)
        \<and> AdCampaigns t = [r, summer, winter] \<and> c_id r = c_id spring
        \<and> c_notes r = Value ''urgent''
        \<and> c_updatedAt r = 500 \<and> \<not> c_updatedAt spring \<le> c_updatedAt r"
    using u tt f g by (intro exI [of _ r] exI [of _ t]) simp
  with m(1) g show ?thesis by blast
qed

text \<open>
  C2 (amended). \<open>updateCampaign\<close> on a campaign the caller owns, and \<open>updateAdCopy\<close> on an
  ad copy the caller owns under the supplied campaign, with an input the schema accepts
  and in a store with unique ids: the operation succeeds and returns the updated row,
  which replaces the old one in its table while every other row and table is as before,
  and the ids stay unique. In the updated row every field the input left undefined has its
  value from before the update (it is not set to null), every supplied field has the
  supplied value as the store reads it back (the value up to its first NUL character,
  which is the value itself when it holds none), and id, owner, campaign id and
  \<open>createdAt\<close> are unchanged. \<open>updatedAt\<close> is the \<open>new Date()\<close> of the call: it is at or after
  the previous \<open>updatedAt\<close> exactly when the clock at the call does not read less than
  the value the row holds.
\<close>

theorem update_changes_supplied_fields_only:
  assumes "locals_user ctx = Some u" "wf s"
  shows "(updateCampaign_input uc = []
            \<and> r \<in> set (AdCampaigns s) \<and> c_id r = uc_id uc \<and> c_userId r = uid u \<longrightarrow>
          (\<exists>r' t. updateCampaign uc ctx e s = (Inr (Some r'), t)
             \<and> AdCampaigns t = map (\<lambda>x. if x = r then r' else x) (AdCampaigns s)
             \<and> AdCopies t = AdCopies s \<and> AdPerformance t = AdPerformance s \<and> wf t
             \<and> c_id r' = c_id r \<and> c_userId r' = c_userId r \<and> c_createdAt r' = c_createdAt r
             \<and> c_name r' = (case uc_name uc of None \<Rightarrow> c_name r | Some v \<Rightarrow> stored_text v)
             \<and> c_objective r' =
                 (case uc_objective uc of None \<Rightarrow> c_objective r
                  | Some v \<Rightarrow> Value (stored_text v))
             \<and> c_productName r' =
                 (case uc_productName uc of None \<Rightarrow> c_productName r
                  | Some v \<Rightarrow> Value (stored_text v))
             \<and> c_targetAudience r' =
                 (case uc_targetAudience uc of None \<Rightarrow> c_targetAudience r
                  | Some v \<Rightarrow> Value (stored_text v))
             \<and> c_notes r' =
                 (case uc_notes uc of None \<Rightarrow> c_notes r | Some v \<Rightarrow> Value (stored_text v))
             \<and> c_updatedAt r' = newDate e
             \<and> (c_updatedAt r \<le> c_updatedAt r') = (c_updatedAt r \<le> newDate e)))
       \<and> (updateAdCopy_input ua = []
            \<and> owns_campaign s (uid u) (ua_campaignId ua) \<and> a \<in> set (AdCopies s)
            \<and> a_id a = ua_id ua \<and> a_campaignId a = ua_campaignId ua \<and> a_userId a = uid u \<longrightarrow>
          (\<exists>a' t. updateAdCopy ua ctx e s = (Inr (Some a'), t)
             \<and> AdCopies t = map (\<lambda>x. if x = a then a' else x) (AdCopies s)
             \<and> AdCampaigns t = AdCampaigns s \<and> AdPerformance t = AdPerformance s \<and> wf t
             \<and> a_id a' = a_id a \<and> a_campaignId a' = a_campaignId a
             \<and> a_userId a' = a_userId a \<and> a_createdAt a' = a_createdAt a
             \<and> a_platform a' =
                 (case ua_platform ua of None \<Rightarrow> a_platform a
                  | Some v \<Rightarrow> Value (stored_text v))
             \<and> a_headline a' =
                 (case ua_headline ua of None \<Rightarrow> a_headline a
                  | Some v \<Rightarrow> Value (stored_text v))
             \<and> a_primaryText a' =
                 (case ua_primaryText ua of None \<Rightarrow> a_primaryText a | Some v \<Rightarrow> stored_text v)
             \<and> a_description a' =
                 (case ua_description ua of None \<Rightarrow> a_description a
                  | Some v \<Rightarrow> Value (stored_text v))
             \<and> a_callToAction a' =
                 (case ua_callToAction ua of None \<Rightarrow> a_callToAction a
                  | Some v \<Rightarrow> Value (stored_text v))
             \<and> a_tone a' =
                 (case ua_tone ua of None \<Rightarrow> a_tone a | Some v \<Rightarrow> Value (stored_text v))
             \<and> a_variantLabel a' =
                 (case ua_variantLabel ua of None \<Rightarrow> a_variantLabel a
                  | Some v \<Rightarrow> Value (stored_text v))
             \<and> a_url a' =
                 (case ua_url ua of None \<Rightarrow> a_url a | Some v \<Rightarrow> Value (stored_text v))
             \<and> a_updatedAt a' = newDate e
             \<and> (a_updatedAt a \<le> a_updatedAt a') = (a_updatedAt a \<le> newDate e)))"
proof (intro conjI impI)
  assume h: "updateCampaign_input uc = []
      \<and> r \<in> set (AdCampaigns s) \<and> c_id r = uc_id uc \<and> c_userId r = uid u"
  from assms(2) have d: "distinct (map c_id (AdCampaigns s))" by (simp add: wf_def)
  from h have m: "r \<in> set (AdCampaigns s)" and i: "c_id r = uc_id uc"
    and o: "c_userId r = uid u" and acc: "updateCampaign_input uc = []"
    by auto
  define r' where "r' = assign_campaign (updateCampaign_set uc (newDate e)) r"
  define t where "t = s\<lparr>AdCampaigns := map (\<lambda>x. if x = r then r' else x) (AdCampaigns s),
      statements := statements s @ [SELECT T_AdCampaigns, UPDATE T_AdCampaigns]\<rparr>"
  have run: "updateCampaign uc ctx e s = (Inr (Some r'), t)"
    using updateCampaign_handler_owned [OF assms(1) d m i o, of e] acc
    by (simp add: updateCampaign_def defineAction_cases r'_def t_def)
  have tabs: "AdCampaigns t = map (\<lambda>x. if x = r then r' else x) (AdCampaigns s)"
    "AdCopies t = AdCopies s" "AdPerformance t = AdPerformance s"
    by (simp_all add: t_def)
  have key: "c_id r' = c_id r" "c_userId r' = c_userId r" "c_createdAt r' = c_createdAt r"
    "c_updatedAt r' = newDate e"
    by (simp_all add: r'_def assign_campaign_def updateCampaign_set_def)
  have fields:
    "c_name r' = (case uc_name uc of None \<Rightarrow> c_name r | Some v \<Rightarrow> stored_text v)"
    "c_objective r' =
       (case uc_objective uc of None \<Rightarrow> c_objective r | Some v \<Rightarrow> Value (stored_text v))"
    "c_productName r' =
       (case uc_productName uc of None \<Rightarrow> c_productName r | Some v \<Rightarrow> Value (stored_text v))"
    "c_targetAudience r' =
       (case uc_targetAudience uc of None \<Rightarrow> c_targetAudience r
        | Some v \<Rightarrow> Value (stored_text v))"
    "c_notes r' = (case uc_notes uc of None \<Rightarrow> c_notes r | Some v \<Rightarrow> Value (stored_text v))"
    by (simp_all add: r'_def assign_campaign_def updateCampaign_set_def)
  have km: "map c_id (AdCampaigns t) = map c_id (AdCampaigns s)"
    unfolding tabs using key(1) by (rule map_key_replace [of c_id r' r])
  have wf: "wf t"
    using assms(2) km by (simp add: wf_def tabs(2,3))
  from run tabs wf key fields
  show "\<exists>r' t. updateCampaign uc ctx e s = (Inr (Some r'), t)
      \<and> AdCampaigns t = map (\<lambda>x. if x = r then r' else x) (AdCampaigns s)
      \<and> AdCopies t = AdCopies s \<and> AdPerformance t = AdPerformance s \<and> wf t
      \<and> c_id r' = c_id r \<and> c_userId r' = c_userId r \<and> c_createdAt r' = c_createdAt r
      \<and> c_name r' = (case uc_name uc of None \<Rightarrow> c_name r | Some v \<Rightarrow> stored_text v)
      \<and> c_objective r' =
          (case uc_objective uc of None \<Rightarrow> c_objective r
           | Some v \<Rightarrow> Value (stored_text v))
      \<and> c_productName r' =
          (case uc_productName uc of None \<Rightarrow> c_productName r
           | Some v \<Rightarrow> Value (stored_text v))
      \<and> c_targetAudience r' =
          (case uc_targetAudience uc of None \<Rightarrow> c_targetAudience r
           | Some v \<Rightarrow> Value (stored_text v))
      \<and> c_notes r' =
          (case uc_notes uc of None \<Rightarrow> c_notes r | Some v \<Rightarrow> Value (stored_text v))
      \<and> c_updatedAt r' = newDate e
      \<and> (c_updatedAt r \<le> c_updatedAt r') = (c_updatedAt r \<le> newDate e)"
    by (intro exI [of _ r'] exI [of _ t]) simp
next
  assume h: "updateAdCopy_input ua = []
      \<and> owns_campaign s (uid u) (ua_campaignId ua) \<and> a \<in> set (AdCopies s)
      \<and> a_id a = ua_id ua \<and> a_campaignId a = ua_campaignId ua \<and> a_userId a = uid u"
  from assms(2) have d: "distinct (map a_id (AdCopies s))" by (simp add: wf_def)
  from h have oc: "owns_campaign s (uid u) (ua_campaignId ua)" and m: "a \<in> set (AdCopies s)"
    and i: "a_id a = ua_id ua" and c: "a_campaignId a = ua_campaignId ua"
    and o: "a_userId a = uid u" and acc: "updateAdCopy_input ua = []"
    by auto
  define a' where "a' = assign_adCopy (updateAdCopy_set ua (newDate e)) a"
  define t where "t = s\<lparr>AdCopies := map (\<lambda>x. if x = a then a' else x) (AdCopies s),
      statements := statements s
        @ [SELECT T_AdCampaigns, SELECT T_AdCopies, UPDATE T_AdCopies]\<rparr>"
  have run: "updateAdCopy ua ctx e s = (Inr (Some a'), t)"
    using updateAdCopy_handler_owned [OF assms(1) d oc m i c o, of e] acc
    by (simp add: updateAdCopy_def defineAction_cases a'_def t_def)
  have tabs: "AdCopies t = map (\<lambda>x. if x = a then a' else x) (AdCopies s)"
    "AdCampaigns t = AdCampaigns s" "AdPerformance t = AdPerformance s"
    by (simp_all add: t_def)
  have key: "a_id a' = a_id a" "a_campaignId a' = a_campaignId a" "a_userId a' = a_userId a"
    "a_createdAt a' = a_createdAt a" "a_updatedAt a' = newDate e"
    by (simp_all add: a'_def assign_adCopy_def updateAdCopy_set_def)
  have fields:
    "a_platform a' =
       (case ua_platform ua of None \<Rightarrow> a_platform a | Some v \<Rightarrow> Value (stored_text v))"
    "a_headline a' =
       (case ua_headline ua of None \<Rightarrow> a_headline a | Some v \<Rightarrow> Value (stored_text v))"
    "a_primaryText a' =
       (case ua_primaryText ua of None \<Rightarrow> a_primaryText a | Some v \<Rightarrow> stored_text v)"
    "a_description a' =
       (case ua_description ua of None \<Rightarrow> a_description a | Some v \<Rightarrow> Value (stored_text v))"
    "a_callToAction a' =
       (case ua_callToAction ua of None \<Rightarrow> a_callToAction a
        | Some v \<Rightarrow> Value (stored_text v))"
    "a_tone a' = (case ua_tone ua of None \<Rightarrow> a_tone a | Some v \<Rightarrow> Value (stored_text v))"
    "a_variantLabel a' =
       (case ua_variantLabel ua of None \<Rightarrow> a_variantLabel a
        | Some v \<Rightarrow> Value (stored_text v))"
    "a_url a' = (case ua_url ua of None \<Rightarrow> a_url a | Some v \<Rightarrow> Value (stored_text v))"
    by (simp_all add: a'_def assign_adCopy_def updateAdCopy_set_def)
  have km: "map a_id (AdCopies t) = map a_id (AdCopies s)"
    unfolding tabs using key(1) by (rule map_key_replace [of a_id a' a])
  have wf: "wf t"
    using assms(2) km by (simp add: wf_def tabs(2,3))
  from run tabs wf key fields
  show "\<exists>a' t. updateAdCopy ua ctx e s = (Inr (Some a'), t)
      \<and> AdCopies t = map (\<lambda>x. if x = a then a' else x) (AdCopies s)
      \<and> AdCampaigns t = AdCampaigns s \<and> AdPerformance t = AdPerformance s \<and> wf t
      \<and> a_id a' = a_id a \<and> a_campaignId a' = a_campaignId a
      \<and> a_userId a' = a_userId a \<and> a_createdAt a' = a_createdAt a
      \<and> a_platform a' =
          (case ua_platform ua of None \<Rightarrow> a_platform a
           | Some v \<Rightarrow> Value (stored_text v))
      \<and> a_headline a' =
          (case ua_headline ua of None \<Rightarrow> a_headline a
           | Some v \<Rightarrow> Value (stored_text v))
      \<and> a_primaryText a' =
          (case ua_primaryText ua of None \<Rightarrow> a_primaryText a | Some v \<Rightarrow> stored_text v)
      \<and> a_description a' =
          (case ua_description ua of None \<Rightarrow> a_description a
           | Some v \<Rightarrow> Value (stored_text v))
      \<and> a_callToAction a' =
          (case ua_callToAction ua of None \<Rightarrow> a_callToAction a
           | Some v \<Rightarrow> Value (stored_text v))
      \<and> a_tone a' =
          (case ua_tone ua of None \<Rightarrow> a_tone a | Some v \<Rightarrow> Value (stored_text v))
      \<and> a_variantLabel a' =
          (case ua_variantLabel ua of None \<Rightarrow> a_variantLabel a
           | Some v \<Rightarrow> Value (stored_text v))
      \<and> a_url a' =
          (case ua_url ua of None \<Rightarrow> a_url a | Some v \<Rightarrow> Value (stored_text v))
      \<and> a_updatedAt a' = newDate e
      \<and> (a_updatedAt a \<le> a_updatedAt a') = (a_updatedAt a \<le> newDate e)"
    by (intro exI [of _ a'] exI [of _ t]) simp
qed

theorem update_changes_supplied_fields_only_witness:
  "locals_user (signed_in alice) = Some alice \<and> wf store0
   \<and> updateCampaign_input (sample_updateCampaign ''c1'') = []
   \<and> updateCampaign_input nul_name_uc = []
   \<and> updateAdCopy_input (sample_updateAdCopy ''a1'' ''c1'') = []
   \<and> spring \<in> set (AdCampaigns store0) \<and> c_id spring = uc_id (sample_updateCampaign ''c1'')
   \<and> c_id spring = uc_id nul_name_uc \<and> c_userId spring = uid alice
   \<and> owns_campaign store0 (uid alice) (ua_campaignId (sample_updateAdCopy ''a1'' ''c1''))
   \<and> save_big \<in> set (AdCopies store0) \<and> a_id save_big = ua_id (sample_updateAdCopy ''a1'' ''c1'')
   \<and> a_campaignId save_big = ua_campaignId (sample_updateAdCopy ''a1'' ''c1'')
   \<and> a_userId save_big = uid alice
   \<and> (\<exists>r' t. updateCampaign (sample_updateCampaign ''c1'') (signed_in alice) env0 store0
          = (Inr (Some r'), t)
        \<and> AdCampaigns t = [r', summer, winter]
        \<and> AdCopies t = AdCopies store0 \<and> AdPerformance t = AdPerformance store0 \<and> wf t
        \<and> c_id r' = ''c1'' \<and> c_userId r' = ''u1'' \<and> c_createdAt r' = 1000
        \<and> c_name r' = ''Spring Sale'' \<and> c_objective r' = Value ''sales''
        \<and> c_productName r' = Null \<and> c_targetAudience r' = Null
        \<and> c_notes r' = Value ''urgent'' \<and> c_updatedAt r' = 2000
        \<and> c_updatedAt spring \<le> c_updatedAt r')
   \<and> (\<exists>r' t. updateCampaign nul_name_uc (signed_in alice) env0 store0 = (Inr (Some r'), t)
        \<and> AdCampaigns t = [r', summer, winter]
        \<and> c_name r' = ''Spring'' \<and> c_objective r' = Value ''sales'' \<and> c_notes r' = Null
        \<and> c_updatedAt r' = 2000)
   \<and> (\<exists>a' t. updateAdCopy (sample_updateAdCopy ''a1'' ''c1'') (signed_in alice) env0 store0
          = (Inr (Some a'), t)
        \<and> AdCopies t = [a', stay_warm]
        \<and> AdCampaigns t = AdCampaigns store0 \<and> AdPerformance t = AdPerformance store0 \<and> wf t
        \<and> a_id a' = ''a1'' \<and> a_campaignId a' = ''c1'' \<and> a_userId a' = ''u1''
        \<and> a_createdAt a' = 1300 \<and> a_platform a' = Value ''google''
        \<and> a_headline a' = Value ''Hello'' \<and> a_primaryText a' = ''Save big''
        \<and> a_description a' = Null \<and> a_callToAction a' = Null \<and> a_tone a' = Null
        \<and> a_variantLabel a' = Null \<and> a_url a' = Null \<and> a_updatedAt a' = 2000
        \<and> a_updatedAt save_big \<le> a_updatedAt a')"
proof -
  have acn: "updateCampaign_input nul_name_uc = []"
    by (simp add: updateCampaign_input_def updateCampaign_refine_def min1_def nul_name_uc_def)
  note acc = samples_accepted(2) acn samples_accepted(4)
  have hc: "spring \<in> set (AdCampaigns store0)"
    "c_id spring = uc_id (sample_updateCampaign ''c1'')"
    "c_id spring = uc_id nul_name_uc"
    "c_userId spring = uid alice"
    by (simp_all add: spring_def sample_updateCampaign_def nul_name_uc_def)
  have ha: "owns_campaign store0 (uid alice) (ua_campaignId (sample_updateAdCopy ''a1'' ''c1''))"
    "save_big \<in> set (AdCopies store0)"
    "a_id save_big = ua_id (sample_updateAdCopy ''a1'' ''c1'')"
    "a_campaignId save_big = ua_campaignId (sample_updateAdCopy ''a1'' ''c1'')"
    "a_userId save_big = uid alice"
    by (simp_all add: store0_owns_campaign save_big_def sample_updateAdCopy_def)
  have ne: "summer \<noteq> spring" "winter \<noteq> spring" "stay_warm \<noteq> save_big"
    by (simp_all add: spring_def summer_def winter_def save_big_def stay_warm_def)
  note T = update_changes_supplied_fields_only [OF locals_user_signed_in store0_wf,
      where uc = "sample_updateCampaign ''c1''" and r = spring and u = alice and e = env0
        and ua = "sample_updateAdCopy ''a1'' ''c1''" and a = save_big]
  note N = update_changes_supplied_fields_only [OF locals_user_signed_in store0_wf,
      where uc = nul_name_uc and r = spring and u = alice and e = env0
        and ua = "sample_updateAdCopy ''a1'' ''c1''" and a = save_big]
  from T acc hc obtain r' t where
    r: "updateCampaign (sample_updateCampaign ''c1'') (signed_in alice) env0 store0
          = (Inr (Some r'), t)"
      "AdCampaigns t = map (\<lambda>x. if x = spring then r' else x) (AdCampaigns store0)"
      "AdCopies t = AdCopies store0" "AdPerformance t = AdPerformance store0" "wf t"
      "c_id r' = c_id spring" "c_userId r' = c_userId spring" "c_createdAt r' = c_createdAt spring"
      "c_name r' = (case uc_name (sample_updateCampaign ''c1'') of
                      None \<Rightarrow> c_name spring | Some v \<Rightarrow> stored_text v)"
      "c_objective r' = (case uc_objective (sample_updateCampaign ''c1'') of
                      None \<Rightarrow> c_objective spring | Some v \<Rightarrow> Value (stored_text v))"
      "c_productName r' = (case uc_productName (sample_updateCampaign ''c1'') of
                      None \<Rightarrow> c_productName spring | Some v \<Rightarrow> Value (stored_text v))"
      "c_targetAudience r' = (case uc_targetAudience (sample_updateCampaign ''c1'') of
                      None \<Rightarrow> c_targetAudience spring | Some v \<Rightarrow> Value (stored_text v))"
      "c_notes r' = (case uc_notes (sample_updateCampaign ''c1'') of
                      None \<Rightarrow> c_notes spring | Some v \<Rightarrow> Value (stored_text v))"
      "c_updatedAt r' = newDate env0"
    by blast
  from N acc hc obtain n' tn where
    n: "updateCampaign nul_name_uc (signed_in alice) env0 store0 = (Inr (Some n'), tn)"
      "AdCampaigns tn = map (\<lambda>x. if x = spring then n' else x) (AdCampaigns store0)"
      "c_name n' = (case uc_name nul_name_uc of
                      None \<Rightarrow> c_name spring | Some v \<Rightarrow> stored_text v)"
      "c_objective n' = (case uc_objective nul_name_uc of
                      None \<Rightarrow> c_objective spring | Some v \<Rightarrow> Value (stored_text v))"
      "c_notes n' = (case uc_notes nul_name_uc of
                      None \<Rightarrow> c_notes spring | Some v \<Rightarrow> Value (stored_text v))"
      "c_updatedAt n' = newDate env0"
    by blast
  from T acc ha obtain a' t' where
    a: "updateAdCopy (sample_updateAdCopy ''a1'' ''c1'') (signed_in alice) env0 store0
          = (Inr (Some a'), t')"
      "AdCopies t' = map (\<lambda>x. if x = save_big then a' else x) (AdCopies store0)"
      "AdCampaigns t' = AdCampaigns store0" "AdPerformance t' = AdPerformance store0" "wf t'"
      "a_id a' = a_id save_big" "a_campaignId a' = a_campaignId save_big"
      "a_userId a' = a_userId save_big" "a_createdAt a' = a_createdAt save_big"
      "a_platform a' = (case ua_platform (sample_updateAdCopy ''a1'' ''c1'') of
                      None \<Rightarrow> a_platform save_big | Some v \<Rightarrow> Value (stored_text v))"
      "a_headline a' = (case ua_headline (sample_updateAdCopy ''a1'' ''c1'') of
                      None \<Rightarrow> a_headline save_big | Some v \<Rightarrow> Value (stored_text v))"
      "a_primaryText a' = (case ua_primaryText (sample_updateAdCopy ''a1'' ''c1'') of
                      None \<Rightarrow> a_primaryText save_big | Some v \<Rightarrow> stored_text v)"
      "a_description a' = (case ua_description (sample_updateAdCopy ''a1'' ''c1'') of
                      None \<Rightarrow> a_description save_big | Some v \<Rightarrow> Value (stored_text v))"
      "a_callToAction a' = (case ua_callToAction (sample_updateAdCopy ''a1'' ''c1'') of
                      None \<Rightarrow> a_callToAction save_big | Some v \<Rightarrow> Value (stored_text v))"
      "a_tone a' = (case ua_tone (sample_updateAdCopy ''a1'' ''c1'') of
                      None \<Rightarrow> a_tone save_big | Some v \<Rightarrow> Value (stored_text v))"
      "a_variantLabel a' = (case ua_variantLabel (sample_updateAdCopy ''a1'' ''c1'') of
                      None \<Rightarrow> a_variantLabel save_big | Some v \<Rightarrow> Value (stored_text v))"
      "a_url a' = (case ua_url (sample_updateAdCopy ''a1'' ''c1'') of
                      None \<Rightarrow> a_url save_big | Some v \<Rightarrow> Value (stored_text v))"
      "a_updatedAt a' = newDate env0"
    by blast
  have C: "\<exists>r' t. updateCampaign (sample_updateCampaign ''c1'') (signed_in alice) env0 store0
          = (Inr (Some r'), t)
        \<and> AdCampaigns t = [r', summer, winter]
        \<and> AdCopies t = AdCopies store0 \<and> AdPerformance t = AdPerformance store0 \<and> wf t
        \<and> c_id r' = ''c1'' \<and> c_userId r' = ''u1'' \<and> c_createdAt r' = 1000
        \<and> c_name r' = ''Spring Sale'' \<and> c_objective r' = Value ''sales''
        \<and> c_productName r' = Null \<and> c_targetAudience r' = Null
        \<and> c_notes r' = Value ''urgent'' \<and> c_updatedAt r' = 2000
        \<and> c_updatedAt spring \<le> c_updatedAt r'"
    using r ne
    by (intro exI [of _ r'] exI [of _ t])
       (simp add: spring_def sample_updateCampaign_def env0_def stored_text_def)
  have D: "\<exists>r' t. updateCampaign nul_name_uc (signed_in alice) env0 store0 = (Inr (Some r'), t)
        \<and> AdCampaigns t = [r', summer, winter]
        \<and> c_name r' = ''Spring'' \<and> c_objective r' = Value ''sales'' \<and> c_notes r' = Null
        \<and> c_updatedAt r' = 2000"
    using n ne
    by (intro exI [of _ n'] exI [of _ tn])
       (simp add: spring_def nul_name_uc_def env0_def stored_text_def)
  have A: "\<exists>a' t. updateAdCopy (sample_updateAdCopy ''a1'' ''c1'') (signed_in alice) env0 store0
          = (Inr (Some a'), t)
        \<and> AdCopies t = [a', stay_warm]
        \<and> AdCampaigns t = AdCampaigns store0 \<and> AdPerformance t = AdPerformance store0 \<and> wf t
        \<and> a_id a' = ''a1'' \<and> a_campaignId a' = ''c1'' \<and> a_userId a' = ''u1''
        \<and> a_createdAt a' = 1300 \<and> a_platform a' = Value ''google''
        \<and> a_headline a' = Value ''Hello'' \<and> a_primaryText a' = ''Save big''
        \<and> a_description a' = Null \<and> a_callToAction a' = Null \<and> a_tone a' = Null
        \<and> a_variantLabel a' = Null \<and> a_url a' = Null \<and> a_updatedAt a' = 2000
        \<and> a_updatedAt save_big \<le> a_updatedAt a'"
    using a ne
    by (intro exI [of _ a'] exI [of _ t'])
       (simp add: save_big_def sample_updateAdCopy_def env0_def stored_text_def)
  show ?thesis
    using C D A acc hc ha store0_wf locals_user_signed_in [of alice] by blast
qed

section \<open>Logging performance\<close>




end
